theory Spec2Isabelle
  imports Main
begin

section \<open>Values of the program\<close>

text \<open>
  The chat client (\<^verbatim>\<open>chat.py\<close>) handles JSON documents: those it receives from the
  completion server (the batched response, the chunks of a stream), the pointer file and
  the transcripts, which it builds itself or reads back from a file of any content.
  JSON values are modelled as Python sees them after \<^verbatim>\<open>json.loads\<close>: \<open>JNull\<close> is
  \<^verbatim>\<open>None\<close>, an object is a dict (an association list with distinct keys, in insertion
  order). Numbers with a fraction or an exponent (Python floats) are outside the model.
\<close>

datatype json =
  JNull
  | JBool bool
  | JInt int
  | JStr string
  | JArr "json list"
  | JObj "(string \<times> json) list"

text \<open>
  Every exception the code can raise on the modelled data is a value. The messages of
  the exceptions that the program words itself are kept; those of Python's own type
  errors are not.
\<close>

datatype error =
  KeyError
  | IndexError
  | TypeError
  | AttributeError
  | UnicodeDecodeError
  | JSONDecodeError
  | IsADirectoryError
  | FileNotFoundError string
  | ValueError string
  | RuntimeError string
  | RequestException string

subsection \<open>Python's operations on these values\<close>

text \<open>Truth value of a value in \<^verbatim>\<open>if v:\<close>.\<close>

fun truthy :: "json \<Rightarrow> bool" where
  "truthy JNull = False"
| "truthy (JBool b) = b"
| "truthy (JInt n) = (n \<noteq> 0)"
| "truthy (JStr s) = (s \<noteq> [])"
| "truthy (JArr xs) = (xs \<noteq> [])"
| "truthy (JObj kvs) = (kvs \<noteq> [])"

text \<open>\<^verbatim>\<open>p in s\<close> for two strings: \<open>p\<close> occurs in \<open>s\<close>.\<close>

fun is_substring :: "string \<Rightarrow> string \<Rightarrow> bool" where
  "is_substring p [] = (p = [])"
| "is_substring p (c # cs) = (take (length p) (c # cs) = p \<or> is_substring p cs)"

text \<open>
  \<^verbatim>\<open>k in v\<close> with a string \<open>k\<close>: key membership in a dict, element membership in a
  list, substring test in a string, \<^verbatim>\<open>TypeError\<close> on anything else.
\<close>

fun py_in :: "string \<Rightarrow> json \<Rightarrow> error + bool" where
  "py_in k (JObj kvs) = Inr (k \<in> set (map fst kvs))"
| "py_in k (JArr xs) = Inr (JStr k \<in> set xs)"
| "py_in k (JStr s) = Inr (is_substring k s)"
| "py_in k JNull = Inl TypeError"
| "py_in k (JBool b) = Inl TypeError"
| "py_in k (JInt n) = Inl TypeError"

text \<open>\<^verbatim>\<open>v[k]\<close> with a string \<open>k\<close>: only a dict can be subscripted by a string.\<close>

fun getitem :: "json \<Rightarrow> string \<Rightarrow> error + json" where
  "getitem (JObj kvs) k = (case map_of kvs k of None \<Rightarrow> Inl KeyError | Some v \<Rightarrow> Inr v)"
| "getitem JNull k = Inl TypeError"
| "getitem (JBool b) k = Inl TypeError"
| "getitem (JInt n) k = Inl TypeError"
| "getitem (JStr s) k = Inl TypeError"
| "getitem (JArr xs) k = Inl TypeError"

text \<open>
  \<^verbatim>\<open>v[0]\<close>: the first element of a list or the first character of a string
  (\<^verbatim>\<open>IndexError\<close> when empty); a dict from JSON has no key \<open>0\<close>.
\<close>

fun getitem0 :: "json \<Rightarrow> error + json" where
  "getitem0 (JArr []) = Inl IndexError"
| "getitem0 (JArr (x # xs)) = Inr x"
| "getitem0 (JStr []) = Inl IndexError"
| "getitem0 (JStr (c # cs)) = Inr (JStr [c])"
| "getitem0 (JObj kvs) = Inl KeyError"
| "getitem0 JNull = Inl TypeError"
| "getitem0 (JBool b) = Inl TypeError"
| "getitem0 (JInt n) = Inl TypeError"

text \<open>\<^verbatim>\<open>v.get(k, d)\<close>: a method of dicts only.\<close>

fun dict_get :: "json \<Rightarrow> string \<Rightarrow> json \<Rightarrow> error + json" where
  "dict_get (JObj kvs) k d = Inr (case map_of kvs k of None \<Rightarrow> d | Some v \<Rightarrow> v)"
| "dict_get JNull k d = Inl AttributeError"
| "dict_get (JBool b) k d = Inl AttributeError"
| "dict_get (JInt n) k d = Inl AttributeError"
| "dict_get (JStr s) k d = Inl AttributeError"
| "dict_get (JArr xs) k d = Inl AttributeError"

text \<open>
  \<^verbatim>\<open>d[k] = v\<close> with a string \<open>k\<close>: a dict keeps the position of a key it has and
  puts a new key last; no other value takes a string as index.
\<close>

fun dict_set :: "(string \<times> json) list \<Rightarrow> string \<Rightarrow> json \<Rightarrow> (string \<times> json) list" where
  "dict_set [] k v = [(k, v)]"
| "dict_set (kv # kvs) k v = (if fst kv = k then (k, v) # kvs else kv # dict_set kvs k v)"

fun setitem :: "json \<Rightarrow> string \<Rightarrow> json \<Rightarrow> error + json" where
  "setitem (JObj kvs) k v = Inr (JObj (dict_set kvs k v))"
| "setitem JNull k v = Inl TypeError"
| "setitem (JBool b) k v = Inl TypeError"
| "setitem (JInt n) k v = Inl TypeError"
| "setitem (JStr s) k v = Inl TypeError"
| "setitem (JArr xs) k v = Inl TypeError"

text \<open>\<^verbatim>\<open>xs.append(v)\<close>: a method of lists only.\<close>

fun py_append :: "json \<Rightarrow> json \<Rightarrow> error + json" where
  "py_append (JArr xs) v = Inr (JArr (xs @ [v]))"
| "py_append JNull v = Inl AttributeError"
| "py_append (JBool b) v = Inl AttributeError"
| "py_append (JInt n) v = Inl AttributeError"
| "py_append (JStr s) v = Inl AttributeError"
| "py_append (JObj kvs) v = Inl AttributeError"

text \<open>
  Strings are kept as their UTF-8 bytes (a Python string with a lone surrogate has none
  and is outside the model). The characters of a string: each byte that is not a
  continuation byte (\<open>10xxxxxx\<close>) starts a character.
\<close>

definition continuation :: "char \<Rightarrow> bool" where
  "continuation c = (128 \<le> (of_char c :: nat) \<and> (of_char c :: nat) < 192)"

function utf8_chars :: "string \<Rightarrow> string list" where
  "utf8_chars [] = []"
| "utf8_chars (c # cs) = (c # takeWhile continuation cs) # utf8_chars (dropWhile continuation cs)"
  by pat_completeness auto

termination
  by (relation "measure length") (auto simp: length_dropWhile_le less_Suc_eq_le)

text \<open>
  What \<^verbatim>\<open>for x in v\<close> runs through: the elements of a list, the characters of a
  string, the keys of a dict; nothing else can be iterated.
\<close>

fun py_iter :: "json \<Rightarrow> error + json list" where
  "py_iter (JArr xs) = Inr xs"
| "py_iter (JStr s) = Inr (map JStr (utf8_chars s))"
| "py_iter (JObj kvs) = Inr (map (\<lambda>kv. JStr (fst kv)) kvs)"
| "py_iter JNull = Inl TypeError"
| "py_iter (JBool b) = Inl TypeError"
| "py_iter (JInt n) = Inl TypeError"

text \<open>
  \<^verbatim>\<open>x += y\<close>: two numbers are added (a bool counts as 0 or 1, and the sum is an
  integer), two strings are joined, a list is extended by what \<open>y\<close> iterates over;
  every other pair raises \<^verbatim>\<open>TypeError\<close>.
\<close>

fun is_number :: "json \<Rightarrow> bool" where
  "is_number (JInt n) = True"
| "is_number (JBool b) = True"
| "is_number v = False"

fun int_value :: "json \<Rightarrow> int" where
  "int_value (JInt n) = n"
| "int_value (JBool b) = (if b then 1 else 0)"
| "int_value v = 0"

definition py_iadd :: "json \<Rightarrow> json \<Rightarrow> error + json" where
  "py_iadd x y =
     (if is_number x \<and> is_number y then Inr (JInt (int_value x + int_value y))
      else (case x of
              JStr s \<Rightarrow> (case y of JStr s' \<Rightarrow> Inr (JStr (s @ s')) | _ \<Rightarrow> Inl TypeError)
            | JArr xs \<Rightarrow> (case py_iter y of Inl e \<Rightarrow> Inl TypeError | Inr ys \<Rightarrow> Inr (JArr (xs @ ys)))
            | _ \<Rightarrow> Inl TypeError))"

text \<open>
  \<^verbatim>\<open>line.decode('utf-8')\<close> raises \<^verbatim>\<open>UnicodeDecodeError\<close> on a byte sequence that is
  not well-formed UTF-8, and so does reading a file as UTF-8 text. Decoding is a check:
  \<open>utf8_scan k lo hi\<close> expects \<open>k\<close> more continuation bytes, the next one between \<open>lo\<close>
  and \<open>hi\<close> (the strict decoder: no overlong form, no surrogate, nothing above U+10FFFF).
\<close>

fun utf8_scan :: "nat \<Rightarrow> nat \<Rightarrow> nat \<Rightarrow> string \<Rightarrow> bool" where
  "utf8_scan k lo hi [] = (k = 0)"
| "utf8_scan k lo hi (c # cs) =
     (let b = (of_char c :: nat) in
      if k = 0 then
        (if b < 128 then utf8_scan 0 128 191 cs
         else if 194 \<le> b \<and> b \<le> 223 then utf8_scan 1 128 191 cs
         else if b = 224 then utf8_scan 2 160 191 cs
         else if (225 \<le> b \<and> b \<le> 236) \<or> b = 238 \<or> b = 239 then utf8_scan 2 128 191 cs
         else if b = 237 then utf8_scan 2 128 159 cs
         else if b = 240 then utf8_scan 3 144 191 cs
         else if 241 \<le> b \<and> b \<le> 243 then utf8_scan 3 128 191 cs
         else if b = 244 then utf8_scan 3 128 143 cs
         else False)
      else if lo \<le> b \<and> b \<le> hi then utf8_scan (k - 1) 128 191 cs
      else False)"

definition utf8_valid :: "string \<Rightarrow> bool" where
  "utf8_valid s = utf8_scan 0 128 191 s"

section \<open>The streaming handler\<close>

text \<open>
  \<^verbatim>\<open>response.iter_lines()\<close> yields the lines of the body as bytes; the connection can
  break while it is read, and the iterator then raises a \<^verbatim>\<open>RequestException\<close>.
\<close>

datatype stream_item = Line string | ReadError string

text \<open>\<^verbatim>\<open>k in chunk and chunk[k]\<close>, as a truth value.\<close>

definition key_truthy :: "string \<Rightarrow> json \<Rightarrow> error + bool" where
  "key_truthy k chunk =
     (case py_in k chunk of
        Inl e \<Rightarrow> Inl e
      | Inr False \<Rightarrow> Inr False
      | Inr True \<Rightarrow> (case getitem chunk k of Inl e \<Rightarrow> Inl e | Inr v \<Rightarrow> Inr (truthy v)))"

text \<open>
  \<^verbatim>\<open>delta = chunk["choices"][0].get("delta", {})\<close> and
  \<^verbatim>\<open>content = delta.get("content", "")\<close>.
\<close>

definition chunk_content :: "json \<Rightarrow> error + json" where
  "chunk_content chunk =
     (case getitem chunk ''choices'' of
        Inl e \<Rightarrow> Inl e
      | Inr choices \<Rightarrow>
          (case getitem0 choices of
             Inl e \<Rightarrow> Inl e
           | Inr choice \<Rightarrow>
               (case dict_get choice ''delta'' (JObj []) of
                  Inl e \<Rightarrow> Inl e
                | Inr delta \<Rightarrow> dict_get delta ''content'' (JStr []))))"

text \<open>
  \<^verbatim>\<open>if content: full_content += content\<close>: a string is appended; any other value that
  counts as true cannot be added to a string.
\<close>

definition add_content :: "string \<Rightarrow> json \<Rightarrow> error + string" where
  "add_content full_content content =
     (if truthy content
      then (case content of JStr s \<Rightarrow> Inr (full_content @ s) | _ \<Rightarrow> Inl TypeError)
      else Inr full_content)"

text \<open>
  The body of the \<^verbatim>\<open>try\<close> after \<^verbatim>\<open>json.loads\<close> has returned \<open>chunk\<close>: the state is the
  pair of the content so far and the usage so far. None of the errors here is a
  \<^verbatim>\<open>JSONDecodeError\<close>, so none is caught.
\<close>

definition process_chunk :: "json \<Rightarrow> string \<times> json \<Rightarrow> error + string \<times> json" where
  "process_chunk chunk acc =
     (case key_truthy ''choices'' chunk of
        Inl e \<Rightarrow> Inl e
      | Inr has_choices \<Rightarrow>
          (case (if has_choices
                 then (case chunk_content chunk of
                         Inl e \<Rightarrow> Inl e
                       | Inr content \<Rightarrow> add_content (fst acc) content)
                 else Inr (fst acc)) of
             Inl e \<Rightarrow> Inl e
           | Inr full_content \<Rightarrow>
               (case key_truthy ''usage'' chunk of
                  Inl e \<Rightarrow> Inl e
                | Inr False \<Rightarrow> Inr (full_content, snd acc)
                | Inr True \<Rightarrow>
                    (case getitem chunk ''usage'' of
                       Inl e \<Rightarrow> Inl e
                     | Inr u \<Rightarrow> Inr (full_content, u)))))"

text \<open>
  The loop over the lines. \<open>loads\<close> is \<^verbatim>\<open>json.loads\<close> of the standard library, a
  parameter of the model: \<open>None\<close> is its \<^verbatim>\<open>JSONDecodeError\<close>.
\<close>

fun stream_loop ::
  "(string \<Rightarrow> json option) \<Rightarrow> stream_item list \<Rightarrow> string \<times> json \<Rightarrow> error + string \<times> json"
where
  "stream_loop loads [] acc = Inr acc"
| "stream_loop loads (ReadError msg # rest) acc = Inl (RequestException msg)"
| "stream_loop loads (Line line # rest) acc =
     (if line = [] then stream_loop loads rest acc
      else if \<not> utf8_valid line then Inl UnicodeDecodeError
      else if take 6 line \<noteq> ''data: '' then stream_loop loads rest acc
      else if drop 6 line = ''[DONE]'' then Inr acc
      else (case loads (drop 6 line) of
              None \<Rightarrow> stream_loop loads rest acc
            | Some chunk \<Rightarrow>
                (case process_chunk chunk acc of
                   Inl e \<Rightarrow> Inl e
                 | Inr acc' \<Rightarrow> stream_loop loads rest acc')))"

definition zero_usage :: json where
  "zero_usage =
     JObj [(''prompt_tokens'', JInt 0), (''completion_tokens'', JInt 0), (''total_tokens'', JInt 0)]"

text \<open>
  The dict the handler returns, in the format of a batched response, and the handler
  itself (\<^verbatim>\<open>_handle_stream\<close> in the source): it starts with an empty content and a
  usage of three zeros.
\<close>

definition stream_response :: "string \<Rightarrow> json \<Rightarrow> json" where
  "stream_response full_content usage =
     JObj [(''choices'', JArr [JObj [(''message'', JObj [(''content'', JStr full_content)])]]),
           (''usage'', usage)]"

definition handle_stream :: "(string \<Rightarrow> json option) \<Rightarrow> stream_item list \<Rightarrow> error + json" where
  "handle_stream loads items =
     (case stream_loop loads items ([], zero_usage) of
        Inl e \<Rightarrow> Inl e
      | Inr acc \<Rightarrow> Inr (stream_response (fst acc) (snd acc)))"

section \<open>Files and the world outside\<close>

text \<open>
  The program reads and writes four kinds of files through paths: the transcripts and the
  pointer file, which both lie in the directory \<^verbatim>\<open>history\<close>, the input file and the
  output file. All of them belong to one file system, in which several paths can lead
  to the same file; the store maps what a path resolves to (its key) to what is there.
  A file is the text it holds (as bytes), or what \<^verbatim>\<open>json.dump\<close> wrote into it: the
  value, with the flag \<^verbatim>\<open>ensure_ascii\<close> of the call, which \<^verbatim>\<open>json.load\<close> gives
  back as it was. A key without entry is a path at which nothing exists. The system is
  a POSIX one. Files that cannot be opened for another reason than being a directory
  (permissions, a full disk) and console output are not modelled.
\<close>

datatype content = Text string | Dumped bool json | Directory

type_synonym store = "string \<rightharpoonup> content"

text \<open>
  What is outside the repository: the library functions the code relies on
  (\<^verbatim>\<open>json.loads\<close>; \<^verbatim>\<open>json.dumps\<close> with the indentation of the program, by the flag
  \<^verbatim>\<open>ensure_ascii\<close>; \<^verbatim>\<open>str\<close> of a list or a dict; \<^verbatim>\<open>str.capitalize\<close> beyond ASCII),
  the resolution of a path by \<^verbatim>\<open>pathlib\<close> and the operating system (\<open>path_key\<close>: two
  paths have the same key when they lead to the same file) and, for one invocation, the
  answer of the HTTP transport and the readings of the clock
  (\<^verbatim>\<open>datetime.now().isoformat()\<close> in \<^verbatim>\<open>create_chat_history\<close> and in \<^verbatim>\<open>chat\<close>).
\<close>

record pylib =
  json_loads :: "string \<Rightarrow> json option"
  json_dumps :: "bool \<Rightarrow> json \<Rightarrow> string"
  py_str :: "json \<Rightarrow> string"
  str_capitalize :: "string \<Rightarrow> string"
  path_key :: "string \<Rightarrow> string"

text \<open>
  A response of \<^verbatim>\<open>requests\<close>: its status code, the message of the \<^verbatim>\<open>HTTPError\<close> that
  \<^verbatim>\<open>raise_for_status\<close> raises for it, the result of \<^verbatim>\<open>response.json()\<close> (\<open>Inl\<close>: the
  message of its \<^verbatim>\<open>JSONDecodeError\<close>, which is a \<^verbatim>\<open>RequestException\<close>) and what
  \<^verbatim>\<open>response.iter_lines()\<close> yields.
\<close>

record http_response =
  status_code :: nat
  http_error :: string
  json_result :: "string + json"
  iter_lines :: "stream_item list"

datatype http_reply = PostRaises string | PostReturns http_response

record env =
  reply :: http_reply
  now_create :: string
  now_update :: string

text \<open>The payload of a request; its messages are the list of the transcript.\<close>

record payload =
  payload_model :: string
  payload_messages :: json
  max_tokens :: int
  stream :: bool

subsection \<open>Configuration (\<^verbatim>\<open>config.py\<close>)\<close>

text \<open>
  \<^verbatim>\<open>chat.py\<close> imports a constant \<^verbatim>\<open>STREAMING\<close> that \<^verbatim>\<open>config.py\<close> does not define
  (as the two files stand, the import fails before any command runs); it is a parameter
  of \<open>chat\<close> below. The key and the URL of the API (empty in \<^verbatim>\<open>config.py\<close>) are values
  of the deployment: what the transport answers to a request is an input of the model.
  \<open>join_path\<close> is the operator \<^verbatim>\<open>/\<close> of \<^verbatim>\<open>pathlib\<close>: an absolute right operand
  replaces the left one. The input file is \<^verbatim>\<open>input.txt\<close>, although the comment and the
  error message of \<^verbatim>\<open>chat\<close> call it \<^verbatim>\<open>input.md\<close>.
\<close>

definition MODEL :: string where
  "MODEL = ''codestral-latest''"

definition MAX_TOKENS :: int where
  "MAX_TOKENS = 8192"

definition join_path :: "string \<Rightarrow> string \<Rightarrow> string" where
  "join_path dir name = (if take 1 name = ''/'' then name else dir @ ''/'' @ name)"

definition HISTORY_DIR :: string where
  "HISTORY_DIR = ''history''"

definition ACTIVE_CHAT_FILE :: string where
  "ACTIVE_CHAT_FILE = join_path HISTORY_DIR ''active_chat.json''"

definition INPUT_FILE :: string where
  "INPUT_FILE = ''input.txt''"

definition OUTPUT_FILE :: string where
  "OUTPUT_FILE = ''output.md''"

subsection \<open>Sequencing of fallible steps\<close>

definition and_then :: "error + 'a \<Rightarrow> ('a \<Rightarrow> error + 'b) \<Rightarrow> error + 'b" where
  "and_then r f = (case r of Inl e \<Rightarrow> Inl e | Inr v \<Rightarrow> f v)"

subsection \<open>Strings\<close>

text \<open>
  \<^verbatim>\<open>str.strip()\<close> removes the leading and the trailing whitespace characters, those
  for which \<^verbatim>\<open>str.isspace\<close> holds: U+0009 to U+000D, U+001C to U+0020, U+0085, U+00A0,
  U+1680, U+2000 to U+200A, U+2028, U+2029, U+202F, U+205F and U+3000, listed here by
  their UTF-8 bytes.
\<close>

definition whitespace :: "nat list list" where
  "whitespace =
     [[0x09], [0x0A], [0x0B], [0x0C], [0x0D], [0x1C], [0x1D], [0x1E], [0x1F], [0x20],
      [0xC2, 0x85], [0xC2, 0xA0], [0xE1, 0x9A, 0x80],
      [0xE2, 0x80, 0x80], [0xE2, 0x80, 0x81], [0xE2, 0x80, 0x82], [0xE2, 0x80, 0x83],
      [0xE2, 0x80, 0x84], [0xE2, 0x80, 0x85], [0xE2, 0x80, 0x86], [0xE2, 0x80, 0x87],
      [0xE2, 0x80, 0x88], [0xE2, 0x80, 0x89], [0xE2, 0x80, 0x8A],
      [0xE2, 0x80, 0xA8], [0xE2, 0x80, 0xA9], [0xE2, 0x80, 0xAF], [0xE2, 0x81, 0x9F],
      [0xE3, 0x80, 0x80]]"

definition is_space :: "string \<Rightarrow> bool" where
  "is_space ch = (map of_char ch \<in> set whitespace)"

definition strip :: "string \<Rightarrow> string" where
  "strip s = concat (rev (dropWhile is_space (rev (dropWhile is_space (utf8_chars s)))))"

text \<open>
  \<^verbatim>\<open>str.capitalize()\<close>: the first character in upper case, the others in lower case.
  On ASCII text this is a table of the letters; on any other text it is the function of
  the library.
\<close>

definition upper_char :: "char \<Rightarrow> char" where
  "upper_char c =
     (case map_of (zip ''abcdefghijklmnopqrstuvwxyz'' ''ABCDEFGHIJKLMNOPQRSTUVWXYZ'') c of
        None \<Rightarrow> c | Some u \<Rightarrow> u)"

definition lower_char :: "char \<Rightarrow> char" where
  "lower_char c =
     (case map_of (zip ''ABCDEFGHIJKLMNOPQRSTUVWXYZ'' ''abcdefghijklmnopqrstuvwxyz'') c of
        None \<Rightarrow> c | Some l \<Rightarrow> l)"

fun ascii_capitalize :: "string \<Rightarrow> string" where
  "ascii_capitalize [] = []"
| "ascii_capitalize (c # cs) = upper_char c # map lower_char cs"

definition capitalize :: "pylib \<Rightarrow> string \<Rightarrow> string" where
  "capitalize lib s =
     (if list_all (\<lambda>c. (of_char c :: nat) < 128) s then ascii_capitalize s
      else str_capitalize lib s)"

text \<open>An integer in an f-string: its decimal digits, with a minus sign when negative.\<close>

definition digit_char :: "nat \<Rightarrow> char" where
  "digit_char d = ''0123456789'' ! d"

fun str_nat :: "nat \<Rightarrow> string" where
  "str_nat n =
     (if n < 10 then [digit_char n]
      else str_nat (n div 10) @ [digit_char (n mod 10)])"

declare str_nat.simps [simp del]

definition str_int :: "int \<Rightarrow> string" where
  "str_int i = (if i < 0 then CHR ''-'' # str_nat (nat (- i)) else str_nat (nat i))"

text \<open>A value in an f-string: a string as it is, otherwise what \<^verbatim>\<open>str\<close> gives.\<close>

definition fstring :: "pylib \<Rightarrow> json \<Rightarrow> string" where
  "fstring lib v =
     (case v of
        JStr s \<Rightarrow> s
      | JInt n \<Rightarrow> str_int n
      | JBool b \<Rightarrow> (if b then ''True'' else ''False'')
      | JNull \<Rightarrow> ''None''
      | _ \<Rightarrow> py_str lib v)"

subsection \<open>Reading and writing a file\<close>

text \<open>
  Reading in text mode translates the line ends \<^verbatim>\<open>\r\n\<close> and \<^verbatim>\<open>\r\<close> to \<^verbatim>\<open>\n\<close>
  (writing leaves \<^verbatim>\<open>\n\<close> as it is on the systems where a path is written with \<^verbatim>\<open>/\<close>).
\<close>

fun universal_newlines :: "string \<Rightarrow> string" where
  "universal_newlines [] = []"
| "universal_newlines [c] = (if c = CHR 0x0D then [CHR 0x0A] else [c])"
| "universal_newlines (c # d # cs) =
     (if c = CHR 0x0D \<and> d = CHR 0x0A then CHR 0x0A # universal_newlines cs
      else if c = CHR 0x0D then CHR 0x0A # universal_newlines (d # cs)
      else c # universal_newlines (d # cs))"

text \<open>\<^verbatim>\<open>open(path, 'r', encoding='utf-8')\<close> followed by \<^verbatim>\<open>f.read()\<close>.\<close>

definition read_text :: "pylib \<Rightarrow> content \<Rightarrow> error + string" where
  "read_text lib c =
     (case c of
        Directory \<Rightarrow> Inl IsADirectoryError
      | Text bytes \<Rightarrow>
          if utf8_valid bytes then Inr (universal_newlines bytes) else Inl UnicodeDecodeError
      | Dumped ascii v \<Rightarrow> Inr (json_dumps lib ascii v))"

text \<open>\<^verbatim>\<open>open(path, 'r', encoding='utf-8')\<close> followed by \<^verbatim>\<open>json.load(f)\<close>.\<close>

definition json_load :: "pylib \<Rightarrow> content \<Rightarrow> error + json" where
  "json_load lib c =
     (case c of
        Dumped ascii v \<Rightarrow> Inr v
      | _ \<Rightarrow>
          (case read_text lib c of
             Inl e \<Rightarrow> Inl e
           | Inr s \<Rightarrow> (case json_loads lib s of None \<Rightarrow> Inl JSONDecodeError | Some v \<Rightarrow> Inr v)))"

text \<open>
  \<^verbatim>\<open>open(path, 'w', encoding='utf-8')\<close> and what is written until the file is closed:
  the file is created or replaced; a directory cannot be opened. The program writes in
  directories that exist: the working directory, the history directory, which it creates
  when it starts, and, for a transcript it continues, the directory it has read it from
  (a name derived from a clock reading has no \<^verbatim>\<open>/\<close>).
\<close>

definition write_file :: "store \<Rightarrow> string \<Rightarrow> content \<Rightarrow> error + store" where
  "write_file st key c =
     (case st key of
        Some Directory \<Rightarrow> Inl IsADirectoryError
      | _ \<Rightarrow> Inr (st(key \<mapsto> c)))"

section \<open>The operations of \<^verbatim>\<open>Chat\<close>\<close>

text \<open>
  The methods of the class, in the order of the source. The constructor (which refuses a
  missing API key) and \<^verbatim>\<open>main\<close> (which parses the command line, calls \<^verbatim>\<open>chat\<close> once
  and reports the exception of a failed call) are not modelled.
\<close>

definition create_chat_history :: "string \<Rightarrow> json" where
  "create_chat_history now =
     JObj [(''model'', JStr MODEL),
           (''messages'', JArr []),
           (''usage'', JObj [(''prompt_tokens'', JInt 0),
                             (''total_tokens'', JInt 0),
                             (''completion_tokens'', JInt 0)]),
           (''created_at'', JStr now),
           (''last_updated_at'', JStr now)]"

text \<open>
  \<^verbatim>\<open>created_at.replace(":", "").replace(".", "-")\<close> followed by \<^verbatim>\<open>.json\<close>: the colons
  are removed, each period becomes a hyphen.
\<close>

definition get_chat_filename :: "string \<Rightarrow> string" where
  "get_chat_filename created =
     map (\<lambda>c. if c = CHR ''.'' then CHR ''-'' else c) (filter (\<lambda>c. c \<noteq> CHR '':'') created)
     @ ''.json''"

text \<open>
  \<^verbatim>\<open>save_chat_history\<close>: without a file name, the name is derived from
  \<^verbatim>\<open>chat_data["created_at"]\<close>, which has to be a string to have a method
  \<^verbatim>\<open>replace\<close>.
\<close>

definition save_chat_history ::
  "pylib \<Rightarrow> store \<Rightarrow> json \<Rightarrow> string option \<Rightarrow> error + store \<times> string"
where
  "save_chat_history lib st chat_data filename =
     and_then
       (case filename of
          None \<Rightarrow>
            and_then (getitem chat_data ''created_at'') (\<lambda>created.
              case created of
                JStr s \<Rightarrow> Inr (get_chat_filename s)
              | _ \<Rightarrow> Inl AttributeError)
        | Some f \<Rightarrow> Inr f)
       (\<lambda>name.
          and_then (write_file st (path_key lib (join_path HISTORY_DIR name)) (Dumped False chat_data))
            (\<lambda>st'. Inr (st', name)))"

text \<open>
  \<^verbatim>\<open>load_chat_history\<close>: whatever exists at \<^verbatim>\<open>HISTORY_DIR / filename\<close> is opened and
  parsed.
\<close>

definition load_chat_history :: "pylib \<Rightarrow> store \<Rightarrow> string \<Rightarrow> error + json" where
  "load_chat_history lib st filename =
     (case st (path_key lib (join_path HISTORY_DIR filename)) of
        None \<Rightarrow> Inl (FileNotFoundError (''Chat history file not found: '' @ filename))
      | Some c \<Rightarrow> json_load lib c)"

text \<open>
  \<^verbatim>\<open>get_active_chat\<close> returns \<^verbatim>\<open>None\<close> when the pointer file does not exist, else
  \<^verbatim>\<open>data.get("active_chat")\<close> of its JSON: \<^verbatim>\<open>None\<close> again when the key is missing.
\<close>

definition get_active_chat :: "pylib \<Rightarrow> store \<Rightarrow> error + json" where
  "get_active_chat lib st =
     (case st (path_key lib ACTIVE_CHAT_FILE) of
        None \<Rightarrow> Inr JNull
      | Some c \<Rightarrow> and_then (json_load lib c) (\<lambda>data. dict_get data ''active_chat'' JNull))"

definition set_active_chat :: "pylib \<Rightarrow> store \<Rightarrow> string \<Rightarrow> error + store" where
  "set_active_chat lib st filename =
     write_file st (path_key lib ACTIVE_CHAT_FILE)
       (Dumped True (JObj [(''active_chat'', JStr filename)]))"

subsection \<open>\<^verbatim>\<open>send_message\<close>\<close>

text \<open>\<^verbatim>\<open>raise_for_status\<close> raises for the client and server error codes.\<close>

definition raise_for_status :: "http_response \<Rightarrow> error + unit" where
  "raise_for_status r =
     (if 400 \<le> status_code r \<and> status_code r < 600
      then Inl (RequestException (http_error r))
      else Inr ())"

text \<open>The body of the \<^verbatim>\<open>try\<close>, after the request has been posted.\<close>

definition receive :: "pylib \<Rightarrow> bool \<Rightarrow> http_reply \<Rightarrow> error + json" where
  "receive lib strm rep =
     (case rep of
        PostRaises msg \<Rightarrow> Inl (RequestException msg)
      | PostReturns r \<Rightarrow>
          and_then (raise_for_status r) (\<lambda>_.
            if strm then handle_stream (json_loads lib) (iter_lines r)
            else (case json_result r of
                    Inl msg \<Rightarrow> Inl (RequestException msg)
                  | Inr v \<Rightarrow> Inr v)))"

text \<open>
  The \<^verbatim>\<open>except\<close> clause: a \<^verbatim>\<open>RequestException\<close> becomes the \<^verbatim>\<open>RuntimeError\<close>
  "API request failed"; any other exception passes through.
\<close>

fun request_failed :: "error \<Rightarrow> error" where
  "request_failed (RequestException msg) = RuntimeError (''API request failed: '' @ msg)"
| "request_failed e = e"

definition send_message ::
  "pylib \<Rightarrow> http_reply \<Rightarrow> json \<Rightarrow> bool \<Rightarrow> payload \<times> (error + json)"
where
  "send_message lib rep msgs strm =
     (\<lparr>payload_model = MODEL, payload_messages = msgs, max_tokens = MAX_TOKENS, stream = strm\<rparr>,
      (case receive lib strm rep of
         Inl e \<Rightarrow> Inl (request_failed e)
       | Inr response \<Rightarrow> Inr response))"

subsection \<open>\<^verbatim>\<open>update_output_md\<close>\<close>

text \<open>
  Each \<^verbatim>\<open>f.write\<close> appends to what is written so far; an exception in the middle
  leaves in the file what was written before it. The loop over the messages:
  \<^verbatim>\<open>msg["role"].capitalize()\<close> needs a string, \<^verbatim>\<open>msg["content"]\<close> is formatted as it
  is.
\<close>

fun write_messages :: "pylib \<Rightarrow> string \<Rightarrow> json list \<Rightarrow> string \<times> (error + unit)" where
  "write_messages lib written [] = (written, Inr ())"
| "write_messages lib written (msg # rest) =
     (case getitem msg ''role'' of
        Inl e \<Rightarrow> (written, Inl e)
      | Inr (JStr r) \<Rightarrow>
          (case getitem msg ''content'' of
             Inl e \<Rightarrow> (written, Inl e)
           | Inr c \<Rightarrow>
               write_messages lib
                 (written @ ''## '' @ capitalize lib r @ ''\<newline>\<newline>'' @ fstring lib c @ ''\<newline>\<newline>'')
                 rest)
      | Inr v \<Rightarrow> (written, Inl AttributeError))"

text \<open>What the body of the \<^verbatim>\<open>with\<close> writes, and how it ends.\<close>

definition render :: "pylib \<Rightarrow> json \<Rightarrow> string \<times> (error + unit)" where
  "render lib chat_data =
     (let w1 = ''# Chat History\<newline>\<newline>'' in
      (case getitem chat_data ''created_at'' of
         Inl e \<Rightarrow> (w1, Inl e)
       | Inr created \<Rightarrow>
      (let w2 = w1 @ ''**Created:** '' @ fstring lib created @ ''\<newline>\<newline>'' in
      (case getitem chat_data ''last_updated_at'' of
         Inl e \<Rightarrow> (w2, Inl e)
       | Inr updated \<Rightarrow>
      (let w3 = w2 @ ''**Last Updated:** '' @ fstring lib updated @ ''\<newline>\<newline>'' in
      (case getitem chat_data ''model'' of
         Inl e \<Rightarrow> (w3, Inl e)
       | Inr m \<Rightarrow>
      (let w4 = w3 @ ''**Model:** '' @ fstring lib m @ ''\<newline>\<newline>'';
           w5 = w4 @ ''---\<newline>\<newline>'' in
      (case and_then (getitem chat_data ''messages'') py_iter of
         Inl e \<Rightarrow> (w5, Inl e)
       | Inr msgs \<Rightarrow>
      (let looped = write_messages lib w5 msgs; w6 = fst looped in
      (case snd looped of
         Inl e \<Rightarrow> (w6, Inl e)
       | Inr done \<Rightarrow>
      (case getitem chat_data ''usage'' of
         Inl e \<Rightarrow> (w6, Inl e)
       | Inr usage \<Rightarrow>
      (let w7 = w6 @ ''---\<newline>\<newline>'';
           w8 = w7 @ ''**Usage Statistics:**\<newline>\<newline>'' in
      (case getitem usage ''prompt_tokens'' of
         Inl e \<Rightarrow> (w8, Inl e)
       | Inr p \<Rightarrow>
      (let w9 = w8 @ ''- Prompt Tokens: '' @ fstring lib p @ ''\<newline>'' in
      (case getitem usage ''completion_tokens'' of
         Inl e \<Rightarrow> (w9, Inl e)
       | Inr c \<Rightarrow>
      (let w10 = w9 @ ''- Completion Tokens: '' @ fstring lib c @ ''\<newline>'' in
      (case getitem usage ''total_tokens'' of
         Inl e \<Rightarrow> (w10, Inl e)
       | Inr t \<Rightarrow>
           (w10 @ ''- Total Tokens: '' @ fstring lib t @ ''\<newline>'', Inr ())
      )))))))))))))))))"

definition update_output_md :: "pylib \<Rightarrow> store \<Rightarrow> json \<Rightarrow> (error + unit) \<times> store" where
  "update_output_md lib st chat_data =
     (case st (path_key lib OUTPUT_FILE) of
        Some Directory \<Rightarrow> (Inl IsADirectoryError, st)
      | _ \<Rightarrow>
          (let written = render lib chat_data
           in (snd written, st(path_key lib OUTPUT_FILE \<mapsto> Text (fst written)))))"

subsection \<open>\<^verbatim>\<open>chat\<close>\<close>

text \<open>
  The arguments \<^verbatim>\<open>prompt\<close> and \<^verbatim>\<open>load_file\<close> are a string or \<^verbatim>\<open>None\<close>; both are
  tested with \<^verbatim>\<open>if x:\<close>, which an empty string fails as \<^verbatim>\<open>None\<close> does.
\<close>

fun given :: "string option \<Rightarrow> bool" where
  "given None = False"
| "given (Some s) = (s \<noteq> [])"

text \<open>
  Which chat to use, when \<^verbatim>\<open>load_file\<close> is not given: the transcript and its file
  name, \<open>None\<close> for a transcript that has no file yet. Only \<^verbatim>\<open>FileNotFoundError\<close> is
  caught; a pointer that names something other than a string cannot be joined to the
  history directory.
\<close>

definition resolve_session ::
  "pylib \<Rightarrow> env \<Rightarrow> store \<Rightarrow> bool \<Rightarrow> error + json \<times> string option"
where
  "resolve_session lib ev st new_chat =
     (if new_chat then Inr (create_chat_history (now_create ev), None)
      else
        and_then (get_active_chat lib st) (\<lambda>active_filename.
          if truthy active_filename then
            (case active_filename of
               JStr f \<Rightarrow>
                 (case load_chat_history lib st f of
                    Inr chat_data \<Rightarrow> Inr (chat_data, Some f)
                  | Inl (FileNotFoundError m) \<Rightarrow> Inr (create_chat_history (now_create ev), None)
                  | Inl e \<Rightarrow> Inl e)
             | _ \<Rightarrow> Inl TypeError)
          else Inr (create_chat_history (now_create ev), None)))"

text \<open>
  The prompt: the argument, or the stripped text of the input file when no argument is
  given and the file exists.
\<close>

definition acquire_prompt :: "pylib \<Rightarrow> store \<Rightarrow> string option \<Rightarrow> error + string" where
  "acquire_prompt lib st prompt =
     and_then
       (if \<not> given prompt
        then (case st (path_key lib INPUT_FILE) of
                Some c \<Rightarrow> and_then (read_text lib c) (\<lambda>body. Inr (Some (strip body)))
              | None \<Rightarrow> Inr prompt)
        else Inr prompt)
       (\<lambda>prompt1.
          case prompt1 of
            None \<Rightarrow>
              Inl (ValueError ''No prompt provided. Either pass a prompt or create input.md file.'')
          | Some p \<Rightarrow>
              if p = []
              then Inl (ValueError ''No prompt provided. Either pass a prompt or create input.md file.'')
              else Inr p)"

text \<open>\<^verbatim>\<open>chat_data[k].append(v)\<close>: the list inside the dict grows.\<close>

definition append_item :: "json \<Rightarrow> string \<Rightarrow> json \<Rightarrow> error + json" where
  "append_item chat_data k v =
     and_then (getitem chat_data k) (\<lambda>xs.
     and_then (py_append xs v) (\<lambda>xs'.
     setitem chat_data k xs'))"

text \<open>\<^verbatim>\<open>response["choices"][0]["message"]["content"]\<close>.\<close>

definition assistant_content :: "json \<Rightarrow> error + json" where
  "assistant_content response =
     and_then (getitem response ''choices'') (\<lambda>choices.
     and_then (getitem0 choices) (\<lambda>choice.
     and_then (getitem choice ''message'') (\<lambda>msg.
     getitem msg ''content'')))"

text \<open>
  \<^verbatim>\<open>chat_data["usage"][k] += response_usage[k]\<close>: the old value is read before the
  right-hand side is evaluated.
\<close>

definition add_counter :: "json \<Rightarrow> json \<Rightarrow> string \<Rightarrow> error + json" where
  "add_counter chat_data response_usage k =
     and_then (getitem chat_data ''usage'') (\<lambda>usage.
     and_then (getitem usage k) (\<lambda>old.
     and_then (getitem response_usage k) (\<lambda>v.
     and_then (py_iadd old v) (\<lambda>new.
     and_then (setitem usage k new) (\<lambda>usage'.
     setitem chat_data ''usage'' usage')))))"

text \<open>
  From "Add user message" to "Update timestamp": the requests that are posted (none when
  the user message cannot be appended) and the transcript after the turn.
\<close>

definition exchange ::
  "pylib \<Rightarrow> bool \<Rightarrow> env \<Rightarrow> json \<Rightarrow> string \<Rightarrow> payload list \<times> (error + json)"
where
  "exchange lib STREAMING ev chat_data prompt =
     (case append_item chat_data ''messages''
             (JObj [(''role'', JStr ''user''), (''content'', JStr prompt)]) of
        Inl e \<Rightarrow> ([], Inl e)
      | Inr chat_data1 \<Rightarrow>
          (case getitem chat_data1 ''messages'' of
             Inl e \<Rightarrow> ([], Inl e)
           | Inr msgs \<Rightarrow>
               (let sent = send_message lib (reply ev) msgs STREAMING
                in ([fst sent],
                    and_then (snd sent) (\<lambda>response.
                    and_then (assistant_content response) (\<lambda>assistant_message.
                    and_then (append_item chat_data1 ''messages''
                                (JObj [(''role'', JStr ''assistant''),
                                       (''content'', assistant_message)])) (\<lambda>chat_data2.
                    and_then (getitem response ''usage'') (\<lambda>response_usage.
                    and_then (add_counter chat_data2 response_usage ''prompt_tokens'') (\<lambda>chat_data3.
                    and_then (add_counter chat_data3 response_usage ''completion_tokens'') (\<lambda>chat_data4.
                    and_then (add_counter chat_data4 response_usage ''total_tokens'') (\<lambda>chat_data5.
                    setitem chat_data5 ''last_updated_at'' (JStr (now_update ev))
                    )))))))))))"

text \<open>
  Saving the transcript, setting the pointer, writing the output file: a step that fails
  leaves the files as the steps before it made them.
\<close>

definition persist ::
  "pylib \<Rightarrow> store \<Rightarrow> json \<Rightarrow> string option \<Rightarrow> (error + unit) \<times> store"
where
  "persist lib st chat_data filename =
     (case save_chat_history lib st chat_data filename of
        Inl e \<Rightarrow> (Inl e, st)
      | Inr saved \<Rightarrow>
          (case set_active_chat lib (fst saved) (snd saved) of
             Inl e \<Rightarrow> (Inl e, fst saved)
           | Inr st2 \<Rightarrow> update_output_md lib st2 chat_data))"

text \<open>
  The branch of \<^verbatim>\<open>--load\<close>: the file is read, made the active one and rendered;
  nothing is sent.
\<close>

definition show_loaded ::
  "pylib \<Rightarrow> store \<Rightarrow> string \<Rightarrow> (error + unit) \<times> store \<times> payload list"
where
  "show_loaded lib st load_file =
     (case load_chat_history lib st load_file of
        Inl e \<Rightarrow> (Inl e, st, [])
      | Inr chat_data \<Rightarrow>
          (case set_active_chat lib st load_file of
             Inl e \<Rightarrow> (Inl e, st, [])
           | Inr st1 \<Rightarrow>
               (let shown = update_output_md lib st1 chat_data
                in (fst shown, snd shown, []))))"

text \<open>The rest of \<^verbatim>\<open>chat\<close>: a turn of a new chat or of the active one.\<close>

definition take_turn ::
  "pylib \<Rightarrow> bool \<Rightarrow> env \<Rightarrow> store \<Rightarrow> string option \<Rightarrow> bool
   \<Rightarrow> (error + unit) \<times> store \<times> payload list"
where
  "take_turn lib STREAMING ev st prompt new_chat =
     (case resolve_session lib ev st new_chat of
        Inl e \<Rightarrow> (Inl e, st, [])
      | Inr session \<Rightarrow>
          (case acquire_prompt lib st prompt of
             Inl e \<Rightarrow> (Inl e, st, [])
           | Inr p \<Rightarrow>
               (let ex = exchange lib STREAMING ev (fst session) p
                in case snd ex of
                     Inl e \<Rightarrow> (Inl e, st, fst ex)
                   | Inr chat_data \<Rightarrow>
                       (let saved = persist lib st chat_data (snd session)
                        in (fst saved, snd saved, fst ex)))))"

text \<open>
  One invocation of \<^verbatim>\<open>chat\<close>: its outcome (\<open>Inl\<close> the exception that ends it), the
  files afterwards and the requests it posted.
\<close>

definition chat ::
  "pylib \<Rightarrow> bool \<Rightarrow> env \<Rightarrow> store \<Rightarrow> string option \<Rightarrow> bool \<Rightarrow> string option
   \<Rightarrow> (error + unit) \<times> store \<times> payload list"
where
  "chat lib STREAMING ev st prompt new_chat load_file =
     (case load_file of
        None \<Rightarrow> take_turn lib STREAMING ev st prompt new_chat
      | Some filename \<Rightarrow>
          if filename \<noteq> [] then show_loaded lib st filename
          else take_turn lib STREAMING ev st prompt new_chat)"

section \<open>Notions of the specification\<close>

subsection \<open>Transcripts\<close>

text \<open>
  A transcript as the specification sees it: the model, the messages (a role and a
  content each), the three usage counters and the two timestamps. \<open>doc_of\<close> is the dict
  that holds it, with the keys in the order in which \<^verbatim>\<open>create_chat_history\<close> and
  \<^verbatim>\<open>chat\<close> put them; a file holds a transcript when its JSON is such a dict. The
  content of an assistant message is whatever value the response held.
\<close>

record message =
  role :: string
  content :: json

record usage_rec =
  prompt_tokens :: int
  total_tokens :: int
  completion_tokens :: int

record transcript =
  model :: string
  messages :: "message list"
  usage :: usage_rec
  created_at :: string
  last_updated_at :: string

definition msg_doc :: "message \<Rightarrow> json" where
  "msg_doc msg = JObj [(''role'', JStr (role msg)), (''content'', content msg)]"

definition usage_doc :: "usage_rec \<Rightarrow> json" where
  "usage_doc u =
     JObj [(''prompt_tokens'', JInt (prompt_tokens u)),
           (''total_tokens'', JInt (total_tokens u)),
           (''completion_tokens'', JInt (completion_tokens u))]"

definition doc_of :: "transcript \<Rightarrow> json" where
  "doc_of t =
     JObj [(''model'', JStr (model t)),
           (''messages'', JArr (map msg_doc (messages t))),
           (''usage'', usage_doc (usage t)),
           (''created_at'', JStr (created_at t)),
           (''last_updated_at'', JStr (last_updated_at t))]"

text \<open>The transcript of a new chat.\<close>

definition fresh :: "string \<Rightarrow> transcript" where
  "fresh now =
     \<lparr>model = MODEL,
      messages = [],
      usage = \<lparr>prompt_tokens = 0, total_tokens = 0, completion_tokens = 0\<rparr>,
      created_at = now,
      last_updated_at = now\<rparr>"

subsection \<open>The rendered view\<close>

text \<open>
  The view as the specification describes it: a header with the two timestamps and the
  model, one section per message (the role capitalized as the label, then the content),
  and the three usage counters.
\<close>

definition view_header :: "transcript \<Rightarrow> string" where
  "view_header t =
     ''# Chat History\<newline>\<newline>''
     @ ''**Created:** '' @ created_at t @ ''\<newline>\<newline>''
     @ ''**Last Updated:** '' @ last_updated_at t @ ''\<newline>\<newline>''
     @ ''**Model:** '' @ model t @ ''\<newline>\<newline>''
     @ ''---\<newline>\<newline>''"

definition view_section :: "pylib \<Rightarrow> message \<Rightarrow> string" where
  "view_section lib msg =
     ''## '' @ capitalize lib (role msg) @ ''\<newline>\<newline>'' @ fstring lib (content msg)
     @ ''\<newline>\<newline>''"

definition view_usage :: "usage_rec \<Rightarrow> string" where
  "view_usage u =
     ''---\<newline>\<newline>''
     @ ''**Usage Statistics:**\<newline>\<newline>''
     @ ''- Prompt Tokens: '' @ str_int (prompt_tokens u) @ ''\<newline>''
     @ ''- Completion Tokens: '' @ str_int (completion_tokens u) @ ''\<newline>''
     @ ''- Total Tokens: '' @ str_int (total_tokens u) @ ''\<newline>''"

definition rendered_view :: "pylib \<Rightarrow> transcript \<Rightarrow> string" where
  "rendered_view lib t =
     view_header t @ concat (map (view_section lib) (messages t)) @ view_usage (usage t)"

subsection \<open>The files of the program\<close>

text \<open>
  The keys of the four kinds of files: a file of the history directory by the name the
  program uses for it, the pointer file, the input file and the output file. The content
  of the pointer file that references a file name.
\<close>

definition history_key :: "pylib \<Rightarrow> string \<Rightarrow> string" where
  "history_key lib name = path_key lib (join_path HISTORY_DIR name)"

definition pointer_key :: "pylib \<Rightarrow> string" where
  "pointer_key lib = path_key lib ACTIVE_CHAT_FILE"

definition input_key :: "pylib \<Rightarrow> string" where
  "input_key lib = path_key lib INPUT_FILE"

definition output_key :: "pylib \<Rightarrow> string" where
  "output_key lib = path_key lib OUTPUT_FILE"

definition pointer_to :: "string \<Rightarrow> json" where
  "pointer_to filename = JObj [(''active_chat'', JStr filename)]"

subsection \<open>Streams\<close>

text \<open>
  The sentinel event, the lines that come before it, the chunk a line carries (a data line
  whose payload the parser accepts) and the chunks of a stream in arrival order.
\<close>

definition sentinel :: stream_item where
  "sentinel = Line ''data: [DONE]''"

definition before_done :: "stream_item list \<Rightarrow> stream_item list" where
  "before_done items = takeWhile (\<lambda>it. it \<noteq> sentinel) items"

fun parsed_chunk :: "(string \<Rightarrow> json option) \<Rightarrow> stream_item \<Rightarrow> json option" where
  "parsed_chunk loads (Line l) = (if take 6 l = ''data: '' then loads (drop 6 l) else None)"
| "parsed_chunk loads (ReadError msg) = None"

definition chunks :: "(string \<Rightarrow> json option) \<Rightarrow> stream_item list \<Rightarrow> json list" where
  "chunks loads items = List.map_filter (parsed_chunk loads) (before_done items)"

text \<open>A line as the handler can decode it.\<close>

fun decodable :: "stream_item \<Rightarrow> bool" where
  "decodable (Line l) = utf8_valid l"
| "decodable (ReadError msg) = False"

text \<open>
  The content fragment of a well-formed chunk: an object whose \<^verbatim>\<open>choices\<close>, when it
  has any, is a list that starts with an object, whose \<^verbatim>\<open>delta\<close>, when present, is an
  object, whose \<^verbatim>\<open>content\<close>, when present and not empty, is a string. A chunk with no
  choices or no content carries the empty fragment. \<open>None\<close>: the chunk is not well-formed.
\<close>

definition delta_fragment :: "json \<Rightarrow> string option" where
  "delta_fragment delta =
     (case delta of
        JObj dkvs \<Rightarrow>
          (case map_of dkvs ''content'' of
             None \<Rightarrow> Some []
           | Some (JStr s) \<Rightarrow> Some s
           | Some v \<Rightarrow> if truthy v then None else Some [])
      | _ \<Rightarrow> None)"

definition choice_fragment :: "json \<Rightarrow> string option" where
  "choice_fragment choice =
     (case choice of
        JObj ckvs \<Rightarrow>
          (case map_of ckvs ''delta'' of
             None \<Rightarrow> Some []
           | Some delta \<Rightarrow> delta_fragment delta)
      | _ \<Rightarrow> None)"

definition fragment :: "json \<Rightarrow> string option" where
  "fragment chunk =
     (case chunk of
        JObj kvs \<Rightarrow>
          (case map_of kvs ''choices'' of
             None \<Rightarrow> Some []
           | Some choices \<Rightarrow>
               if \<not> truthy choices then Some []
               else (case choices of
                       JArr (choice # others) \<Rightarrow> choice_fragment choice
                     | _ \<Rightarrow> None))
      | _ \<Rightarrow> None)"

fun the_fragment :: "json \<Rightarrow> string" where
  "the_fragment chunk = (case fragment chunk of None \<Rightarrow> [] | Some s \<Rightarrow> s)"

text \<open>The usage a chunk carries: the value of a \<^verbatim>\<open>usage\<close> field that is not empty.\<close>

definition carried_usage :: "json \<Rightarrow> json option" where
  "carried_usage chunk =
     (case chunk of
        JObj kvs \<Rightarrow>
          (case map_of kvs ''usage'' of
             None \<Rightarrow> None
           | Some u \<Rightarrow> if truthy u then Some u else None)
      | _ \<Rightarrow> None)"

definition carried_usages :: "(string \<Rightarrow> json option) \<Rightarrow> stream_item list \<Rightarrow> json list" where
  "carried_usages loads items = List.map_filter carried_usage (chunks loads items)"

definition last_or :: "'a \<Rightarrow> 'a list \<Rightarrow> 'a" where
  "last_or d xs = (if xs = [] then d else last xs)"

text \<open>
  A line the handler passes over: it decodes, it is not the sentinel, and it carries no
  chunk (an empty line, a line that is not a data line, a payload the parser rejects).
\<close>

definition skipped :: "(string \<Rightarrow> json option) \<Rightarrow> stream_item \<Rightarrow> bool" where
  "skipped loads it = (decodable it \<and> it \<noteq> sentinel \<and> parsed_chunk loads it = None)"

subsection \<open>Transport failures\<close>

text \<open>
  A failure at the transport level: the request raised (no connection, a timeout), or the
  response has an error status (\<^verbatim>\<open>raise_for_status\<close>: 4xx and 5xx). The text is the
  message of the exception.
\<close>

fun transport_failure :: "http_reply \<Rightarrow> bool" where
  "transport_failure (PostRaises msg) = True"
| "transport_failure (PostReturns r) = (400 \<le> status_code r \<and> status_code r < 600)"

fun failure_text :: "http_reply \<Rightarrow> string" where
  "failure_text (PostRaises msg) = msg"
| "failure_text (PostReturns r) = http_error r"

subsection \<open>File names and the pointer file\<close>

text \<open>
  The name derived from a timestamp, without its extension: no colon, and a hyphen for
  each period.
\<close>

definition stem :: "string \<Rightarrow> string" where
  "stem created =
     map (\<lambda>c. if c = CHR ''.'' then CHR ''-'' else c) (filter (\<lambda>c. c \<noteq> CHR '':'') created)"

text \<open>The file a turn saves to: the name the session has, or the one derived for it.\<close>

definition file_name :: "json \<Rightarrow> string option \<Rightarrow> string" where
  "file_name chat_data fn =
     (case fn of
        Some f \<Rightarrow> f
      | None \<Rightarrow>
          (case getitem chat_data ''created_at'' of
             Inr (JStr c) \<Rightarrow> get_chat_filename c
           | _ \<Rightarrow> []))"

text \<open>
  A pointer file that names no active chat: an object without the key, or with a value
  that counts as false (\<^verbatim>\<open>null\<close>, an empty string). A pointer file that names a file.
\<close>

definition names_no_active_chat :: "json \<Rightarrow> bool" where
  "names_no_active_chat data =
     (case data of
        JObj kvs \<Rightarrow> (case map_of kvs ''active_chat'' of None \<Rightarrow> True | Some v \<Rightarrow> \<not> truthy v)
      | _ \<Rightarrow> False)"

definition names_file :: "json \<Rightarrow> string \<Rightarrow> bool" where
  "names_file data f =
     (case data of
        JObj kvs \<Rightarrow> map_of kvs ''active_chat'' = Some (JStr f) \<and> f \<noteq> []
      | _ \<Rightarrow> False)"

subsection \<open>Sessions of several invocations\<close>

text \<open>
  A turn is one invocation without \<^verbatim>\<open>--load\<close>: the prompt argument, the input file as
  the user left it (its bytes, \<open>None\<close> when there is no such file), and what the
  transport and the clock answer. A session starts with \<^verbatim>\<open>--new\<close> and goes on with
  plain invocations; it is \<open>None\<close> as soon as one of them fails.
\<close>

record turn =
  turn_arg :: "string option"
  turn_input :: "string option"
  turn_env :: env

definition edit_input :: "pylib \<Rightarrow> string option \<Rightarrow> store \<Rightarrow> store" where
  "edit_input lib inp st =
     (case inp of
        None \<Rightarrow> st(input_key lib := None)
      | Some bytes \<Rightarrow> st(input_key lib \<mapsto> Text bytes))"

definition invoke ::
  "pylib \<Rightarrow> bool \<Rightarrow> store \<Rightarrow> turn \<Rightarrow> bool \<Rightarrow> (error + unit) \<times> store \<times> payload list"
where
  "invoke lib STREAMING st tn new_chat =
     chat lib STREAMING (turn_env tn) (edit_input lib (turn_input tn) st) (turn_arg tn) new_chat None"

fun continue_turns :: "pylib \<Rightarrow> bool \<Rightarrow> store \<Rightarrow> turn list \<Rightarrow> store option" where
  "continue_turns lib STREAMING st [] = Some st"
| "continue_turns lib STREAMING st (tn # rest) =
     (case fst (invoke lib STREAMING st tn False) of
        Inl e \<Rightarrow> None
      | Inr u \<Rightarrow> continue_turns lib STREAMING (fst (snd (invoke lib STREAMING st tn False))) rest)"

fun new_session :: "pylib \<Rightarrow> bool \<Rightarrow> store \<Rightarrow> turn list \<Rightarrow> store option" where
  "new_session lib STREAMING st [] = None"
| "new_session lib STREAMING st (tn # rest) =
     (case fst (invoke lib STREAMING st tn True) of
        Inl e \<Rightarrow> None
      | Inr u \<Rightarrow> continue_turns lib STREAMING (fst (snd (invoke lib STREAMING st tn True))) rest)"

text \<open>
  What one turn exchanges: the prompt that is sent, the response that comes back, the two
  messages of the turn, and a counter of a usage record (of a response or of a
  transcript).
\<close>

definition turn_prompt :: "pylib \<Rightarrow> turn \<Rightarrow> string" where
  "turn_prompt lib tn =
     (case acquire_prompt lib (edit_input lib (turn_input tn) Map.empty) (turn_arg tn) of
        Inl e \<Rightarrow> []
      | Inr p \<Rightarrow> p)"

definition turn_response :: "pylib \<Rightarrow> bool \<Rightarrow> turn \<Rightarrow> json" where
  "turn_response lib STREAMING tn =
     (case receive lib STREAMING (reply (turn_env tn)) of Inl e \<Rightarrow> JNull | Inr r \<Rightarrow> r)"

definition turn_messages :: "pylib \<Rightarrow> bool \<Rightarrow> turn \<Rightarrow> message list" where
  "turn_messages lib STREAMING tn =
     [\<lparr>role = ''user'', content = JStr (turn_prompt lib tn)\<rparr>,
      \<lparr>role = ''assistant'',
       content = (case assistant_content (turn_response lib STREAMING tn) of
                    Inl e \<Rightarrow> JNull
                  | Inr a \<Rightarrow> a)\<rparr>]"

definition usage_field :: "json \<Rightarrow> string \<Rightarrow> int" where
  "usage_field response k =
     (case and_then (getitem response ''usage'') (\<lambda>u. getitem u k) of
        Inl e \<Rightarrow> 0
      | Inr v \<Rightarrow> int_value v)"

text \<open>The sum of a counter over the exchanges of a session.\<close>

definition usage_sum :: "pylib \<Rightarrow> bool \<Rightarrow> string \<Rightarrow> turn list \<Rightarrow> int" where
  "usage_sum lib STREAMING k turns =
     sum_list (map (\<lambda>tn. usage_field (turn_response lib STREAMING tn) k) turns)"

text \<open>A counter of a usage record by itself, zero when it is missing.\<close>

definition field_value :: "json \<Rightarrow> string \<Rightarrow> int" where
  "field_value u k = (case getitem u k of Inl e \<Rightarrow> 0 | Inr v \<Rightarrow> int_value v)"

subsection \<open>The steps of a turn\<close>

text \<open>
  The two messages a turn appends, and the steps of \<^verbatim>\<open>chat\<close> between the arrival of
  the response and the saving of the transcript.
\<close>

definition user_msg :: "string \<Rightarrow> json" where
  "user_msg p = JObj [(''role'', JStr ''user''), (''content'', JStr p)]"

definition assistant_msg :: "json \<Rightarrow> json" where
  "assistant_msg a = JObj [(''role'', JStr ''assistant''), (''content'', a)]"

definition record_response :: "env \<Rightarrow> json \<Rightarrow> json \<Rightarrow> error + json" where
  "record_response ev chat_data1 response =
     and_then (assistant_content response) (\<lambda>assistant_message.
     and_then (append_item chat_data1 ''messages'' (assistant_msg assistant_message)) (\<lambda>chat_data2.
     and_then (getitem response ''usage'') (\<lambda>response_usage.
     and_then (add_counter chat_data2 response_usage ''prompt_tokens'') (\<lambda>chat_data3.
     and_then (add_counter chat_data3 response_usage ''completion_tokens'') (\<lambda>chat_data4.
     and_then (add_counter chat_data4 response_usage ''total_tokens'') (\<lambda>chat_data5.
     setitem chat_data5 ''last_updated_at'' (JStr (now_update ev))))))))"

text \<open>The transcript after a turn, as the specification states it.\<close>

definition after_turn :: "env \<Rightarrow> transcript \<Rightarrow> string \<Rightarrow> json \<Rightarrow> json \<Rightarrow> transcript" where
  "after_turn ev t p a response =
     t\<lparr>messages := messages t @ [\<lparr>role = ''user'', content = JStr p\<rparr>,
                                  \<lparr>role = ''assistant'', content = a\<rparr>],
       usage := \<lparr>prompt_tokens = prompt_tokens (usage t) + usage_field response ''prompt_tokens'',
                 total_tokens = total_tokens (usage t) + usage_field response ''total_tokens'',
                 completion_tokens =
                   completion_tokens (usage t) + usage_field response ''completion_tokens''\<rparr>,
       last_updated_at := now_update ev\<rparr>"

subsection \<open>Sample values\<close>

text \<open>
  The values of \<^verbatim>\<open>json.loads\<close> on the payloads of the examples below (it raises on
  \<^verbatim>\<open>{broken\<close>, which is not in the table), \<^verbatim>\<open>str\<close> and \<^verbatim>\<open>json.dumps\<close> on the
  scalars (no example formats a list or a dict, reads a dumped file as text or
  capitalizes text beyond ASCII).
\<close>

definition sample_loads :: "string \<Rightarrow> json option" where
  "sample_loads =
     map_of
       [(''{\"choices\":[{\"delta\":{\"content\":\"hi \"}}]}'',
         JObj [(''choices'', JArr [JObj [(''delta'', JObj [(''content'', JStr ''hi '')])]])]),
        (''{\"choices\":[{\"delta\":{\"content\":\"there\"}}]}'',
         JObj [(''choices'', JArr [JObj [(''delta'', JObj [(''content'', JStr ''there'')])]])]),
        (''{\"choices\":[],\"usage\":{\"prompt_tokens\":5,\"completion_tokens\":3,\"total_tokens\":8}}'',
         JObj [(''choices'', JArr []),
               (''usage'', JObj [(''prompt_tokens'', JInt 5), (''completion_tokens'', JInt 3),
                                 (''total_tokens'', JInt 8)])]),
        (''{\"choices\":[],\"usage\":{}}'',
         JObj [(''choices'', JArr []), (''usage'', JObj [])]),
        (''5'', JInt 5)]"

fun sample_str :: "json \<Rightarrow> string" where
  "sample_str JNull = ''None''"
| "sample_str (JBool b) = (if b then ''True'' else ''False'')"
| "sample_str (JInt n) = str_int n"
| "sample_str v = []"

fun sample_dumps :: "bool \<Rightarrow> json \<Rightarrow> string" where
  "sample_dumps ascii JNull = ''null''"
| "sample_dumps ascii (JBool b) = (if b then ''true'' else ''false'')"
| "sample_dumps ascii (JInt n) = str_int n"
| "sample_dumps ascii v = []"

text \<open>
  The key of a path in a file system without links, relative to the working directory:
  the components of the path without the empty ones and \<^verbatim>\<open>.\<close>, a component
  \<^verbatim>\<open>..\<close> cancelling the one before it.
\<close>

fun split_path :: "string \<Rightarrow> string \<Rightarrow> string list" where
  "split_path cur [] = [cur]"
| "split_path cur (c # cs) =
     (if c = CHR ''/'' then cur # split_path [] cs else split_path (cur @ [c]) cs)"

fun norm_parts :: "string list \<Rightarrow> string list \<Rightarrow> string list" where
  "norm_parts stack [] = rev stack"
| "norm_parts stack (p # ps) =
     (if p = [] \<or> p = ''.'' then norm_parts stack ps
      else if p = ''..'' \<and> stack \<noteq> [] \<and> hd stack \<noteq> ''..'' then norm_parts (tl stack) ps
      else norm_parts (p # stack) ps)"

fun join_parts :: "string list \<Rightarrow> string" where
  "join_parts [] = []"
| "join_parts [p] = p"
| "join_parts (p # q # ps) = p @ ''/'' @ join_parts (q # ps)"

definition sample_key :: "string \<Rightarrow> string" where
  "sample_key path =
     (if take 1 path = ''/'' then ''/'' @ join_parts (norm_parts [] (split_path [] path))
      else join_parts (norm_parts [] (split_path [] path)))"

definition sample_lib :: pylib where
  "sample_lib =
     \<lparr>json_loads = sample_loads, json_dumps = sample_dumps, py_str = sample_str,
      str_capitalize = (\<lambda>s. s), path_key = sample_key\<rparr>"

text \<open>A stream, a batched response with the same content and usage, and their answer.\<close>

definition sample_stream :: "stream_item list" where
  "sample_stream =
     [Line ''data: {\"choices\":[{\"delta\":{\"content\":\"hi \"}}]}'',
      Line [],
      Line '': keep-alive'',
      Line ''data: {broken'',
      Line ''data: {\"choices\":[{\"delta\":{\"content\":\"there\"}}]}'',
      Line ''data: {\"choices\":[],\"usage\":{\"prompt_tokens\":5,\"completion_tokens\":3,\"total_tokens\":8}}'',
      Line ''data: [DONE]'',
      Line ''data: 5'']"

definition sample_usage :: json where
  "sample_usage =
     JObj [(''prompt_tokens'', JInt 5), (''completion_tokens'', JInt 3), (''total_tokens'', JInt 8)]"

definition sample_batch :: json where
  "sample_batch =
     JObj [(''id'', JStr ''cmpl-1''),
           (''choices'',
            JArr [JObj [(''index'', JInt 0),
                        (''message'', JObj [(''role'', JStr ''assistant''),
                                            (''content'', JStr ''hi there'')])]]),
           (''usage'', sample_usage)]"

definition sample_response :: http_response where
  "sample_response =
     \<lparr>status_code = 200, http_error = [], json_result = Inr sample_batch,
      iter_lines = sample_stream\<rparr>"

definition sample_env :: env where
  "sample_env =
     \<lparr>reply = PostReturns sample_response,
      now_create = ''2026-01-22T01:07:57.123456'',
      now_update = ''2026-01-22T01:07:59.654321''\<rparr>"

text \<open>
  A working directory in which the program has not run yet (it creates the history
  directory when it starts), and the same directory after the sample turn of a new chat.
\<close>

definition no_files :: store where
  "no_files = [''history'' \<mapsto> Directory]"

definition sample_transcript :: transcript where
  "sample_transcript =
     \<lparr>model = MODEL,
      messages = [\<lparr>role = ''user'', content = JStr ''hello''\<rparr>,
                  \<lparr>role = ''assistant'', content = JStr ''hi there''\<rparr>],
      usage = \<lparr>prompt_tokens = 5, total_tokens = 8, completion_tokens = 3\<rparr>,
      created_at = ''2026-01-22T01:07:57.123456'',
      last_updated_at = ''2026-01-22T01:07:59.654321''\<rparr>"

definition sample_files :: store where
  "sample_files =
     no_files
       (''history/2026-01-22T010757-123456.json'' \<mapsto> Dumped False (doc_of sample_transcript),
        ''history/active_chat.json'' \<mapsto> Dumped True (pointer_to ''2026-01-22T010757-123456.json''),
        ''output.md'' \<mapsto> Text (rendered_view sample_lib sample_transcript))"

text \<open>An older chat in the same history directory.\<close>

definition older_transcript :: transcript where
  "older_transcript =
     \<lparr>model = MODEL,
      messages = [\<lparr>role = ''user'', content = JStr ''ping''\<rparr>,
                  \<lparr>role = ''assistant'', content = JStr ''pong''\<rparr>],
      usage = \<lparr>prompt_tokens = 2, total_tokens = 3, completion_tokens = 1\<rparr>,
      created_at = ''2026-01-20T10:15:00'',
      last_updated_at = ''2026-01-20T10:15:04.250000''\<rparr>"

definition two_chats :: store where
  "two_chats =
     sample_files(''history/2026-01-20T101500.json'' \<mapsto> Dumped False (doc_of older_transcript))"

text \<open>A stream in which no chunk carries a usage, and the answer that delivers it.\<close>

definition sample_stream_plain :: "stream_item list" where
  "sample_stream_plain =
     [Line ''data: {\"choices\":[{\"delta\":{\"content\":\"hi \"}}]}'',
      Line ''data: {\"choices\":[{\"delta\":{\"content\":\"there\"}}]}'',
      Line ''data: [DONE]'']"

definition sample_env_plain :: env where
  "sample_env_plain =
     \<lparr>reply = PostReturns \<lparr>status_code = 200, http_error = [],
                              json_result = Inl ''Expecting value'',
                              iter_lines = sample_stream_plain\<rparr>,
      now_create = ''2026-01-22T01:09:00'',
      now_update = ''2026-01-22T01:09:02.500000''\<rparr>"

text \<open>
  A stream whose last chunk has an empty usage object, and a batched response with the
  same content and the same empty usage object.
\<close>

definition sample_stream_empty_usage :: "stream_item list" where
  "sample_stream_empty_usage =
     [Line ''data: {\"choices\":[{\"delta\":{\"content\":\"hi \"}}]}'',
      Line ''data: {\"choices\":[{\"delta\":{\"content\":\"there\"}}]}'',
      Line ''data: {\"choices\":[],\"usage\":{}}'',
      Line ''data: [DONE]'']"

definition sample_batch_empty_usage :: json where
  "sample_batch_empty_usage =
     JObj [(''choices'', JArr [JObj [(''message'', JObj [(''content'', JStr ''hi there'')])]]),
           (''usage'', JObj [])]"

definition sample_response_empty_usage :: http_response where
  "sample_response_empty_usage =
     \<lparr>status_code = 200, http_error = [], json_result = Inr sample_batch_empty_usage,
      iter_lines = sample_stream_empty_usage\<rparr>"

text \<open>A stream that breaks after its first chunk.\<close>

definition sample_response_broken :: http_response where
  "sample_response_broken =
     \<lparr>status_code = 200, http_error = [], json_result = Inl ''Expecting value'',
      iter_lines = [Line ''data: {\"choices\":[{\"delta\":{\"content\":\"hi \"}}]}'',
                    ReadError ''Connection broken: IncompleteRead'']\<rparr>"

text \<open>A second turn, with its prompt in the input file, and the session of the two turns.\<close>

definition sample_batch2 :: json where
  "sample_batch2 =
     JObj [(''choices'', JArr [JObj [(''message'', JObj [(''content'', JStr ''fine'')])]]),
           (''usage'', JObj [(''prompt_tokens'', JInt 7), (''completion_tokens'', JInt 2),
                             (''total_tokens'', JInt 9)])]"

definition sample_env2 :: env where
  "sample_env2 =
     \<lparr>reply = PostReturns \<lparr>status_code = 200, http_error = [],
                              json_result = Inr sample_batch2, iter_lines = []\<rparr>,
      now_create = ''2026-01-22T01:09:00'',
      now_update = ''2026-01-22T01:09:02.500000''\<rparr>"

definition sample_turns :: "turn list" where
  "sample_turns =
     [\<lparr>turn_arg = Some ''hello'', turn_input = None, turn_env = sample_env\<rparr>,
      \<lparr>turn_arg = None, turn_input = Some ''and then?\<newline>'', turn_env = sample_env2\<rparr>]"

text \<open>The transcript of a first turn to which the response adds no usage.\<close>

definition zero_usage_transcript :: transcript where
  "zero_usage_transcript =
     \<lparr>model = MODEL,
      messages = [\<lparr>role = ''user'', content = JStr ''hello''\<rparr>,
                  \<lparr>role = ''assistant'', content = JStr ''hi there''\<rparr>],
      usage = \<lparr>prompt_tokens = 0, total_tokens = 0, completion_tokens = 0\<rparr>,
      created_at = ''2026-01-22T01:07:57.123456'',
      last_updated_at = ''2026-01-22T01:07:59.654321''\<rparr>"

section \<open>Facts about the operations\<close>

subsection \<open>Sequencing and lookups\<close>

lemma and_then_Inl [simp]: "and_then (Inl e) f = Inl e" by (simp add: and_then_def)

lemma and_then_Inr [simp]: "and_then (Inr v) f = f v" by (simp add: and_then_def)

lemma and_then_eq_Inr:
  "and_then r f = Inr y \<longleftrightarrow> (\<exists>v. r = Inr v \<and> f v = Inr y)"
  by (cases r) simp_all

lemma py_in_obj: "py_in k (JObj kvs) = Inr (map_of kvs k \<noteq> None)"
  by (simp add: map_of_eq_None_iff)

lemma key_truthy_obj:
  "key_truthy k (JObj kvs) = Inr (case map_of kvs k of None \<Rightarrow> False | Some v \<Rightarrow> truthy v)"
  by (cases "map_of kvs k") (simp_all add: key_truthy_def py_in_obj del: py_in.simps)

lemma key_truthy_usage:
  "key_truthy ''usage'' chunk = Inr b \<Longrightarrow> b = (carried_usage chunk \<noteq> None)"
proof (cases chunk)
  case (JObj kvs)
  assume "key_truthy ''usage'' chunk = Inr b"
  with JObj show ?thesis
    by (auto simp: key_truthy_obj carried_usage_def split: option.splits)
next
  case (JArr xs)
  assume "key_truthy ''usage'' chunk = Inr b"
  with JArr show ?thesis
    by (auto simp: key_truthy_def carried_usage_def split: if_splits bool.splits)
next
  case (JStr s)
  assume "key_truthy ''usage'' chunk = Inr b"
  with JStr show ?thesis
    by (auto simp: key_truthy_def carried_usage_def split: if_splits bool.splits)
qed (simp_all add: key_truthy_def)

subsection \<open>Chunks\<close>

lemma process_chunk_usage:
  assumes "process_chunk chunk acc = Inr acc'"
  shows "snd acc' = (case carried_usage chunk of None \<Rightarrow> snd acc | Some u \<Rightarrow> u)"
proof (cases "key_truthy ''usage'' chunk")
  case (Inl e)
  with assms show ?thesis
    by (auto simp: process_chunk_def split: sum.splits bool.splits if_splits)
next
  case (Inr b)
  note kt = key_truthy_usage [OF Inr]
  show ?thesis
  proof (cases b)
    case True
    with kt obtain u where u: "carried_usage chunk = Some u" by auto
    then have "getitem chunk ''usage'' = Inr u"
      by (cases chunk) (auto simp: carried_usage_def split: option.splits if_splits)
    with assms Inr True u show ?thesis
      by (auto simp: process_chunk_def split: sum.splits bool.splits if_splits)
  next
    case False
    with kt have "carried_usage chunk = None" by simp
    with assms Inr False show ?thesis
      by (auto simp: process_chunk_def split: sum.splits bool.splits if_splits)
  qed
qed

lemma chunk_content_fragment:
  assumes "map_of kvs ''choices'' = Some choices" "truthy choices" "fragment (JObj kvs) = Some f"
  shows "\<exists>c. chunk_content (JObj kvs) = Inr c \<and> add_content full c = Inr (full @ f)"
proof -
  from assms obtain choice others where ch: "choices = JArr (choice # others)" "choice_fragment choice = Some f"
    by (auto simp: fragment_def split: json.splits list.splits)
  then obtain ckvs where ck: "choice = JObj ckvs"
    by (auto simp: choice_fragment_def split: json.splits)
  show ?thesis
  proof (cases "map_of ckvs ''delta''")
    case None
    with ch ck assms show ?thesis
      by (auto simp: chunk_content_def choice_fragment_def add_content_def)
  next
    case (Some delta)
    with ch ck have df: "delta_fragment delta = Some f" by (simp add: choice_fragment_def)
    then obtain dkvs where dk: "delta = JObj dkvs" by (auto simp: delta_fragment_def split: json.splits)
    from df dk show ?thesis using ch ck assms Some
      by (auto simp: chunk_content_def delta_fragment_def add_content_def split: option.splits json.splits if_splits)
  qed
qed

lemma usage_step_obj:
  "(case key_truthy ''usage'' (JObj kvs) of
      Inl e \<Rightarrow> Inl e
    | Inr False \<Rightarrow> Inr (full, u0)
    | Inr True \<Rightarrow>
        (case getitem (JObj kvs) ''usage'' of
           Inl e \<Rightarrow> Inl e
         | Inr u \<Rightarrow> Inr (full, u)))
   = Inr (full, case carried_usage (JObj kvs) of None \<Rightarrow> u0 | Some u \<Rightarrow> u)"
  by (cases "map_of kvs ''usage''") (simp_all add: key_truthy_obj carried_usage_def)

lemma process_chunk_fragment:
  assumes "fragment chunk = Some f"
  shows "process_chunk chunk acc =
           Inr (fst acc @ f, case carried_usage chunk of None \<Rightarrow> snd acc | Some u \<Rightarrow> u)"
proof -
  from assms obtain kvs where kv: "chunk = JObj kvs"
    by (auto simp: fragment_def split: json.splits)
  show ?thesis
  proof (cases "case map_of kvs ''choices'' of None \<Rightarrow> False | Some v \<Rightarrow> truthy v")
    case False
    then have "f = []" using assms kv by (auto simp: fragment_def split: option.splits)
    moreover have "key_truthy ''choices'' (JObj kvs) = Inr False"
      using False by (simp add: key_truthy_obj)
    ultimately show ?thesis
      unfolding process_chunk_def kv by (simp add: usage_step_obj)
  next
    case True
    then obtain choices where c: "map_of kvs ''choices'' = Some choices" "truthy choices"
      by (auto split: option.splits)
    from chunk_content_fragment [OF c assms [unfolded kv], of "fst acc"]
    obtain cc where "chunk_content (JObj kvs) = Inr cc" "add_content (fst acc) cc = Inr (fst acc @ f)" by blast
    moreover have "key_truthy ''choices'' (JObj kvs) = Inr True"
      using True by (simp add: key_truthy_obj)
    ultimately show ?thesis
      unfolding process_chunk_def kv by (simp add: usage_step_obj)
  qed
qed

subsection \<open>The loop over the lines\<close>

lemma utf8_valid_sentinel: "utf8_valid ''data: [DONE]''"
  by (simp add: utf8_valid_def)

lemma stream_loop_at_sentinel: "stream_loop loads (sentinel # post) acc = Inr acc"
  by (simp add: sentinel_def utf8_valid_sentinel)

lemma stream_loop_Line:
  "stream_loop loads (Line line # rest) acc =
     (if line = [] then stream_loop loads rest acc
      else if \<not> utf8_valid line then Inl UnicodeDecodeError
      else if Line line = sentinel then Inr acc
      else (case parsed_chunk loads (Line line) of
              None \<Rightarrow> stream_loop loads rest acc
            | Some chunk \<Rightarrow>
                (case process_chunk chunk acc of
                   Inl e \<Rightarrow> Inl e
                 | Inr acc' \<Rightarrow> stream_loop loads rest acc')))"
proof -
  have "Line line = sentinel \<longleftrightarrow> take 6 line = ''data: '' \<and> drop 6 line = ''[DONE]''"
  proof
    assume "Line line = sentinel"
    then show "take 6 line = ''data: '' \<and> drop 6 line = ''[DONE]''" by (simp add: sentinel_def)
  next
    assume "take 6 line = ''data: '' \<and> drop 6 line = ''[DONE]''"
    then have "line = ''data: '' @ ''[DONE]''" by (metis append_take_drop_id)
    then show "Line line = sentinel" by (simp add: sentinel_def)
  qed
  then show ?thesis by (simp del: take_eq_Nil)
qed

declare stream_loop.simps(3) [simp del]

lemma stream_loop_stops_at_sentinel:
  "stream_loop loads (pre @ sentinel # post) acc = stream_loop loads pre acc"
proof (induction pre arbitrary: acc)
  case Nil
  show ?case by (simp add: stream_loop_at_sentinel)
next
  case (Cons it pre)
  show ?case
  proof (cases it)
    case (Line l)
    then show ?thesis
      by (simp add: stream_loop_Line Cons.IH split: option.splits sum.splits)
  next
    case (ReadError msg)
    then show ?thesis by simp
  qed
qed

lemma stream_loop_skipped_head:
  "skipped loads it \<Longrightarrow> stream_loop loads (it # rest) acc = stream_loop loads rest acc"
  by (cases it) (simp_all add: skipped_def stream_loop_Line)

lemma stream_loop_skips:
  "skipped loads it \<Longrightarrow>
   stream_loop loads (pre @ it # post) acc = stream_loop loads (pre @ post) acc"
proof (induction pre arbitrary: acc)
  case Nil
  then show ?case by (simp add: stream_loop_skipped_head)
next
  case (Cons x pre)
  show ?case
  proof (cases x)
    case (Line l)
    then show ?thesis
      by (simp add: stream_loop_Line Cons.IH [OF Cons.prems] split: option.splits sum.splits)
  next
    case (ReadError msg)
    then show ?thesis by simp
  qed
qed

lemma before_done_Cons:
  "before_done (it # rest) = (if it = sentinel then [] else it # before_done rest)"
  by (simp add: before_done_def)

lemma chunks_Nil [simp]: "chunks loads [] = []"
  by (simp add: chunks_def before_done_def map_filter_simps)

lemma chunks_Cons:
  "chunks loads (it # rest) =
     (if it = sentinel then []
      else (case parsed_chunk loads it of
              None \<Rightarrow> chunks loads rest
            | Some chunk \<Rightarrow> chunk # chunks loads rest))"
  by (simp add: chunks_def before_done_Cons map_filter_simps split: option.splits)

lemma carried_usages_Nil [simp]: "carried_usages loads [] = []"
  by (simp add: carried_usages_def map_filter_simps)

lemma carried_usages_Cons:
  "carried_usages loads (it # rest) =
     (if it = sentinel then []
      else (case parsed_chunk loads it of
              None \<Rightarrow> carried_usages loads rest
            | Some chunk \<Rightarrow>
                (case carried_usage chunk of
                   None \<Rightarrow> carried_usages loads rest
                 | Some u \<Rightarrow> u # carried_usages loads rest)))"
  by (simp add: carried_usages_def chunks_Cons map_filter_simps split: option.splits)

lemma last_or_Nil [simp]: "last_or d [] = d"
  by (simp add: last_or_def)

lemma last_or_Cons [simp]: "last_or d (x # xs) = last_or x xs"
  by (simp add: last_or_def)

lemma stream_loop_usage:
  "stream_loop loads items acc = Inr acc' \<Longrightarrow>
   snd acc' = last_or (snd acc) (carried_usages loads items)"
proof (induction items arbitrary: acc)
  case Nil
  then show ?case by simp
next
  case (Cons it rest)
  show ?case
  proof (cases it)
    case (ReadError msg)
    with Cons.prems show ?thesis by simp
  next
    case (Line l)
    show ?thesis
    proof (cases "it = sentinel")
      case True
      with Cons.prems show ?thesis
        by (simp add: stream_loop_at_sentinel carried_usages_Cons)
    next
      case ns: False
      show ?thesis
      proof (cases "parsed_chunk loads it")
        case None
        with Cons.prems ns Line have "stream_loop loads rest acc = Inr acc'"
          by (simp add: stream_loop_Line split: if_splits)
        from Cons.IH [OF this] None ns show ?thesis
          by (simp add: carried_usages_Cons)
      next
        case (Some chunk)
        with Cons.prems ns Line obtain acc1 where
          pc: "process_chunk chunk acc = Inr acc1" and rest: "stream_loop loads rest acc1 = Inr acc'"
          by (auto simp: stream_loop_Line split: if_splits sum.splits)
        from Cons.IH [OF rest] process_chunk_usage [OF pc] Some ns show ?thesis
          by (simp add: carried_usages_Cons split: option.splits)
      qed
    qed
  qed
qed

lemma stream_loop_well_formed:
  assumes "\<forall>it \<in> set (before_done items). decodable it"
    and "\<forall>chunk \<in> set (chunks loads items). fragment chunk \<noteq> None"
  shows "stream_loop loads items acc =
           Inr (fst acc @ concat (map the_fragment (chunks loads items)),
                last_or (snd acc) (carried_usages loads items))"
  using assms
proof (induction items arbitrary: acc)
  case Nil
  show ?case by simp
next
  case (Cons it rest)
  show ?case
  proof (cases "it = sentinel")
    case True
    then show ?thesis
      by (simp add: stream_loop_at_sentinel chunks_Cons carried_usages_Cons)
  next
    case ns: False
    with Cons.prems have dec: "decodable it" and
      rest1: "\<forall>it \<in> set (before_done rest). decodable it"
      by (simp_all add: before_done_Cons)
    then obtain l where l: "it = Line l" "utf8_valid l" by (cases it) auto
    show ?thesis
    proof (cases "parsed_chunk loads it")
      case None
      with Cons.prems(2) ns have rest2: "\<forall>chunk \<in> set (chunks loads rest). fragment chunk \<noteq> None"
        by (simp add: chunks_Cons)
      from Cons.IH [OF rest1 rest2] None ns l show ?thesis
        by (simp add: stream_loop_Line chunks_Cons carried_usages_Cons)
    next
      case (Some chunk)
      with Cons.prems(2) ns obtain f where f: "fragment chunk = Some f"
        and rest2: "\<forall>chunk \<in> set (chunks loads rest). fragment chunk \<noteq> None"
        by (auto simp: chunks_Cons)
      have ne: "l \<noteq> []" using Some l by auto
      from Cons.IH [OF rest1 rest2] Some ns l ne f show ?thesis
        by (simp add: stream_loop_Line chunks_Cons carried_usages_Cons
            process_chunk_fragment [OF f] split: option.splits)
    qed
  qed
qed

subsection \<open>The handler\<close>

lemma getitem_stream_response_usage: "getitem (stream_response c u) ''usage'' = Inr u"
  by (simp add: stream_response_def)

lemma assistant_content_stream_response: "assistant_content (stream_response c u) = Inr (JStr c)"
  by (simp add: stream_response_def assistant_content_def)

lemma handle_stream_usage:
  assumes "handle_stream loads items = Inr r"
  shows "\<exists>c. r = stream_response c (last_or zero_usage (carried_usages loads items))"
proof -
  from assms obtain acc where acc: "stream_loop loads items ([], zero_usage) = Inr acc"
    and r: "r = stream_response (fst acc) (snd acc)"
    by (cases "stream_loop loads items ([], zero_usage)") (simp_all add: handle_stream_def)
  from stream_loop_usage [OF acc] r show ?thesis by auto
qed

lemma handle_stream_usage_item:
  "handle_stream loads items = Inr r \<Longrightarrow>
   getitem r ''usage'' = Inr (last_or zero_usage (carried_usages loads items))"
  using handle_stream_usage [of loads items r] by (auto simp: getitem_stream_response_usage)

lemma handle_stream_well_formed:
  assumes "\<forall>it \<in> set (before_done items). decodable it"
    and "\<forall>chunk \<in> set (chunks loads items). fragment chunk \<noteq> None"
  shows "handle_stream loads items =
           Inr (stream_response (concat (map the_fragment (chunks loads items)))
                  (last_or zero_usage (carried_usages loads items)))"
  by (simp add: handle_stream_def stream_loop_well_formed [OF assms])

lemma handle_stream_stops_at_sentinel:
  "handle_stream loads (pre @ sentinel # post) = handle_stream loads pre"
  by (simp add: handle_stream_def stream_loop_stops_at_sentinel)

lemma handle_stream_skips:
  "skipped loads it \<Longrightarrow> handle_stream loads (pre @ it # post) = handle_stream loads (pre @ post)"
  by (simp add: handle_stream_def stream_loop_skips)

lemma skipped_bad_payload:
  assumes "utf8_valid l" "take 6 l = ''data: ''" "drop 6 l \<noteq> ''[DONE]''" "loads (drop 6 l) = None"
  shows "skipped loads (Line l)"
proof -
  have "Line l \<noteq> sentinel"
  proof
    assume "Line l = sentinel"
    then have "drop 6 l = ''[DONE]''" by (simp add: sentinel_def)
    with assms(3) show False by simp
  qed
  with assms show ?thesis by (simp add: skipped_def)
qed

subsection \<open>A stream that breaks\<close>

lemma stream_loop_append:
  "sentinel \<notin> set pre \<Longrightarrow>
   stream_loop loads (pre @ rest) acc =
     (case stream_loop loads pre acc of Inl e \<Rightarrow> Inl e | Inr acc' \<Rightarrow> stream_loop loads rest acc')"
proof (induction pre arbitrary: acc)
  case Nil
  show ?case by simp
next
  case (Cons it pre)
  then have ns: "it \<noteq> sentinel" and rest: "sentinel \<notin> set pre" by auto
  show ?case
  proof (cases it)
    case (Line l)
    with ns show ?thesis
      by (simp add: stream_loop_Line Cons.IH [OF rest] split: option.splits sum.splits)
  next
    case (ReadError msg)
    then show ?thesis by simp
  qed
qed

lemma before_done_no_sentinel: "sentinel \<notin> set pre \<Longrightarrow> before_done pre = pre"
  by (auto simp: before_done_def takeWhile_eq_all_conv)

lemma handle_stream_breaks:
  assumes "\<forall>it \<in> set pre. decodable it \<and> it \<noteq> sentinel"
    and "\<forall>chunk \<in> set (chunks loads pre). fragment chunk \<noteq> None"
  shows "handle_stream loads (pre @ ReadError msg # post) = Inl (RequestException msg)"
proof -
  from assms(1) have ns: "sentinel \<notin> set pre" by auto
  then have bd: "before_done pre = pre" by (rule before_done_no_sentinel)
  have dec: "\<forall>it \<in> set (before_done pre). decodable it" using assms(1) bd by simp
  from stream_loop_well_formed [OF dec assms(2)] stream_loop_append [OF ns]
  show ?thesis by (simp add: handle_stream_def)
qed

subsection \<open>Dicts\<close>

lemma map_of_dict_set:
  "map_of (dict_set kvs k v) k' = (if k' = k then Some v else map_of kvs k')"
  by (induction kvs) auto

lemma getitem_setitem:
  "setitem d k v = Inr d' \<Longrightarrow> getitem d' k' = (if k' = k then Inr v else getitem d k')"
  by (cases d) (auto simp: map_of_dict_set)

lemma getitem_append_item:
  assumes "append_item d k v = Inr d'"
  shows "\<exists>xs. getitem d k = Inr (JArr xs)
           \<and> getitem d' k' = (if k' = k then Inr (JArr (xs @ [v])) else getitem d k')"
proof -
  from assms obtain x x' where x: "getitem d k = Inr x" and a: "py_append x v = Inr x'"
    and s: "setitem d k x' = Inr d'"
    by (auto simp: append_item_def and_then_eq_Inr)
  from a obtain xs where "x = JArr xs" "x' = JArr (xs @ [v])" by (cases x) auto
  with x getitem_setitem [OF s, of k'] show ?thesis by simp
qed

lemma py_iadd_value: "py_iadd x y = Inr z \<Longrightarrow> int_value z = int_value x + int_value y"
  by (cases x; cases y) (auto simp: py_iadd_def split: if_splits sum.splits)

lemma py_iadd_int: "py_iadd (JInt n) y = Inr z \<Longrightarrow> z = JInt (n + int_value y)"
  by (cases y) (auto simp: py_iadd_def)

lemma usage_field_value:
  "getitem r ''usage'' = Inr u \<Longrightarrow> usage_field r k = field_value u k"
  by (simp add: usage_field_def field_value_def)

lemma getitem_add_counter:
  assumes "add_counter d ru k = Inr d'" "k' \<noteq> ''usage''"
  shows "getitem d' k' = getitem d k'"
  using assms
  by (auto simp: add_counter_def and_then_eq_Inr dest!: getitem_setitem [where k' = k'])

lemma usage_field_add_counter:
  assumes "add_counter d ru k = Inr d'"
  shows "usage_field d' k' = (if k' = k then usage_field d k + field_value ru k else usage_field d k')"
proof -
  from assms obtain u old v new u' where u: "getitem d ''usage'' = Inr u"
    and old: "getitem u k = Inr old" and v: "getitem ru k = Inr v"
    and new: "py_iadd old v = Inr new" and u': "setitem u k new = Inr u'"
    and d': "setitem d ''usage'' u' = Inr d'"
    by (auto simp: add_counter_def and_then_eq_Inr)
  have "getitem d' ''usage'' = Inr u'" using getitem_setitem [OF d', of "''usage''"] by simp
  moreover have "getitem u' k' = (if k' = k then Inr new else getitem u k')"
    by (rule getitem_setitem [OF u'])
  ultimately show ?thesis
    using u old v py_iadd_value [OF new]
    by (simp add: usage_field_def field_value_def)
qed

subsection \<open>The exchange\<close>

lemma receive_transport_failure:
  "transport_failure rep \<Longrightarrow> receive lib strm rep = Inl (RequestException (failure_text rep))"
  by (cases rep) (simp_all add: receive_def raise_for_status_def)

lemma receive_stream:
  "raise_for_status r = Inr () \<Longrightarrow>
   receive lib True (PostReturns r) = handle_stream (json_loads lib) (iter_lines r)"
  by (simp add: receive_def)

lemma receive_batch:
  "raise_for_status r = Inr () \<Longrightarrow> json_result r = Inr b \<Longrightarrow>
   receive lib False (PostReturns r) = Inr b"
  by (simp add: receive_def)

lemma exchange_unfold:
  "exchange lib strm ev d p =
     (case append_item d ''messages'' (user_msg p) of
        Inl e \<Rightarrow> ([], Inl e)
      | Inr d1 \<Rightarrow>
          (case getitem d1 ''messages'' of
             Inl e \<Rightarrow> ([], Inl e)
           | Inr msgs \<Rightarrow>
               ([\<lparr>payload_model = MODEL, payload_messages = msgs, max_tokens = MAX_TOKENS,
                  stream = strm\<rparr>],
                (case receive lib strm (reply ev) of
                   Inl e \<Rightarrow> Inl (request_failed e)
                 | Inr response \<Rightarrow> record_response ev d1 response))))"
  by (simp add: exchange_def send_message_def record_response_def user_msg_def
      assistant_msg_def Let_def split: sum.splits)

lemma exchange_posts:
  assumes "fst (exchange lib strm ev d p) \<noteq> []"
  obtains ms d1 where
    "getitem d ''messages'' = Inr (JArr ms)"
    "append_item d ''messages'' (user_msg p) = Inr d1"
    "getitem d1 ''messages'' = Inr (JArr (ms @ [user_msg p]))"
    "fst (exchange lib strm ev d p) =
       [\<lparr>payload_model = MODEL, payload_messages = JArr (ms @ [user_msg p]),
         max_tokens = MAX_TOKENS, stream = strm\<rparr>]"
    "snd (exchange lib strm ev d p) =
       (case receive lib strm (reply ev) of
          Inl e \<Rightarrow> Inl (request_failed e)
        | Inr response \<Rightarrow> record_response ev d1 response)"
proof (cases "append_item d ''messages'' (user_msg p)")
  case (Inl e)
  with assms show ?thesis by (simp add: exchange_unfold)
next
  case (Inr d1)
  from getitem_append_item [OF Inr, of "''messages''"] obtain ms where
    ms: "getitem d ''messages'' = Inr (JArr ms)"
    and ms1: "getitem d1 ''messages'' = Inr (JArr (ms @ [user_msg p]))"
    by auto
  show ?thesis
    by (rule that [OF ms Inr ms1]) (simp_all add: exchange_unfold Inr ms1)
qed

lemma exchange_request:
  assumes "getitem d ''messages'' = Inr (JArr ms)"
  shows "fst (exchange lib strm ev d p) =
       [\<lparr>payload_model = MODEL, payload_messages = JArr (ms @ [user_msg p]),
         max_tokens = MAX_TOKENS, stream = strm\<rparr>]"
proof -
  from assms obtain kvs where d: "d = JObj kvs" by (cases d) auto
  then have "append_item d ''messages'' (user_msg p) =
      Inr (JObj (dict_set kvs ''messages'' (JArr (ms @ [user_msg p]))))"
    using assms by (simp add: append_item_def)
  then show ?thesis by (simp add: exchange_unfold map_of_dict_set)
qed

lemma exchange_failure:
  assumes "receive lib strm (reply ev) = Inl e" "fst (exchange lib strm ev d p) \<noteq> []"
  shows "snd (exchange lib strm ev d p) = Inl (request_failed e)"
  using assms(2) by (rule exchange_posts) (simp add: assms(1))

lemma record_response_success:
  assumes "record_response ev d1 response = Inr d'"
  obtains a ms where
    "assistant_content response = Inr a"
    "getitem d1 ''messages'' = Inr (JArr ms)"
    "getitem d' ''messages'' = Inr (JArr (ms @ [assistant_msg a]))"
    "getitem d' ''created_at'' = getitem d1 ''created_at''"
    "getitem d' ''model'' = getitem d1 ''model''"
    "getitem d' ''last_updated_at'' = Inr (JStr (now_update ev))"
    "usage_field d' ''prompt_tokens'' =
       usage_field d1 ''prompt_tokens'' + usage_field response ''prompt_tokens''"
    "usage_field d' ''completion_tokens'' =
       usage_field d1 ''completion_tokens'' + usage_field response ''completion_tokens''"
    "usage_field d' ''total_tokens'' =
       usage_field d1 ''total_tokens'' + usage_field response ''total_tokens''"
proof -
  from assms obtain a d2 ru d3 d4 d5 where a: "assistant_content response = Inr a"
    and d2: "append_item d1 ''messages'' (assistant_msg a) = Inr d2"
    and ru: "getitem response ''usage'' = Inr ru"
    and d3: "add_counter d2 ru ''prompt_tokens'' = Inr d3"
    and d4: "add_counter d3 ru ''completion_tokens'' = Inr d4"
    and d5: "add_counter d4 ru ''total_tokens'' = Inr d5"
    and d': "setitem d5 ''last_updated_at'' (JStr (now_update ev)) = Inr d'"
    unfolding record_response_def and_then_eq_Inr by blast
  have keep: "getitem d' k = getitem d2 k" if "k \<noteq> ''usage''" "k \<noteq> ''last_updated_at''" for k
    using getitem_setitem [OF d', of k] getitem_add_counter [OF d5, of k]
      getitem_add_counter [OF d4, of k] getitem_add_counter [OF d3, of k] that
    by simp
  from getitem_append_item [OF d2, of "''messages''"] obtain ms where
    ms: "getitem d1 ''messages'' = Inr (JArr ms)"
    and ms2: "getitem d2 ''messages'' = Inr (JArr (ms @ [assistant_msg a]))"
    by auto
  have u2: "usage_field d2 k = usage_field d1 k" for k
    using getitem_append_item [OF d2, of "''usage''"] by (auto simp: usage_field_def)
  have u': "usage_field d' k = usage_field d5 k" for k
    using getitem_setitem [OF d', of "''usage''"] by (simp add: usage_field_def)
  note f3 = usage_field_add_counter [OF d3]
  note f4 = usage_field_add_counter [OF d4]
  note f5 = usage_field_add_counter [OF d5]
  note rv = usage_field_value [OF ru]
  show ?thesis
  proof (rule that [OF a ms])
    show "getitem d' ''messages'' = Inr (JArr (ms @ [assistant_msg a]))"
      using keep [of "''messages''"] ms2 by simp
    show "getitem d' ''created_at'' = getitem d1 ''created_at''"
      using keep [of "''created_at''"] getitem_append_item [OF d2, of "''created_at''"] by auto
    show "getitem d' ''model'' = getitem d1 ''model''"
      using keep [of "''model''"] getitem_append_item [OF d2, of "''model''"] by auto
    show "getitem d' ''last_updated_at'' = Inr (JStr (now_update ev))"
      using getitem_setitem [OF d', of "''last_updated_at''"] by simp
    show "usage_field d' ''prompt_tokens'' =
       usage_field d1 ''prompt_tokens'' + usage_field response ''prompt_tokens''"
      by (simp add: u' f5 f4 f3 u2 rv)
    show "usage_field d' ''completion_tokens'' =
       usage_field d1 ''completion_tokens'' + usage_field response ''completion_tokens''"
      by (simp add: u' f5 f4 f3 u2 rv)
    show "usage_field d' ''total_tokens'' =
       usage_field d1 ''total_tokens'' + usage_field response ''total_tokens''"
      by (simp add: u' f5 f4 f3 u2 rv)
  qed
qed

subsection \<open>Dicts that hold a transcript\<close>

lemma create_chat_history_doc: "create_chat_history now = doc_of (fresh now)"
  by (simp add: create_chat_history_def doc_of_def fresh_def usage_doc_def)

lemma getitem_doc:
  "getitem (doc_of t) ''model'' = Inr (JStr (model t))"
  "getitem (doc_of t) ''messages'' = Inr (JArr (map msg_doc (messages t)))"
  "getitem (doc_of t) ''usage'' = Inr (usage_doc (usage t))"
  "getitem (doc_of t) ''created_at'' = Inr (JStr (created_at t))"
  "getitem (doc_of t) ''last_updated_at'' = Inr (JStr (last_updated_at t))"
  by (simp_all add: doc_of_def)

lemma getitem_usage_doc:
  "getitem (usage_doc u) ''prompt_tokens'' = Inr (JInt (prompt_tokens u))"
  "getitem (usage_doc u) ''completion_tokens'' = Inr (JInt (completion_tokens u))"
  "getitem (usage_doc u) ''total_tokens'' = Inr (JInt (total_tokens u))"
  by (simp_all add: usage_doc_def)

lemma usage_field_doc:
  "usage_field (doc_of t) ''prompt_tokens'' = prompt_tokens (usage t)"
  "usage_field (doc_of t) ''completion_tokens'' = completion_tokens (usage t)"
  "usage_field (doc_of t) ''total_tokens'' = total_tokens (usage t)"
  by (simp_all add: usage_field_def getitem_doc getitem_usage_doc)

lemma user_msg_doc: "user_msg p = msg_doc \<lparr>role = ''user'', content = JStr p\<rparr>"
  by (simp add: user_msg_def msg_doc_def)

lemma assistant_msg_doc: "assistant_msg a = msg_doc \<lparr>role = ''assistant'', content = a\<rparr>"
  by (simp add: assistant_msg_def msg_doc_def)

lemma append_item_doc:
  "append_item (doc_of t) ''messages'' (msg_doc m) = Inr (doc_of (t\<lparr>messages := messages t @ [m]\<rparr>))"
  by (simp add: append_item_def doc_of_def)

lemma add_counter_prompt_doc:
  assumes "add_counter (doc_of t) ru ''prompt_tokens'' = Inr d'"
  shows "d' = doc_of (t\<lparr>usage := (usage t)\<lparr>prompt_tokens :=
                  prompt_tokens (usage t) + field_value ru ''prompt_tokens''\<rparr>\<rparr>)"
proof -
  from assms obtain v new where v: "getitem ru ''prompt_tokens'' = Inr v"
    and new: "py_iadd (JInt (prompt_tokens (usage t))) v = Inr new"
    and d': "d' = JObj [(''model'', JStr (model t)),
           (''messages'', JArr (map msg_doc (messages t))),
           (''usage'', JObj [(''prompt_tokens'', new),
                             (''total_tokens'', JInt (total_tokens (usage t))),
                             (''completion_tokens'', JInt (completion_tokens (usage t)))]),
           (''created_at'', JStr (created_at t)),
           (''last_updated_at'', JStr (last_updated_at t))]"
    by (auto simp: add_counter_def doc_of_def usage_doc_def and_then_eq_Inr)
  from py_iadd_int [OF new] v d' show ?thesis
    by (simp add: doc_of_def usage_doc_def field_value_def)
qed

lemma add_counter_completion_doc:
  assumes "add_counter (doc_of t) ru ''completion_tokens'' = Inr d'"
  shows "d' = doc_of (t\<lparr>usage := (usage t)\<lparr>completion_tokens :=
                  completion_tokens (usage t) + field_value ru ''completion_tokens''\<rparr>\<rparr>)"
proof -
  from assms obtain v new where v: "getitem ru ''completion_tokens'' = Inr v"
    and new: "py_iadd (JInt (completion_tokens (usage t))) v = Inr new"
    and d': "d' = JObj [(''model'', JStr (model t)),
           (''messages'', JArr (map msg_doc (messages t))),
           (''usage'', JObj [(''prompt_tokens'', JInt (prompt_tokens (usage t))),
                             (''total_tokens'', JInt (total_tokens (usage t))),
                             (''completion_tokens'', new)]),
           (''created_at'', JStr (created_at t)),
           (''last_updated_at'', JStr (last_updated_at t))]"
    by (auto simp: add_counter_def doc_of_def usage_doc_def and_then_eq_Inr)
  from py_iadd_int [OF new] v d' show ?thesis
    by (simp add: doc_of_def usage_doc_def field_value_def)
qed

lemma add_counter_total_doc:
  assumes "add_counter (doc_of t) ru ''total_tokens'' = Inr d'"
  shows "d' = doc_of (t\<lparr>usage := (usage t)\<lparr>total_tokens :=
                  total_tokens (usage t) + field_value ru ''total_tokens''\<rparr>\<rparr>)"
proof -
  from assms obtain v new where v: "getitem ru ''total_tokens'' = Inr v"
    and new: "py_iadd (JInt (total_tokens (usage t))) v = Inr new"
    and d': "d' = JObj [(''model'', JStr (model t)),
           (''messages'', JArr (map msg_doc (messages t))),
           (''usage'', JObj [(''prompt_tokens'', JInt (prompt_tokens (usage t))),
                             (''total_tokens'', new),
                             (''completion_tokens'', JInt (completion_tokens (usage t)))]),
           (''created_at'', JStr (created_at t)),
           (''last_updated_at'', JStr (last_updated_at t))]"
    by (auto simp: add_counter_def doc_of_def usage_doc_def and_then_eq_Inr)
  from py_iadd_int [OF new] v d' show ?thesis
    by (simp add: doc_of_def usage_doc_def field_value_def)
qed

lemma setitem_updated_doc:
  "setitem (doc_of t) ''last_updated_at'' (JStr now) = Inr (doc_of (t\<lparr>last_updated_at := now\<rparr>))"
  by (simp add: doc_of_def)

lemma record_response_doc:
  assumes "record_response ev (doc_of (t\<lparr>messages := messages t @ [\<lparr>role = ''user'', content = JStr p\<rparr>]\<rparr>))
             response = Inr d'"
  shows "\<exists>a. assistant_content response = Inr a \<and> d' = doc_of (after_turn ev t p a response)"
proof -
  let ?t1 = "t\<lparr>messages := messages t @ [\<lparr>role = ''user'', content = JStr p\<rparr>]\<rparr>"
  from assms obtain a d2 ru d3 d4 d5 where a: "assistant_content response = Inr a"
    and d2: "append_item (doc_of ?t1) ''messages'' (assistant_msg a) = Inr d2"
    and ru: "getitem response ''usage'' = Inr ru"
    and d3: "add_counter d2 ru ''prompt_tokens'' = Inr d3"
    and d4: "add_counter d3 ru ''completion_tokens'' = Inr d4"
    and d5: "add_counter d4 ru ''total_tokens'' = Inr d5"
    and d': "setitem d5 ''last_updated_at'' (JStr (now_update ev)) = Inr d'"
    unfolding record_response_def and_then_eq_Inr by blast
  let ?t2 = "?t1\<lparr>messages := messages ?t1 @ [\<lparr>role = ''assistant'', content = a\<rparr>]\<rparr>"
  from d2 have e2: "d2 = doc_of ?t2"
    by (simp add: assistant_msg_doc append_item_doc)
  let ?t3 = "?t2\<lparr>usage := (usage ?t2)\<lparr>prompt_tokens :=
                  prompt_tokens (usage ?t2) + field_value ru ''prompt_tokens''\<rparr>\<rparr>"
  from d3 have e3: "d3 = doc_of ?t3"
    unfolding e2 by (rule add_counter_prompt_doc)
  let ?t4 = "?t3\<lparr>usage := (usage ?t3)\<lparr>completion_tokens :=
                  completion_tokens (usage ?t3) + field_value ru ''completion_tokens''\<rparr>\<rparr>"
  from d4 have e4: "d4 = doc_of ?t4"
    unfolding e3 by (rule add_counter_completion_doc)
  let ?t5 = "?t4\<lparr>usage := (usage ?t4)\<lparr>total_tokens :=
                  total_tokens (usage ?t4) + field_value ru ''total_tokens''\<rparr>\<rparr>"
  from d5 have e5: "d5 = doc_of ?t5"
    unfolding e4 by (rule add_counter_total_doc)
  from d' have "d' = doc_of (?t5\<lparr>last_updated_at := now_update ev\<rparr>)"
    unfolding e5 by (simp add: setitem_updated_doc)
  also have "?t5\<lparr>last_updated_at := now_update ev\<rparr> = after_turn ev t p a response"
    by (simp add: after_turn_def usage_field_value [OF ru])
  finally show ?thesis using a by blast
qed

lemma exchange_doc:
  "exchange lib strm ev (doc_of t) p =
     ([\<lparr>payload_model = MODEL,
        payload_messages = JArr (map msg_doc (messages t) @ [user_msg p]),
        max_tokens = MAX_TOKENS, stream = strm\<rparr>],
      (case receive lib strm (reply ev) of
         Inl e \<Rightarrow> Inl (request_failed e)
       | Inr response \<Rightarrow>
           record_response ev
             (doc_of (t\<lparr>messages := messages t @ [\<lparr>role = ''user'', content = JStr p\<rparr>]\<rparr>))
             response))"
  by (simp add: exchange_unfold user_msg_doc append_item_doc getitem_doc)

lemma exchange_doc_success:
  assumes "snd (exchange lib strm ev (doc_of t) p) = Inr d'"
  obtains response a where
    "receive lib strm (reply ev) = Inr response"
    "assistant_content response = Inr a"
    "d' = doc_of (after_turn ev t p a response)"
proof -
  from assms obtain response where r: "receive lib strm (reply ev) = Inr response"
    and rr: "record_response ev
             (doc_of (t\<lparr>messages := messages t @ [\<lparr>role = ''user'', content = JStr p\<rparr>]\<rparr>))
             response = Inr d'"
    by (cases "receive lib strm (reply ev)") (simp_all add: exchange_doc)
  from record_response_doc [OF rr] r show ?thesis by (auto intro: that)
qed

subsection \<open>Files\<close>

lemma write_messages_docs:
  "write_messages lib written (map msg_doc msgs) =
     (written @ concat (map (view_section lib) msgs), Inr ())"
  by (induction msgs arbitrary: written) (simp_all add: view_section_def msg_doc_def)

lemma fstring_int: "fstring lib (JInt n) = str_int n"
  by (simp add: fstring_def)

lemma fstring_str: "fstring lib (JStr s) = s"
  by (simp add: fstring_def)

lemma render_doc: "render lib (doc_of t) = (rendered_view lib t, Inr ())"
  by (simp add: render_def getitem_doc getitem_usage_doc write_messages_docs fstring_int
      fstring_str rendered_view_def view_header_def view_usage_def Let_def)

lemma update_output_md_doc:
  "st (output_key lib) \<noteq> Some Directory \<Longrightarrow>
   update_output_md lib st (doc_of t) =
     (Inr (), st(output_key lib \<mapsto> Text (rendered_view lib t)))"
  by (auto simp: update_output_md_def output_key_def render_doc split: option.splits content.splits)

subsection \<open>Writing the files\<close>

lemma write_file_success: "write_file st key c = Inr st1 \<Longrightarrow> st1 = st(key \<mapsto> c)"
  by (auto simp: write_file_def split: option.splits content.splits)

lemma write_file_ok: "st key \<noteq> Some Directory \<Longrightarrow> write_file st key c = Inr (st(key \<mapsto> c))"
  by (auto simp: write_file_def split: option.splits content.splits)

lemma update_output_md_success:
  "update_output_md lib st d = (Inr u, st') \<Longrightarrow>
   st' = st(output_key lib \<mapsto> Text (fst (render lib d)))"
  by (auto simp: update_output_md_def output_key_def Let_def split: option.splits content.splits)

lemma file_name_same:
  "getitem d' ''created_at'' = getitem d ''created_at'' \<Longrightarrow> file_name d' fn = file_name d fn"
  by (cases fn) (simp_all add: file_name_def)

lemma file_name_doc: "file_name (doc_of t) None = get_chat_filename (created_at t)"
  by (simp add: file_name_def getitem_doc)

lemma save_chat_history_success:
  assumes "save_chat_history lib st d fn = Inr saved"
  shows "saved = (st(history_key lib (file_name d fn) \<mapsto> Dumped False d), file_name d fn)"
proof (cases fn)
  case None
  with assms obtain name st1 where
    n: "and_then (getitem d ''created_at'') (\<lambda>created.
              case created of JStr s \<Rightarrow> Inr (get_chat_filename s) | _ \<Rightarrow> Inl AttributeError)
          = Inr name"
    and w: "write_file st (history_key lib name) (Dumped False d) = Inr st1"
    and s: "saved = (st1, name)"
    by (auto simp: save_chat_history_def and_then_eq_Inr history_key_def)
  from n obtain created where c: "getitem d ''created_at'' = Inr created"
    and cn: "(case created of JStr s \<Rightarrow> Inr (get_chat_filename s) | _ \<Rightarrow> Inl AttributeError)
          = Inr name"
    by (auto simp: and_then_eq_Inr)
  from cn obtain cs where "created = JStr cs" "name = get_chat_filename cs"
    by (cases created) auto
  with write_file_success [OF w] c s None show ?thesis by (simp add: file_name_def)
next
  case (Some f)
  with assms obtain st1 where
    w: "write_file st (history_key lib f) (Dumped False d) = Inr st1" and s: "saved = (st1, f)"
    by (auto simp: save_chat_history_def and_then_eq_Inr history_key_def)
  from write_file_success [OF w] s Some show ?thesis by (simp add: file_name_def)
qed

lemma set_active_chat_success:
  "set_active_chat lib st f = Inr st1 \<Longrightarrow> st1 = st(pointer_key lib \<mapsto> Dumped True (pointer_to f))"
  by (auto simp: set_active_chat_def pointer_key_def pointer_to_def dest: write_file_success)

lemma persist_success:
  assumes "persist lib st d fn = (Inr u, st')"
  shows "st' = st(history_key lib (file_name d fn) \<mapsto> Dumped False d,
                  pointer_key lib \<mapsto> Dumped True (pointer_to (file_name d fn)),
                  output_key lib \<mapsto> Text (fst (render lib d)))"
proof -
  from assms obtain saved st2 where s: "save_chat_history lib st d fn = Inr saved"
    and a: "set_active_chat lib (fst saved) (snd saved) = Inr st2"
    and o: "update_output_md lib st2 d = (Inr u, st')"
    by (auto simp: persist_def split: sum.splits)
  from save_chat_history_success [OF s] set_active_chat_success [OF a]
    update_output_md_success [OF o]
  show ?thesis by simp
qed

subsection \<open>The session and the prompt\<close>

lemma get_active_chat_none:
  "st (pointer_key lib) = None \<Longrightarrow> get_active_chat lib st = Inr JNull"
  by (simp add: get_active_chat_def pointer_key_def)

lemma get_active_chat_unnamed:
  assumes "st (pointer_key lib) = Some c" "json_load lib c = Inr data" "names_no_active_chat data"
  shows "\<exists>v. get_active_chat lib st = Inr v \<and> \<not> truthy v"
proof -
  from assms(3) obtain kvs where kvs: "data = JObj kvs"
    by (cases data) (simp_all add: names_no_active_chat_def)
  show ?thesis
  proof (cases "map_of kvs ''active_chat''")
    case None
    with assms(1,2) kvs show ?thesis by (simp add: get_active_chat_def pointer_key_def)
  next
    case (Some v)
    with assms kvs show ?thesis
      by (simp add: get_active_chat_def pointer_key_def names_no_active_chat_def)
  qed
qed

lemma get_active_chat_named:
  assumes "st (pointer_key lib) = Some c" "json_load lib c = Inr data" "names_file data f"
  shows "get_active_chat lib st = Inr (JStr f) \<and> f \<noteq> []"
proof -
  from assms(3) obtain kvs where "data = JObj kvs"
    by (cases data) (simp_all add: names_file_def)
  with assms show ?thesis by (simp add: get_active_chat_def pointer_key_def names_file_def)
qed

lemma load_chat_history_missing:
  "st (history_key lib f) = None \<Longrightarrow>
   load_chat_history lib st f = Inl (FileNotFoundError (''Chat history file not found: '' @ f))"
  by (simp add: load_chat_history_def history_key_def)

lemma load_chat_history_found:
  "st (history_key lib f) = Some c \<Longrightarrow> load_chat_history lib st f = json_load lib c"
  by (simp add: load_chat_history_def history_key_def)

lemma resolve_session_fallback:
  assumes "st (pointer_key lib) = None
           \<or> (\<exists>c data. st (pointer_key lib) = Some c \<and> json_load lib c = Inr data
                 \<and> (names_no_active_chat data
                      \<or> (\<exists>f. names_file data f \<and> st (history_key lib f) = None)))"
  shows "resolve_session lib ev st False = Inr (create_chat_history (now_create ev), None)"
proof -
  consider (missing) "st (pointer_key lib) = None"
    | (unnamed) c data where "st (pointer_key lib) = Some c" "json_load lib c = Inr data"
        "names_no_active_chat data"
    | (stale) c data f where "st (pointer_key lib) = Some c" "json_load lib c = Inr data"
        "names_file data f" "st (history_key lib f) = None"
    using assms by auto
  then show ?thesis
  proof cases
    case missing
    then show ?thesis by (simp add: resolve_session_def get_active_chat_none)
  next
    case unnamed
    from get_active_chat_unnamed [where st = st and lib = lib, OF unnamed] obtain v where
      "get_active_chat lib st = Inr v" "\<not> truthy v" by blast
    then show ?thesis by (simp add: resolve_session_def)
  next
    case stale
    from get_active_chat_named [where st = st and lib = lib, OF stale(1,2,3)]
      load_chat_history_missing [where st = st and lib = lib, OF stale(4)]
    show ?thesis by (simp add: resolve_session_def)
  qed
qed

lemma resolve_session_continue:
  assumes "st (pointer_key lib) = Some c" "json_load lib c = Inr data" "names_file data f"
    and "st (history_key lib f) = Some c'" "json_load lib c' = Inr d"
  shows "resolve_session lib ev st False = Inr (d, Some f)"
  using get_active_chat_named [where st = st and lib = lib, OF assms(1,2,3)]
    load_chat_history_found [where st = st and lib = lib, OF assms(4)] assms(5)
  by (simp add: resolve_session_def)

lemma resolve_session_new:
  "resolve_session lib ev st True = Inr (create_chat_history (now_create ev), None)"
  by (simp add: resolve_session_def)

lemma now_create_reply: "now_create (ev\<lparr>reply := rep\<rparr>) = now_create ev"
  by simp

lemma resolve_session_reply:
  "resolve_session lib (ev\<lparr>reply := rep\<rparr>) st new_chat = resolve_session lib ev st new_chat"
  unfolding resolve_session_def now_create_reply by (rule refl)

lemma names_file_pointer: "f \<noteq> [] \<Longrightarrow> names_file (pointer_to f) f"
  by (simp add: names_file_def pointer_to_def)

lemma json_load_dumped: "json_load lib (Dumped a v) = Inr v"
  by (simp add: json_load_def)

lemma acquire_prompt_argument:
  "prompt = Some p \<Longrightarrow> p \<noteq> [] \<Longrightarrow> acquire_prompt lib st prompt = Inr p"
  by (simp add: acquire_prompt_def)

lemma acquire_prompt_input:
  "\<not> given prompt \<Longrightarrow> st (input_key lib) = Some c \<Longrightarrow> read_text lib c = Inr body \<Longrightarrow>
   strip body \<noteq> [] \<Longrightarrow> acquire_prompt lib st prompt = Inr (strip body)"
  by (simp add: acquire_prompt_def input_key_def)

lemma acquire_prompt_none:
  assumes "\<not> given prompt"
    and "st (input_key lib) = None
         \<or> (\<exists>c body. st (input_key lib) = Some c \<and> read_text lib c = Inr body \<and> strip body = [])"
  shows "acquire_prompt lib st prompt =
           Inl (ValueError ''No prompt provided. Either pass a prompt or create input.md file.'')"
proof (cases "st (input_key lib)")
  case None
  with assms(1) show ?thesis
    by (cases "prompt") (simp_all add: acquire_prompt_def input_key_def)
next
  case (Some c)
  with assms show ?thesis by (auto simp: acquire_prompt_def input_key_def)
qed

lemma acquire_prompt_same_input:
  "st (input_key lib) = st' (input_key lib) \<Longrightarrow>
   acquire_prompt lib st prompt = acquire_prompt lib st' prompt"
  by (simp add: acquire_prompt_def input_key_def)

subsection \<open>Stripping\<close>

lemma utf8_chars_nonempty: "ch \<in> set (utf8_chars s) \<Longrightarrow> ch \<noteq> []"
  by (induction s rule: utf8_chars.induct) auto

lemma concat_utf8_chars: "concat (utf8_chars s) = s"
  by (induction s rule: utf8_chars.induct) simp_all

lemma concat_nonempty_Nil:
  "(\<And>x. x \<in> set xs \<Longrightarrow> x \<noteq> []) \<Longrightarrow> concat xs = [] \<longleftrightarrow> xs = []"
  by (cases xs) auto

lemma dropWhile_rev_Nil:
  "dropWhile P (rev (dropWhile P xs)) = [] \<longleftrightarrow> list_all P xs"
proof
  assume "dropWhile P (rev (dropWhile P xs)) = []"
  then have all: "\<forall>x \<in> set (dropWhile P xs). P x" by simp
  have "dropWhile P xs = []"
  proof (rule ccontr)
    assume ne: "dropWhile P xs \<noteq> []"
    then have "\<not> P (hd (dropWhile P xs))" by (rule hd_dropWhile)
    moreover from ne have "hd (dropWhile P xs) \<in> set (dropWhile P xs)" by simp
    ultimately show False using all by blast
  qed
  then show "list_all P xs" by (simp add: list_all_iff)
next
  assume "list_all P xs"
  then have "\<forall>x \<in> set xs. P x" by (simp add: list_all_iff)
  then show "dropWhile P (rev (dropWhile P xs)) = []" by (auto dest: set_dropWhileD)
qed

lemma strip_empty: "strip s = [] \<longleftrightarrow> list_all is_space (utf8_chars s)"
proof -
  let ?kept = "rev (dropWhile is_space (rev (dropWhile is_space (utf8_chars s))))"
  have "x \<noteq> []" if "x \<in> set ?kept" for x
  proof -
    from that have "x \<in> set (utf8_chars s)"
      by (auto dest!: set_dropWhileD)
    then show ?thesis by (rule utf8_chars_nonempty)
  qed
  then have "concat ?kept = [] \<longleftrightarrow> ?kept = []" by (rule concat_nonempty_Nil)
  also have "?kept = [] \<longleftrightarrow> dropWhile is_space (rev (dropWhile is_space (utf8_chars s))) = []"
    by (rule rev_is_Nil_conv)
  also have "\<dots> \<longleftrightarrow> list_all is_space (utf8_chars s)" by (rule dropWhile_rev_Nil)
  finally show ?thesis by (simp only: strip_def)
qed

subsection \<open>Invocations\<close>

lemma exchange_success:
  assumes "snd (exchange lib strm ev d p) = Inr d'"
  obtains response a ms where
    "receive lib strm (reply ev) = Inr response"
    "assistant_content response = Inr a"
    "getitem d ''messages'' = Inr (JArr ms)"
    "getitem d' ''messages'' = Inr (JArr (ms @ [user_msg p, assistant_msg a]))"
    "getitem d' ''created_at'' = getitem d ''created_at''"
    "getitem d' ''model'' = getitem d ''model''"
    "getitem d' ''last_updated_at'' = Inr (JStr (now_update ev))"
    "usage_field d' ''prompt_tokens'' =
       usage_field d ''prompt_tokens'' + usage_field response ''prompt_tokens''"
    "usage_field d' ''completion_tokens'' =
       usage_field d ''completion_tokens'' + usage_field response ''completion_tokens''"
    "usage_field d' ''total_tokens'' =
       usage_field d ''total_tokens'' + usage_field response ''total_tokens''"
proof -
  have posts: "fst (exchange lib strm ev d p) \<noteq> []"
    using assms by (auto simp: exchange_unfold split: sum.splits)
  from posts obtain ms d1 where ms: "getitem d ''messages'' = Inr (JArr ms)"
    and d1: "append_item d ''messages'' (user_msg p) = Inr d1"
    and ms1: "getitem d1 ''messages'' = Inr (JArr (ms @ [user_msg p]))"
    and res: "snd (exchange lib strm ev d p) =
       (case receive lib strm (reply ev) of
          Inl e \<Rightarrow> Inl (request_failed e)
        | Inr response \<Rightarrow> record_response ev d1 response)"
    by (rule exchange_posts)
  from res assms obtain response where r: "receive lib strm (reply ev) = Inr response"
    and rr: "record_response ev d1 response = Inr d'"
    by (cases "receive lib strm (reply ev)") simp_all
  have other: "getitem d1 k = getitem d k" if "k \<noteq> ''messages''" for k
    using getitem_append_item [OF d1, of k] that by auto
  have u1: "usage_field d1 k = usage_field d k" for k
    by (simp add: usage_field_def other)
  from rr obtain a ms' where a: "assistant_content response = Inr a"
    and m1: "getitem d1 ''messages'' = Inr (JArr ms')"
    and m': "getitem d' ''messages'' = Inr (JArr (ms' @ [assistant_msg a]))"
    and c: "getitem d' ''created_at'' = getitem d1 ''created_at''"
    and m: "getitem d' ''model'' = getitem d1 ''model''"
    and l: "getitem d' ''last_updated_at'' = Inr (JStr (now_update ev))"
    and up: "usage_field d' ''prompt_tokens'' =
       usage_field d1 ''prompt_tokens'' + usage_field response ''prompt_tokens''"
    and uc: "usage_field d' ''completion_tokens'' =
       usage_field d1 ''completion_tokens'' + usage_field response ''completion_tokens''"
    and ut: "usage_field d' ''total_tokens'' =
       usage_field d1 ''total_tokens'' + usage_field response ''total_tokens''"
    by (rule record_response_success)
  from m1 ms1 have ms': "ms' = ms @ [user_msg p]" by simp
  show ?thesis
  proof (rule that [OF r a ms])
    show "getitem d' ''messages'' = Inr (JArr (ms @ [user_msg p, assistant_msg a]))"
      by (simp add: m' ms')
    show "getitem d' ''created_at'' = getitem d ''created_at''" by (simp add: c other)
    show "getitem d' ''model'' = getitem d ''model''" by (simp add: m other)
    show "getitem d' ''last_updated_at'' = Inr (JStr (now_update ev))" by (rule l)
    show "usage_field d' ''prompt_tokens'' =
       usage_field d ''prompt_tokens'' + usage_field response ''prompt_tokens''"
      by (simp add: up u1)
    show "usage_field d' ''completion_tokens'' =
       usage_field d ''completion_tokens'' + usage_field response ''completion_tokens''"
      by (simp add: uc u1)
    show "usage_field d' ''total_tokens'' =
       usage_field d ''total_tokens'' + usage_field response ''total_tokens''"
      by (simp add: ut u1)
  qed
qed

lemma record_response_cong:
  "assistant_content r1 = assistant_content r2 \<Longrightarrow> getitem r1 ''usage'' = getitem r2 ''usage'' \<Longrightarrow>
   now_update ev1 = now_update ev2 \<Longrightarrow>
   record_response ev1 d r1 = record_response ev2 d r2"
  by (simp add: record_response_def)

lemma exchange_same_response:
  assumes "receive lib s1 (reply ev1) = Inr r1" "receive lib s2 (reply ev2) = Inr r2"
    and "assistant_content r1 = assistant_content r2"
    and "getitem r1 ''usage'' = getitem r2 ''usage''"
    and "now_update ev1 = now_update ev2"
  shows "snd (exchange lib s1 ev1 d p) = snd (exchange lib s2 ev2 d p)"
  using assms(1,2) record_response_cong [OF assms(3,4,5)]
  by (simp add: exchange_unfold split: sum.splits)

lemma take_turn_success:
  assumes "take_turn lib strm ev st prompt new_chat = (Inr u, st', reqs)"
  obtains d0 fn p d' where
    "resolve_session lib ev st new_chat = Inr (d0, fn)"
    "acquire_prompt lib st prompt = Inr p"
    "snd (exchange lib strm ev d0 p) = Inr d'"
    "persist lib st d' fn = (Inr u, st')"
    "reqs = fst (exchange lib strm ev d0 p)"
  using assms
  by (auto simp: take_turn_def Let_def split: sum.splits) (metis prod.collapse)

lemma take_turn_saved:
  assumes "take_turn lib strm ev st arg new_chat = (Inr u, st', reqs)"
  shows "\<exists>d0 fn d'. resolve_session lib ev st new_chat = Inr (d0, fn)
           \<and> getitem d' ''created_at'' = getitem d0 ''created_at''
           \<and> st' = st(history_key lib (file_name d0 fn) \<mapsto> Dumped False d',
                       pointer_key lib \<mapsto> Dumped True (pointer_to (file_name d0 fn)),
                       output_key lib \<mapsto> Text (fst (render lib d')))"
proof -
  from assms obtain d0 fn p d' where res: "resolve_session lib ev st new_chat = Inr (d0, fn)"
    and ex: "snd (exchange lib strm ev d0 p) = Inr d'"
    and ps: "persist lib st d' fn = (Inr u, st')"
    by (rule take_turn_success)
  from ex have c: "getitem d' ''created_at'' = getitem d0 ''created_at''"
    by (rule exchange_success)
  have same: "file_name d' fn = file_name d0 fn"
    by (rule file_name_same) (rule c)
  from persist_success [OF ps] same
  have "st' = st(history_key lib (file_name d0 fn) \<mapsto> Dumped False d',
                       pointer_key lib \<mapsto> Dumped True (pointer_to (file_name d0 fn)),
                       output_key lib \<mapsto> Text (fst (render lib d')))"
    by simp
  with res c show ?thesis by blast
qed

lemma take_turn_requests:
  assumes "resolve_session lib ev st new_chat = Inr (d0, fn)"
    and "acquire_prompt lib st arg = Inr p"
    and "getitem d0 ''messages'' = Inr (JArr ms)"
  shows "snd (snd (take_turn lib strm ev st arg new_chat)) =
     [\<lparr>payload_model = MODEL, payload_messages = JArr (ms @ [user_msg p]),
       max_tokens = MAX_TOKENS, stream = strm\<rparr>]"
  using assms(1,2) exchange_request [OF assms(3), of lib strm ev p]
  by (simp add: take_turn_def Let_def split: sum.splits)

lemma take_turn_failure:
  assumes "receive lib strm (reply ev) = Inl (RequestException m)"
    and "take_turn lib strm ev st prompt new_chat = (res, st', reqs)"
    and "reqs \<noteq> []"
  shows "res = Inl (RuntimeError (''API request failed: '' @ m)) \<and> st' = st"
proof (cases "resolve_session lib ev st new_chat")
  case (Inl e)
  with assms(2,3) show ?thesis by (simp add: take_turn_def)
next
  case (Inr session)
  show ?thesis
  proof (cases "acquire_prompt lib st prompt")
    case (Inl e)
    with Inr assms(2,3) show ?thesis by (simp add: take_turn_def)
  next
    case p: (Inr p)
    show ?thesis
    proof (cases "fst (exchange lib strm ev (fst session) p) = []")
      case True
      then have "\<exists>e. snd (exchange lib strm ev (fst session) p) = Inl e"
        by (auto simp: exchange_unfold split: sum.splits)
      with assms(2,3) Inr p True show ?thesis
        by (auto simp: take_turn_def Let_def)
    next
      case False
      from exchange_failure [OF assms(1) False] assms(2) Inr p
      show ?thesis by (simp add: take_turn_def Let_def)
    qed
  qed
qed

lemma take_turn_same_response:
  assumes "receive lib s1 rep1 = Inr r1" "receive lib s2 rep2 = Inr r2"
    and "assistant_content r1 = assistant_content r2"
    and "getitem r1 ''usage'' = getitem r2 ''usage''"
  shows "fst (take_turn lib s1 (ev\<lparr>reply := rep1\<rparr>) st arg new_chat) =
           fst (take_turn lib s2 (ev\<lparr>reply := rep2\<rparr>) st arg new_chat)
         \<and> fst (snd (take_turn lib s1 (ev\<lparr>reply := rep1\<rparr>) st arg new_chat)) =
           fst (snd (take_turn lib s2 (ev\<lparr>reply := rep2\<rparr>) st arg new_chat))"
proof -
  have ex: "snd (exchange lib s1 (ev\<lparr>reply := rep1\<rparr>) d p) =
            snd (exchange lib s2 (ev\<lparr>reply := rep2\<rparr>) d p)" for d p
    by (rule exchange_same_response [where ?r1.0 = r1 and ?r2.0 = r2]) (simp_all add: assms)
  show ?thesis
  proof (cases "resolve_session lib ev st new_chat")
    case (Inl e)
    then show ?thesis by (simp add: take_turn_def resolve_session_reply)
  next
    case (Inr session)
    show ?thesis
    proof (cases "acquire_prompt lib st arg")
      case (Inl e)
      with Inr show ?thesis by (simp add: take_turn_def resolve_session_reply)
    next
      case p: (Inr p)
      show ?thesis
      proof (cases "snd (exchange lib s2 (ev\<lparr>reply := rep2\<rparr>) (fst session) p)")
        case (Inl e)
        with Inr p ex [of "fst session" p] show ?thesis
          by (simp add: take_turn_def resolve_session_reply Let_def)
      next
        case d': (Inr d')
        with Inr p ex [of "fst session" p] show ?thesis
          by (simp add: take_turn_def resolve_session_reply Let_def)
      qed
    qed
  qed
qed

lemma show_loaded_no_request: "show_loaded lib st f = (res, st', reqs) \<Longrightarrow> reqs = []"
  by (auto simp: show_loaded_def Let_def split: sum.splits)

lemma show_loaded_found:
  assumes "st (history_key lib f) = Some c" "json_load lib c = Inr (doc_of t)"
    and "st (pointer_key lib) \<noteq> Some Directory" "st (output_key lib) \<noteq> Some Directory"
  shows "show_loaded lib st f =
     (Inr (), st(pointer_key lib \<mapsto> Dumped True (pointer_to f),
                 output_key lib \<mapsto> Text (rendered_view lib t)), [])"
proof -
  let ?st1 = "st(pointer_key lib \<mapsto> Dumped True (pointer_to f))"
  have l: "load_chat_history lib st f = Inr (doc_of t)"
    using load_chat_history_found [where st = st and lib = lib, OF assms(1)] assms(2) by simp
  have a: "set_active_chat lib st f = Inr ?st1"
    using write_file_ok [where st = st and key = "pointer_key lib", OF assms(3)] by (simp add: set_active_chat_def pointer_key_def pointer_to_def)
  have "?st1 (output_key lib) \<noteq> Some Directory" using assms(4) by simp
  then have o: "update_output_md lib ?st1 (doc_of t) =
      (Inr (), ?st1(output_key lib \<mapsto> Text (rendered_view lib t)))"
    by (rule update_output_md_doc [where st = "?st1"])
  show ?thesis by (simp add: show_loaded_def l a o)
qed

lemma update_output_md_any:
  "st (output_key lib) \<noteq> Some Directory \<Longrightarrow>
   update_output_md lib st d =
     (snd (render lib d), st(output_key lib \<mapsto> Text (fst (render lib d))))"
  by (auto simp: update_output_md_def output_key_def Let_def split: option.splits content.splits)

lemma show_loaded_any:
  assumes "st (history_key lib f) = Some c" "json_load lib c = Inr d"
    and "st (pointer_key lib) \<noteq> Some Directory" "st (output_key lib) \<noteq> Some Directory"
  shows "show_loaded lib st f =
     (snd (render lib d),
      st(pointer_key lib \<mapsto> Dumped True (pointer_to f),
         output_key lib \<mapsto> Text (fst (render lib d))), [])"
proof -
  let ?st1 = "st(pointer_key lib \<mapsto> Dumped True (pointer_to f))"
  have l: "load_chat_history lib st f = Inr d"
    using load_chat_history_found [where st = st and lib = lib, OF assms(1)] assms(2) by simp
  have a: "set_active_chat lib st f = Inr ?st1"
    using write_file_ok [where st = st and key = "pointer_key lib", OF assms(3)]
    by (simp add: set_active_chat_def pointer_key_def pointer_to_def)
  have "?st1 (output_key lib) \<noteq> Some Directory" using assms(4) by simp
  then have o: "update_output_md lib ?st1 d =
      (snd (render lib d), ?st1(output_key lib \<mapsto> Text (fst (render lib d))))"
    by (rule update_output_md_any [where st = "?st1"])
  show ?thesis by (simp add: show_loaded_def l a o)
qed

lemma show_loaded_missing:
  "st (history_key lib f) = None \<Longrightarrow>
   show_loaded lib st f = (Inl (FileNotFoundError (''Chat history file not found: '' @ f)), st, [])"
  by (simp add: show_loaded_def load_chat_history_missing)

lemma chat_cases:
  "chat lib strm ev st prompt new_chat load_file =
     (if given load_file then show_loaded lib st (case load_file of Some f \<Rightarrow> f | None \<Rightarrow> [])
      else take_turn lib strm ev st prompt new_chat)"
  by (cases load_file) (simp_all add: chat_def)

lemma chat_same_response:
  assumes "receive lib s1 rep1 = Inr r1" "receive lib s2 rep2 = Inr r2"
    and "assistant_content r1 = assistant_content r2"
    and "getitem r1 ''usage'' = getitem r2 ''usage''"
  shows "fst (chat lib s1 (ev\<lparr>reply := rep1\<rparr>) st arg new_chat load_file) =
           fst (chat lib s2 (ev\<lparr>reply := rep2\<rparr>) st arg new_chat load_file)
         \<and> fst (snd (chat lib s1 (ev\<lparr>reply := rep1\<rparr>) st arg new_chat load_file)) =
           fst (snd (chat lib s2 (ev\<lparr>reply := rep2\<rparr>) st arg new_chat load_file))"
  using take_turn_same_response [OF assms, of ev st arg new_chat]
  by (simp add: chat_cases)

lemma resolve_session_unnamed:
  assumes "resolve_session lib ev st new_chat = Inr (d0, None)"
  shows "d0 = create_chat_history (now_create ev)"
proof (cases new_chat)
  case True
  with assms show ?thesis by (simp add: resolve_session_def)
next
  case False
  with assms obtain v where v: "get_active_chat lib st = Inr v"
    and r: "(if truthy v then
            (case v of
               JStr f \<Rightarrow>
                 (case load_chat_history lib st f of
                    Inr chat_data \<Rightarrow> Inr (chat_data, Some f)
                  | Inl (FileNotFoundError m) \<Rightarrow> Inr (create_chat_history (now_create ev), None)
                  | Inl e \<Rightarrow> Inl e)
             | _ \<Rightarrow> Inl TypeError)
          else Inr (create_chat_history (now_create ev), None)) = Inr (d0, None)"
    by (auto simp: resolve_session_def and_then_eq_Inr)
  show ?thesis
  proof (cases "truthy v")
    case False
    with r show ?thesis by simp
  next
    case True
    with r show ?thesis
      by (cases v) (auto split: sum.splits error.splits)
  qed
qed

lemma file_name_fresh:
  "file_name (create_chat_history now) None = get_chat_filename now"
  by (simp add: file_name_def create_chat_history_def)

lemma stem_chars: "CHR '':'' \<notin> set (stem c) \<and> CHR ''.'' \<notin> set (stem c)"
  by (auto simp: stem_def)

subsection \<open>Sessions\<close>

lemma msg_doc_inject: "msg_doc m = msg_doc m' \<longleftrightarrow> m = m'"
  by (cases m; cases m') (simp add: msg_doc_def)

lemma doc_of_inject: "doc_of t = doc_of t' \<longleftrightarrow> t = t'"
proof
  assume eq: "doc_of t = doc_of t'"
  then have "map msg_doc (messages t) = map msg_doc (messages t')" by (simp add: doc_of_def)
  then have "messages t = messages t'"
    by (rule map_injective) (simp add: inj_on_def msg_doc_inject)
  moreover from eq have "usage t = usage t'"
    by (cases "usage t"; cases "usage t'") (simp add: doc_of_def usage_doc_def)
  ultimately show "t = t'" using eq by (cases t; cases t') (simp add: doc_of_def)
qed simp

lemma edit_input_at_input:
  "edit_input lib inp st (input_key lib) = map_option Text inp"
  by (cases inp) (simp_all add: edit_input_def)

lemma edit_input_elsewhere:
  "k \<noteq> input_key lib \<Longrightarrow> edit_input lib inp st k = st k"
  by (cases inp) (simp_all add: edit_input_def)

lemma turn_prompt_acquired:
  "acquire_prompt lib (edit_input lib (turn_input tn) st) (turn_arg tn) = Inr p \<Longrightarrow>
   turn_prompt lib tn = p"
  using acquire_prompt_same_input [of "edit_input lib (turn_input tn) st" lib
      "edit_input lib (turn_input tn) Map.empty" "turn_arg tn"]
  by (simp add: turn_prompt_def edit_input_at_input)

lemma invoke_turn:
  assumes ok: "fst (invoke lib strm st tn new_chat) = Inr u"
    and res: "resolve_session lib (turn_env tn) (edit_input lib (turn_input tn) st) new_chat
                = Inr (doc_of t0, fn)"
  obtains t' where
    "fst (snd (invoke lib strm st tn new_chat)) =
       (edit_input lib (turn_input tn) st)
         (history_key lib (file_name (doc_of t0) fn) \<mapsto> Dumped False (doc_of t'),
          pointer_key lib \<mapsto> Dumped True (pointer_to (file_name (doc_of t0) fn)),
          output_key lib \<mapsto> Text (rendered_view lib t'))"
    "messages t' = messages t0 @ turn_messages lib strm tn"
    "prompt_tokens (usage t') =
       prompt_tokens (usage t0) + usage_field (turn_response lib strm tn) ''prompt_tokens''"
    "completion_tokens (usage t') =
       completion_tokens (usage t0) + usage_field (turn_response lib strm tn) ''completion_tokens''"
    "total_tokens (usage t') =
       total_tokens (usage t0) + usage_field (turn_response lib strm tn) ''total_tokens''"
    "created_at t' = created_at t0"
    "last_updated_at t' = now_update (turn_env tn)"
proof -
  let ?st = "edit_input lib (turn_input tn) st"
  let ?run = "take_turn lib strm (turn_env tn) ?st (turn_arg tn) new_chat"
  have inv: "invoke lib strm st tn new_chat = ?run"
    by (simp add: invoke_def chat_def)
  with ok have "?run = (Inr u, fst (snd ?run), snd (snd ?run))"
    by (metis prod.collapse)
  then obtain d1 fn1 p d' where r1: "resolve_session lib (turn_env tn) ?st new_chat = Inr (d1, fn1)"
    and p: "acquire_prompt lib ?st (turn_arg tn) = Inr p"
    and ex1: "snd (exchange lib strm (turn_env tn) d1 p) = Inr d'"
    and ps1: "persist lib ?st d' fn1 = (Inr u, fst (snd ?run))"
    by (rule take_turn_success)
  from r1 res have eq: "d1 = doc_of t0" "fn1 = fn" by simp_all
  from p have tp: "turn_prompt lib tn = p" by (rule turn_prompt_acquired)
  from ex1 eq obtain response a where rc: "receive lib strm (reply (turn_env tn)) = Inr response"
    and ac: "assistant_content response = Inr a"
    and d': "d' = doc_of (after_turn (turn_env tn) t0 p a response)"
    by (auto elim: exchange_doc_success)
  let ?t' = "after_turn (turn_env tn) t0 p a response"
  from rc have tr: "turn_response lib strm tn = response" by (simp add: turn_response_def)
  have same: "file_name d' fn = file_name (doc_of t0) fn"
    by (rule file_name_same) (simp add: d' getitem_doc after_turn_def)
  show ?thesis
  proof (rule that [of ?t'])
    show "fst (snd (invoke lib strm st tn new_chat)) =
       ?st(history_key lib (file_name (doc_of t0) fn) \<mapsto> Dumped False (doc_of ?t'),
          pointer_key lib \<mapsto> Dumped True (pointer_to (file_name (doc_of t0) fn)),
          output_key lib \<mapsto> Text (rendered_view lib ?t'))"
      using persist_success [OF ps1] eq same by (simp add: inv d' render_doc)
    show "messages ?t' = messages t0 @ turn_messages lib strm tn"
      by (simp add: after_turn_def turn_messages_def tp tr ac)
    show "prompt_tokens (usage ?t') =
       prompt_tokens (usage t0) + usage_field (turn_response lib strm tn) ''prompt_tokens''"
      by (simp add: after_turn_def tr)
    show "completion_tokens (usage ?t') =
       completion_tokens (usage t0) + usage_field (turn_response lib strm tn) ''completion_tokens''"
      by (simp add: after_turn_def tr)
    show "total_tokens (usage ?t') =
       total_tokens (usage t0) + usage_field (turn_response lib strm tn) ''total_tokens''"
      by (simp add: after_turn_def tr)
    show "created_at ?t' = created_at t0" by (simp add: after_turn_def)
    show "last_updated_at ?t' = now_update (turn_env tn)" by (simp add: after_turn_def)
  qed
qed

lemma usage_sum_Nil [simp]: "usage_sum lib strm k [] = 0"
  by (simp add: usage_sum_def)

lemma usage_sum_Cons [simp]:
  "usage_sum lib strm k (tn # turns) =
     usage_field (turn_response lib strm tn) k + usage_sum lib strm k turns"
  by (simp add: usage_sum_def)

lemma continue_turns_extends:
  assumes "continue_turns lib strm st turns = Some st'"
    and "st (pointer_key lib) = Some (Dumped True (pointer_to f))" "f \<noteq> []"
    and "st (history_key lib f) = Some (Dumped False (doc_of t))"
    and "distinct [history_key lib f, pointer_key lib, input_key lib, output_key lib]"
  shows "st' (pointer_key lib) = Some (Dumped True (pointer_to f))
    \<and> (\<exists>t'. st' (history_key lib f) = Some (Dumped False (doc_of t'))
          \<and> messages t' = messages t @ concat (map (turn_messages lib strm) turns)
          \<and> prompt_tokens (usage t') =
              prompt_tokens (usage t) + usage_sum lib strm ''prompt_tokens'' turns
          \<and> completion_tokens (usage t') =
              completion_tokens (usage t) + usage_sum lib strm ''completion_tokens'' turns
          \<and> total_tokens (usage t') =
              total_tokens (usage t) + usage_sum lib strm ''total_tokens'' turns
          \<and> created_at t' = created_at t
          \<and> last_updated_at t' =
              (if turns = [] then last_updated_at t else now_update (turn_env (last turns))))"
  using assms(1,2,4)
proof (induction turns arbitrary: st t)
  case Nil
  then have "st' = st" by simp
  with Nil.prems(2,3) show ?case by (intro conjI exI [of _ t]) simp_all
next
  case (Cons tn turns)
  let ?st = "edit_input lib (turn_input tn) st"
  let ?st1 = "fst (snd (invoke lib strm st tn False))"
  from assms(5) have ne: "pointer_key lib \<noteq> input_key lib" "history_key lib f \<noteq> input_key lib"
    "history_key lib f \<noteq> pointer_key lib" "history_key lib f \<noteq> output_key lib"
    "pointer_key lib \<noteq> output_key lib"
    by auto
  from Cons.prems(1) obtain u where ok: "fst (invoke lib strm st tn False) = Inr u"
    and rest: "continue_turns lib strm ?st1 turns = Some st'"
    by (cases "fst (invoke lib strm st tn False)") simp_all
  have pk: "?st (pointer_key lib) = Some (Dumped True (pointer_to f))"
    using ne(1) Cons.prems(2) by (simp add: edit_input_elsewhere)
  have hk: "?st (history_key lib f) = Some (Dumped False (doc_of t))"
    using ne(2) Cons.prems(3) by (simp add: edit_input_elsewhere)
  have res: "resolve_session lib (turn_env tn) ?st False = Inr (doc_of t, Some f)"
    by (rule resolve_session_continue [where st = "?st" and c = "Dumped True (pointer_to f)"
          and data = "pointer_to f" and c' = "Dumped False (doc_of t)"])
       (simp_all add: pk hk json_load_dumped names_file_pointer assms(3))
  have fname: "file_name (doc_of t) (Some f) = f" by (simp add: file_name_def)
  from ok res obtain t1 where st1: "?st1 =
       ?st(history_key lib (file_name (doc_of t) (Some f)) \<mapsto> Dumped False (doc_of t1),
          pointer_key lib \<mapsto> Dumped True (pointer_to (file_name (doc_of t) (Some f))),
          output_key lib \<mapsto> Text (rendered_view lib t1))"
    and m1: "messages t1 = messages t @ turn_messages lib strm tn"
    and p1: "prompt_tokens (usage t1) =
       prompt_tokens (usage t) + usage_field (turn_response lib strm tn) ''prompt_tokens''"
    and c1: "completion_tokens (usage t1) =
       completion_tokens (usage t) + usage_field (turn_response lib strm tn) ''completion_tokens''"
    and o1: "total_tokens (usage t1) =
       total_tokens (usage t) + usage_field (turn_response lib strm tn) ''total_tokens''"
    and cr1: "created_at t1 = created_at t"
    and l1: "last_updated_at t1 = now_update (turn_env tn)"
    by (rule invoke_turn)
  have a1: "?st1 (pointer_key lib) = Some (Dumped True (pointer_to f))"
    using ne by (simp add: st1 fname)
  have h1: "?st1 (history_key lib f) = Some (Dumped False (doc_of t1))"
    using ne by (simp add: st1 fname)
  from Cons.IH [OF rest a1 h1]
  obtain t' where act: "st' (pointer_key lib) = Some (Dumped True (pointer_to f))"
    and h: "st' (history_key lib f) = Some (Dumped False (doc_of t'))"
    and m: "messages t' = messages t1 @ concat (map (turn_messages lib strm) turns)"
    and p: "prompt_tokens (usage t') =
              prompt_tokens (usage t1) + usage_sum lib strm ''prompt_tokens'' turns"
    and c: "completion_tokens (usage t') =
              completion_tokens (usage t1) + usage_sum lib strm ''completion_tokens'' turns"
    and o: "total_tokens (usage t') =
              total_tokens (usage t1) + usage_sum lib strm ''total_tokens'' turns"
    and cr: "created_at t' = created_at t1"
    and l: "last_updated_at t' =
              (if turns = [] then last_updated_at t1 else now_update (turn_env (last turns)))"
    by blast
  have "messages t' = messages t @ concat (map (turn_messages lib strm) (tn # turns))"
    by (simp add: m m1)
  moreover have "prompt_tokens (usage t') =
              prompt_tokens (usage t) + usage_sum lib strm ''prompt_tokens'' (tn # turns)"
    by (simp add: p p1)
  moreover have "completion_tokens (usage t') =
              completion_tokens (usage t) + usage_sum lib strm ''completion_tokens'' (tn # turns)"
    by (simp add: c c1)
  moreover have "total_tokens (usage t') =
              total_tokens (usage t) + usage_sum lib strm ''total_tokens'' (tn # turns)"
    by (simp add: o o1)
  moreover have "created_at t' = created_at t" by (simp add: cr cr1)
  moreover have "last_updated_at t' = now_update (turn_env (last (tn # turns)))"
    by (simp add: l l1)
  ultimately show ?case using act h by (intro conjI exI [of _ t']) simp_all
qed

lemma turn_messages_roles:
  "map role (concat (map (turn_messages lib strm) turns)) =
     concat (replicate (length turns) [''user'', ''assistant''])"
  by (induction turns) (simp_all add: turn_messages_def)

lemma turn_messages_length:
  "length (concat (map (turn_messages lib strm) turns)) = 2 * length turns"
  by (induction turns) (simp_all add: turn_messages_def)

subsection \<open>Turns on a stored transcript\<close>

lemma record_response_ints:
  assumes "assistant_content response = Inr a"
    and "getitem response ''usage'' = Inr ru"
    and "getitem ru ''prompt_tokens'' = Inr (JInt x)"
    and "getitem ru ''completion_tokens'' = Inr (JInt y)"
    and "getitem ru ''total_tokens'' = Inr (JInt z)"
  shows "record_response ev
           (doc_of (t\<lparr>messages := messages t @ [\<lparr>role = ''user'', content = JStr p\<rparr>]\<rparr>)) response
         = Inr (doc_of (after_turn ev t p a response))"
  using assms
  by (simp add: record_response_def append_item_def add_counter_def doc_of_def usage_doc_def
      assistant_msg_def msg_doc_def py_iadd_def after_turn_def usage_field_def)

lemma persist_doc:
  assumes "st (history_key lib (file_name (doc_of t) fn)) \<noteq> Some Directory"
    and "st (pointer_key lib) \<noteq> Some Directory"
    and "st (output_key lib) \<noteq> Some Directory"
  shows "persist lib st (doc_of t) fn =
     (Inr (), st(history_key lib (file_name (doc_of t) fn) \<mapsto> Dumped False (doc_of t),
                 pointer_key lib \<mapsto> Dumped True (pointer_to (file_name (doc_of t) fn)),
                 output_key lib \<mapsto> Text (rendered_view lib t)))"
proof -
  let ?name = "file_name (doc_of t) fn"
  let ?st1 = "st(history_key lib ?name \<mapsto> Dumped False (doc_of t))"
  let ?st2 = "?st1(pointer_key lib \<mapsto> Dumped True (pointer_to ?name))"
  have w: "write_file st (history_key lib ?name) (Dumped False (doc_of t)) = Inr ?st1"
    by (rule write_file_ok [where st = st]) (rule assms(1))
  have s: "save_chat_history lib st (doc_of t) fn = Inr (?st1, ?name)"
  proof (cases fn)
    case None
    with w show ?thesis
      by (simp add: save_chat_history_def getitem_doc file_name_def history_key_def)
  next
    case (Some f)
    with w show ?thesis
      by (simp add: save_chat_history_def file_name_def history_key_def)
  qed
  have "?st1 (pointer_key lib) \<noteq> Some Directory" using assms(2) by simp
  then have "write_file ?st1 (pointer_key lib) (Dumped True (pointer_to ?name)) = Inr ?st2"
    by (rule write_file_ok [where st = "?st1"])
  then have a: "set_active_chat lib ?st1 ?name = Inr ?st2"
    by (simp add: set_active_chat_def pointer_key_def pointer_to_def)
  have "?st2 (output_key lib) \<noteq> Some Directory" using assms(3) by simp
  then have o: "update_output_md lib ?st2 (doc_of t) =
      (Inr (), ?st2(output_key lib \<mapsto> Text (rendered_view lib t)))"
    by (rule update_output_md_doc [where st = "?st2"])
  show ?thesis by (simp add: persist_def s a o)
qed

lemma file_name_after_turn:
  "file_name (doc_of (after_turn ev t p a response)) fn = file_name (doc_of t) fn"
  by (rule file_name_same) (simp add: getitem_doc after_turn_def)

lemma take_turn_doc:
  assumes res: "resolve_session lib ev st new_chat = Inr (doc_of t, fn)"
    and p: "acquire_prompt lib st arg = Inr p"
    and r: "receive lib strm (reply ev) = Inr response"
    and a: "assistant_content response = Inr a"
    and u: "getitem response ''usage'' = Inr ru"
      "getitem ru ''prompt_tokens'' = Inr (JInt x)"
      "getitem ru ''completion_tokens'' = Inr (JInt y)"
      "getitem ru ''total_tokens'' = Inr (JInt z)"
    and dirs: "st (history_key lib (file_name (doc_of t) fn)) \<noteq> Some Directory"
      "st (pointer_key lib) \<noteq> Some Directory"
      "st (output_key lib) \<noteq> Some Directory"
  shows "take_turn lib strm ev st arg new_chat =
     (Inr (),
      st(history_key lib (file_name (doc_of t) fn) \<mapsto>
           Dumped False (doc_of (after_turn ev t p a response)),
         pointer_key lib \<mapsto> Dumped True (pointer_to (file_name (doc_of t) fn)),
         output_key lib \<mapsto> Text (rendered_view lib (after_turn ev t p a response))),
      [\<lparr>payload_model = MODEL,
        payload_messages = JArr (map msg_doc (messages t) @ [user_msg p]),
        max_tokens = MAX_TOKENS, stream = strm\<rparr>])"
proof -
  let ?t' = "after_turn ev t p a response"
  have ex: "exchange lib strm ev (doc_of t) p =
     ([\<lparr>payload_model = MODEL,
        payload_messages = JArr (map msg_doc (messages t) @ [user_msg p]),
        max_tokens = MAX_TOKENS, stream = strm\<rparr>], Inr (doc_of ?t'))"
    by (simp add: exchange_doc r record_response_ints [OF a u])
  have ps: "persist lib st (doc_of ?t') fn =
     (Inr (), st(history_key lib (file_name (doc_of t) fn) \<mapsto> Dumped False (doc_of ?t'),
                 pointer_key lib \<mapsto> Dumped True (pointer_to (file_name (doc_of t) fn)),
                 output_key lib \<mapsto> Text (rendered_view lib ?t')))"
    using persist_doc [where st = st and lib = lib and t = "?t'" and fn = fn] dirs
    by (simp add: file_name_after_turn)
  show ?thesis by (simp add: take_turn_def res p ex ps)
qed

lemma usage_field_zero: "usage_field (stream_response c zero_usage) k = 0"
  by (simp add: usage_field_def stream_response_def zero_usage_def)

lemma after_turn_zero_usage:
  "usage (after_turn ev t p a (stream_response c zero_usage)) = usage t"
  by (simp add: after_turn_def usage_field_zero)

lemma turn_without_usage:
  assumes rep: "reply ev = PostReturns resp"
    and none: "carried_usages (json_loads lib) (iter_lines resp) = []"
    and res: "resolve_session lib ev st new_chat = Inr (d0, fn)"
    and turn: "take_turn lib True ev st prompt new_chat = (Inr (), st', reqs)"
  shows "\<exists>d'. st' = st(history_key lib (file_name d0 fn) \<mapsto> Dumped False d',
                        pointer_key lib \<mapsto> Dumped True (pointer_to (file_name d0 fn)),
                        output_key lib \<mapsto> Text (fst (render lib d')))
           \<and> usage_field d' ''prompt_tokens'' = usage_field d0 ''prompt_tokens''
           \<and> usage_field d' ''completion_tokens'' = usage_field d0 ''completion_tokens''
           \<and> usage_field d' ''total_tokens'' = usage_field d0 ''total_tokens''
           \<and> (\<forall>t. d0 = doc_of t \<longrightarrow> (\<exists>t'. d' = doc_of t' \<and> usage t' = usage t))"
proof -
  from turn obtain d1 fn1 p d' where "resolve_session lib ev st new_chat = Inr (d1, fn1)"
    and ex1: "snd (exchange lib True ev d1 p) = Inr d'"
    and ps1: "persist lib st d' fn1 = (Inr (), st')"
    by (rule take_turn_success)
  with res have ex: "snd (exchange lib True ev d0 p) = Inr d'"
    and ps: "persist lib st d' fn = (Inr (), st')"
    by simp_all
  from ex obtain response a where rc: "receive lib True (reply ev) = Inr response"
    and ac: "assistant_content response = Inr a"
    and cr: "getitem d' ''created_at'' = getitem d0 ''created_at''"
    and up: "usage_field d' ''prompt_tokens'' =
       usage_field d0 ''prompt_tokens'' + usage_field response ''prompt_tokens''"
    and uc: "usage_field d' ''completion_tokens'' =
       usage_field d0 ''completion_tokens'' + usage_field response ''completion_tokens''"
    and ut: "usage_field d' ''total_tokens'' =
       usage_field d0 ''total_tokens'' + usage_field response ''total_tokens''"
    by (rule exchange_success)
  from rc rep have hs: "handle_stream (json_loads lib) (iter_lines resp) = Inr response"
    by (simp add: receive_def and_then_eq_Inr)
  from handle_stream_usage [OF hs] obtain c where
    "response = stream_response c (last_or zero_usage (carried_usages (json_loads lib) (iter_lines resp)))"
    by blast
  with none have response: "response = stream_response c zero_usage" by simp
  have same: "file_name d' fn = file_name d0 fn"
    by (rule file_name_same) (rule cr)
  from persist_success [OF ps] same
  have st': "st' = st(history_key lib (file_name d0 fn) \<mapsto> Dumped False d',
                        pointer_key lib \<mapsto> Dumped True (pointer_to (file_name d0 fn)),
                        output_key lib \<mapsto> Text (fst (render lib d')))"
    by simp
  have typed: "\<exists>t'. d' = doc_of t' \<and> usage t' = usage t" if "d0 = doc_of t" for t
  proof -
    from ex that obtain response' a' where rc': "receive lib True (reply ev) = Inr response'"
      and d': "d' = doc_of (after_turn ev t p a' response')"
      by (auto elim: exchange_doc_success)
    from rc rc' response have "response' = stream_response c zero_usage" by simp
    with d' show ?thesis by (auto simp: after_turn_zero_usage)
  qed
  from st' up uc ut typed show ?thesis
    by (intro exI [of _ d']) (simp add: response usage_field_zero)
qed

subsection \<open>The sample values\<close>

lemmas stream_eval = handle_stream_def stream_loop_Line sentinel_def utf8_valid_def
  process_chunk_def key_truthy_def chunk_content_def add_content_def zero_usage_def

lemma sample_handle_stream:
  "handle_stream sample_loads sample_stream = Inr (stream_response ''hi there'' sample_usage)"
  by (simp add: sample_loads_def sample_stream_def sample_usage_def stream_eval)

lemma sample_chunks: "chunks sample_loads sample_stream =
  [JObj [(''choices'', JArr [JObj [(''delta'', JObj [(''content'', JStr ''hi '')])]])],
   JObj [(''choices'', JArr [JObj [(''delta'', JObj [(''content'', JStr ''there'')])]])],
   JObj [(''choices'', JArr []), (''usage'', sample_usage)]]"
  by (simp add: chunks_def before_done_def sentinel_def sample_stream_def sample_loads_def
      sample_usage_def map_filter_simps)

lemma sample_carried_usages: "carried_usages sample_loads sample_stream = [sample_usage]"
  by (simp add: carried_usages_def sample_chunks map_filter_simps carried_usage_def sample_usage_def)

lemma sample_before_done:
  "before_done sample_stream =
     [Line ''data: {\"choices\":[{\"delta\":{\"content\":\"hi \"}}]}'',
      Line [],
      Line '': keep-alive'',
      Line ''data: {broken'',
      Line ''data: {\"choices\":[{\"delta\":{\"content\":\"there\"}}]}'',
      Line ''data: {\"choices\":[],\"usage\":{\"prompt_tokens\":5,\"completion_tokens\":3,\"total_tokens\":8}}'']"
  by (simp add: before_done_def sample_stream_def sentinel_def)

lemma sample_decodable: "\<forall>it \<in> set (before_done sample_stream). decodable it"
  by (simp add: sample_before_done utf8_valid_def)

lemma sample_fragment_text:
  "concat (map the_fragment (chunks sample_loads sample_stream)) = ''hi there''"
  by (simp add: sample_chunks fragment_def choice_fragment_def delta_fragment_def)

lemma sample_well_formed:
  "\<forall>chunk \<in> set (chunks sample_loads sample_stream). fragment chunk \<noteq> None"
  by (simp add: sample_chunks fragment_def choice_fragment_def delta_fragment_def)

lemma sample_plain_handle_stream:
  "handle_stream sample_loads sample_stream_plain = Inr (stream_response ''hi there'' zero_usage)"
  by (simp add: sample_loads_def sample_stream_plain_def stream_eval)

lemma sample_plain_carried_usages: "carried_usages sample_loads sample_stream_plain = []"
  by (simp add: sample_loads_def sample_stream_plain_def carried_usages_Cons carried_usage_def
      sentinel_def)

lemma sample_keys:
  "history_key sample_lib ''2026-01-22T010757-123456.json'' = ''history/2026-01-22T010757-123456.json''"
  "history_key sample_lib ''2026-01-20T101500.json'' = ''history/2026-01-20T101500.json''"
  "history_key sample_lib ''./2026-01-20T101500.json'' = ''history/2026-01-20T101500.json''"
  "history_key sample_lib ''active_chat.json'' = ''history/active_chat.json''"
  "history_key sample_lib ''missing.json'' = ''history/missing.json''"
  "history_key sample_lib ''gone.json'' = ''history/gone.json''"
  "history_key sample_lib ''.'' = ''history''"
  "pointer_key sample_lib = ''history/active_chat.json''"
  "input_key sample_lib = ''input.txt''"
  "output_key sample_lib = ''output.md''"
  by (simp_all add: history_key_def pointer_key_def input_key_def output_key_def sample_lib_def
      sample_key_def join_path_def HISTORY_DIR_def ACTIVE_CHAT_FILE_def INPUT_FILE_def
      OUTPUT_FILE_def)

lemma sample_lib_fields:
  "json_loads sample_lib = sample_loads"
  "py_str sample_lib = sample_str"
  by (simp_all add: sample_lib_def)

lemma sample_env_fields:
  "reply sample_env = PostReturns sample_response"
  "now_create sample_env = ''2026-01-22T01:07:57.123456''"
  "now_update sample_env = ''2026-01-22T01:07:59.654321''"
  by (simp_all add: sample_env_def)

lemma sample_receive_batched: "receive lib False (PostReturns sample_response) = Inr sample_batch"
  by (simp add: receive_def sample_response_def raise_for_status_def)

lemma sample_receive_streamed:
  "receive sample_lib True (PostReturns sample_response) =
     Inr (stream_response ''hi there'' sample_usage)"
  by (simp add: receive_def sample_response_def raise_for_status_def
      sample_lib_def sample_handle_stream)

lemma sample_batch_content: "assistant_content sample_batch = Inr (JStr ''hi there'')"
  by (simp add: sample_batch_def assistant_content_def)

lemma sample_batch_usage: "getitem sample_batch ''usage'' = Inr sample_usage"
  by (simp add: sample_batch_def)

lemma sample_usage_fields:
  "getitem sample_usage ''prompt_tokens'' = Inr (JInt 5)"
  "getitem sample_usage ''completion_tokens'' = Inr (JInt 3)"
  "getitem sample_usage ''total_tokens'' = Inr (JInt 8)"
  by (simp_all add: sample_usage_def)

lemma sample_after_turn:
  "getitem response ''usage'' = Inr sample_usage \<Longrightarrow>
   after_turn sample_env (fresh ''2026-01-22T01:07:57.123456'') ''hello'' (JStr ''hi there'') response
     = sample_transcript"
  by (simp add: after_turn_def fresh_def sample_transcript_def sample_env_fields usage_field_def
      sample_usage_def)

lemma sample_exchange:
  "exchange sample_lib False sample_env (create_chat_history ''2026-01-22T01:07:57.123456'') ''hello''
     = ([\<lparr>payload_model = MODEL, payload_messages = JArr [user_msg ''hello''],
          max_tokens = MAX_TOKENS, stream = False\<rparr>],
        Inr (doc_of sample_transcript))"
  by (simp add: create_chat_history_doc exchange_doc sample_env_fields sample_receive_batched
      record_response_ints [OF sample_batch_content sample_batch_usage sample_usage_fields]
      sample_after_turn [OF sample_batch_usage])
     (simp add: fresh_def)

lemma sample_file_name:
  "file_name (doc_of sample_transcript) None = ''2026-01-22T010757-123456.json''"
  by (simp add: file_name_doc sample_transcript_def get_chat_filename_def)

lemma sample_new_turn:
  "chat sample_lib False sample_env no_files (Some ''hello'') True None =
     (Inr (), sample_files,
      [\<lparr>payload_model = MODEL, payload_messages = JArr [user_msg ''hello''],
        max_tokens = MAX_TOKENS, stream = False\<rparr>])"
proof -
  have p: "persist sample_lib no_files (doc_of sample_transcript) None = (Inr (), sample_files)"
    by (simp add: persist_doc sample_file_name sample_keys no_files_def sample_files_def)
  show ?thesis
    by (simp add: chat_def take_turn_def resolve_session_new acquire_prompt_argument
        sample_env_fields sample_exchange p)
qed

lemma sample_resolve_active:
  "resolve_session sample_lib ev sample_files False =
     Inr (doc_of sample_transcript, Some ''2026-01-22T010757-123456.json'')"
  by (rule resolve_session_continue [where c = "Dumped True (pointer_to ''2026-01-22T010757-123456.json'')"
        and data = "pointer_to ''2026-01-22T010757-123456.json''"
        and c' = "Dumped False (doc_of sample_transcript)"])
     (simp_all add: sample_files_def sample_keys json_load_dumped names_file_pointer)

lemma strip_sample: "strip ''  hello there '' = ''hello there''"
  by (simp add: strip_def is_space_def whitespace_def continuation_def)

lemma strip_blank: "strip [CHR '' '', CHR 0x0A, CHR 0x09] = []"
  by (simp add: strip_def is_space_def whitespace_def continuation_def)

lemma strip_no_break_space: "strip [CHR 0xC2, CHR 0xA0, CHR 0xE3, CHR 0x80, CHR 0x80, CHR 0x0A] = []"
  by (simp add: strip_def is_space_def whitespace_def continuation_def)

lemma strip_keeps_inner:
  "strip [CHR 0xC2, CHR 0xA0, CHR ''a'', CHR 0xC2, CHR 0xA0, CHR ''b'', CHR 0xE2, CHR 0x80, CHR 0xA8]
     = [CHR ''a'', CHR 0xC2, CHR 0xA0, CHR ''b'']"
  by (simp add: strip_def is_space_def whitespace_def continuation_def)

lemma sample_transcript_messages:
  "getitem (doc_of sample_transcript) ''messages'' =
     Inr (JArr [user_msg ''hello'', assistant_msg (JStr ''hi there'')])"
  by (simp add: getitem_doc sample_transcript_def msg_doc_def user_msg_def assistant_msg_def)

lemma sample_continue_requests:
  "snd (snd (chat sample_lib strm ev sample_files (Some ''and then?'') False None)) =
     [\<lparr>payload_model = MODEL,
       payload_messages = JArr [user_msg ''hello'', assistant_msg (JStr ''hi there''),
                                user_msg ''and then?''],
       max_tokens = MAX_TOKENS, stream = strm\<rparr>]"
proof -
  have "acquire_prompt sample_lib sample_files (Some ''and then?'') = Inr ''and then?''"
    by (rule acquire_prompt_argument) simp_all
  from take_turn_requests [OF sample_resolve_active this sample_transcript_messages]
  show ?thesis by (simp add: chat_def)
qed

lemma new_chat_requests:
  "p \<noteq> [] \<Longrightarrow>
   snd (snd (chat lib strm ev st (Some p) True None)) =
     [\<lparr>payload_model = MODEL, payload_messages = JArr [user_msg p],
       max_tokens = MAX_TOKENS, stream = strm\<rparr>]"
proof -
  assume "p \<noteq> []"
  then have a: "acquire_prompt lib st (Some p) = Inr p"
    by (simp add: acquire_prompt_argument)
  have m: "getitem (create_chat_history (now_create ev)) ''messages'' = Inr (JArr [])"
    by (simp add: create_chat_history_def)
  from take_turn_requests [OF resolve_session_new a m]
  show ?thesis by (simp add: chat_def)
qed

lemma sample_first_turn:
  "invoke sample_lib False no_files \<lparr>turn_arg = Some ''hello'', turn_input = None, turn_env = sample_env\<rparr> True
     = (Inr (), sample_files,
        [\<lparr>payload_model = MODEL, payload_messages = JArr [user_msg ''hello''],
          max_tokens = MAX_TOKENS, stream = False\<rparr>])"
proof -
  have "edit_input sample_lib None no_files = no_files"
    by (rule ext) (simp add: edit_input_def no_files_def sample_keys)
  then show ?thesis by (simp add: invoke_def sample_new_turn)
qed

lemma sample_env2_fields:
  "reply sample_env2 = PostReturns \<lparr>status_code = 200, http_error = [],
                              json_result = Inr sample_batch2, iter_lines = []\<rparr>"
  "now_create sample_env2 = ''2026-01-22T01:09:00''"
  "now_update sample_env2 = ''2026-01-22T01:09:02.500000''"
  by (simp_all add: sample_env2_def)

lemma sample_receive2: "receive lib False (reply sample_env2) = Inr sample_batch2"
  by (simp add: sample_env2_fields receive_def raise_for_status_def)

lemma sample_prompt2:
  "acquire_prompt sample_lib (edit_input sample_lib (Some ''and then?\<newline>'') st) None = Inr ''and then?''"
  by (simp add: acquire_prompt_def edit_input_def input_key_def read_text_def utf8_valid_def
      strip_def is_space_def whitespace_def continuation_def)

lemma sample_second_turn:
  "fst (invoke sample_lib False sample_files
          \<lparr>turn_arg = None, turn_input = Some ''and then?\<newline>'', turn_env = sample_env2\<rparr> False)
     = Inr ()"
proof -
  let ?st = "edit_input sample_lib (Some ''and then?\<newline>'') sample_files"
  have res: "resolve_session sample_lib sample_env2 ?st False =
      Inr (doc_of sample_transcript, Some ''2026-01-22T010757-123456.json'')"
    by (rule resolve_session_continue [where c = "Dumped True (pointer_to ''2026-01-22T010757-123456.json'')"
        and data = "pointer_to ''2026-01-22T010757-123456.json''"
        and c' = "Dumped False (doc_of sample_transcript)"])
     (simp_all add: sample_files_def sample_keys json_load_dumped names_file_pointer edit_input_def)
  have "fst (take_turn sample_lib False sample_env2 ?st None False) = Inr ()"
    by (subst take_turn_doc [OF res sample_prompt2 sample_receive2,
          where a = "JStr ''fine''" and x = 7 and y = 2 and z = 9
            and ru = "JObj [(''prompt_tokens'', JInt 7), (''completion_tokens'', JInt 2),
                             (''total_tokens'', JInt 9)]"])
       (simp_all add: sample_batch2_def assistant_content_def file_name_def sample_keys
          sample_files_def edit_input_def no_files_def)
  then show ?thesis by (simp add: invoke_def chat_def)
qed

lemma older_view:
  "rendered_view sample_lib older_transcript =
     ''# Chat History\<newline>\<newline>**Created:** 2026-01-20T10:15:00\<newline>\<newline>**Last Updated:** 2026-01-20T10:15:04.250000\<newline>\<newline>**Model:** codestral-latest\<newline>\<newline>---\<newline>\<newline>## User\<newline>\<newline>ping\<newline>\<newline>## Assistant\<newline>\<newline>pong\<newline>\<newline>---\<newline>\<newline>**Usage Statistics:**\<newline>\<newline>- Prompt Tokens: 2\<newline>- Completion Tokens: 1\<newline>- Total Tokens: 3\<newline>''"
  by (simp add: rendered_view_def view_header_def view_section_def view_usage_def
      older_transcript_def MODEL_def fstring_def capitalize_def str_int_def str_nat.simps
      digit_char_def upper_char_def lower_char_def)

lemma sample_empty_usage_stream:
  "handle_stream sample_loads sample_stream_empty_usage =
     Inr (stream_response ''hi there'' zero_usage)"
  by (simp add: sample_loads_def sample_stream_empty_usage_def stream_eval)

lemma sample_empty_usage_chunks:
  "chunks sample_loads sample_stream_empty_usage =
     [JObj [(''choices'', JArr [JObj [(''delta'', JObj [(''content'', JStr ''hi '')])]])],
      JObj [(''choices'', JArr [JObj [(''delta'', JObj [(''content'', JStr ''there'')])]])],
      JObj [(''choices'', JArr []), (''usage'', JObj [])]]"
  by (simp add: chunks_def before_done_def sentinel_def sample_stream_empty_usage_def
      sample_loads_def map_filter_simps)

lemma sample_empty_usage_streamed:
  "chat sample_lib True (sample_env\<lparr>reply := PostReturns sample_response_empty_usage\<rparr>)
        no_files (Some ''hello'') True None =
     (Inr (),
      no_files(''history/2026-01-22T010757-123456.json'' \<mapsto> Dumped False (doc_of zero_usage_transcript),
               ''history/active_chat.json'' \<mapsto> Dumped True (pointer_to ''2026-01-22T010757-123456.json''),
               ''output.md'' \<mapsto> Text (rendered_view sample_lib zero_usage_transcript)),
      [\<lparr>payload_model = MODEL, payload_messages = JArr [user_msg ''hello''],
        max_tokens = MAX_TOKENS, stream = True\<rparr>])"
proof -
  let ?ev = "sample_env\<lparr>reply := PostReturns sample_response_empty_usage\<rparr>"
  let ?r = "stream_response ''hi there'' zero_usage"
  have res: "resolve_session sample_lib ?ev no_files True =
      Inr (doc_of (fresh ''2026-01-22T01:07:57.123456''), None)"
    by (simp add: resolve_session_new create_chat_history_doc sample_env_def)
  have p: "acquire_prompt sample_lib no_files (Some ''hello'') = Inr ''hello''"
    by (simp add: acquire_prompt_argument)
  have r: "receive sample_lib True (reply ?ev) = Inr ?r"
    by (simp add: receive_def raise_for_status_def sample_response_empty_usage_def
        sample_lib_fields sample_empty_usage_stream)
  have t: "after_turn ?ev (fresh ''2026-01-22T01:07:57.123456'') ''hello'' (JStr ''hi there'') ?r
      = zero_usage_transcript"
    by (simp add: after_turn_def fresh_def zero_usage_transcript_def sample_env_def
        usage_field_def stream_response_def zero_usage_def)
  have n: "file_name (doc_of (fresh ''2026-01-22T01:07:57.123456'')) None =
      ''2026-01-22T010757-123456.json''"
    by (simp add: file_name_doc fresh_def get_chat_filename_def)
  have m: "messages (fresh ''2026-01-22T01:07:57.123456'') = []"
    by (simp add: fresh_def)
  have "take_turn sample_lib True ?ev no_files (Some ''hello'') True =
     (Inr (),
      no_files(''history/2026-01-22T010757-123456.json'' \<mapsto> Dumped False (doc_of zero_usage_transcript),
               ''history/active_chat.json'' \<mapsto> Dumped True (pointer_to ''2026-01-22T010757-123456.json''),
               ''output.md'' \<mapsto> Text (rendered_view sample_lib zero_usage_transcript)),
      [\<lparr>payload_model = MODEL, payload_messages = JArr [user_msg ''hello''],
        max_tokens = MAX_TOKENS, stream = True\<rparr>])"
    by (subst take_turn_doc [OF res p r, where a = "JStr ''hi there''" and ru = zero_usage
          and x = 0 and y = 0 and z = 0])
       (simp_all add: assistant_content_stream_response getitem_stream_response_usage
          zero_usage_def t [unfolded zero_usage_def] n m sample_keys no_files_def)
  then show ?thesis by (simp add: chat_def)
qed

lemma sample_plain_turn:
  "fst (take_turn sample_lib True sample_env_plain sample_files (Some ''and then?'') False) = Inr ()"
proof -
  have p: "acquire_prompt sample_lib sample_files (Some ''and then?'') = Inr ''and then?''"
    by (simp add: acquire_prompt_argument)
  have r: "receive sample_lib True (reply sample_env_plain) =
      Inr (stream_response ''hi there'' zero_usage)"
    by (simp add: sample_env_plain_def receive_def raise_for_status_def sample_lib_def
        sample_plain_handle_stream)
  show ?thesis
    by (subst take_turn_doc [OF sample_resolve_active p r, where a = "JStr ''hi there''"
          and ru = zero_usage and x = 0 and y = 0 and z = 0])
       (simp_all add: assistant_content_stream_response getitem_stream_response_usage
          zero_usage_def file_name_def sample_keys sample_files_def no_files_def)
qed

section \<open>The claims\<close>

subsection \<open>C1: a failure of the transport\<close>

text \<open>
  C1. When an invocation posts a request and the exchange fails with an exception of the
  transport (\<^verbatim>\<open>RequestException\<close>), the invocation ends with the single error "API
  request failed" and every file is as it was before: the transcripts, the pointer file
  and the output file. The transport fails in this way when the request raises (no
  connection, a timeout), when the response has an error status, when the connection
  breaks while the lines of a stream are read, and when the body of a batched response is
  not JSON.
\<close>

theorem transport_failure_leaves_files:
  "(receive lib strm (reply ev) = Inl (RequestException m)
      \<and> chat lib strm ev st prompt new_chat load_file = (res, st', reqs) \<and> reqs \<noteq> [] \<longrightarrow>
    res = Inl (RuntimeError (''API request failed: '' @ m)) \<and> st' = st)
   \<and> (transport_failure rep \<longrightarrow>
      receive lib strm rep = Inl (RequestException (failure_text rep)))
   \<and> (raise_for_status r = Inr () \<and> iter_lines r = pre @ ReadError msg # post
        \<and> (\<forall>it \<in> set pre. decodable it \<and> it \<noteq> sentinel)
        \<and> (\<forall>chunk \<in> set (chunks (json_loads lib) pre). fragment chunk \<noteq> None) \<longrightarrow>
      receive lib True (PostReturns r) = Inl (RequestException msg))
   \<and> (raise_for_status r = Inr () \<and> json_result r = Inl msg \<longrightarrow>
      receive lib False (PostReturns r) = Inl (RequestException msg))"
proof (intro conjI impI)
  assume a: "receive lib strm (reply ev) = Inl (RequestException m)
      \<and> chat lib strm ev st prompt new_chat load_file = (res, st', reqs) \<and> reqs \<noteq> []"
  have turn: "take_turn lib strm ev st prompt new_chat = (res, st', reqs)"
  proof (cases "given load_file")
    case True
    with a have "show_loaded lib st (case load_file of Some f \<Rightarrow> f | None \<Rightarrow> []) = (res, st', reqs)"
      by (simp add: chat_cases)
    then have "reqs = []" by (rule show_loaded_no_request)
    with a show ?thesis by simp
  next
    case False
    with a show ?thesis by (simp add: chat_cases)
  qed
  from a have r: "receive lib strm (reply ev) = Inl (RequestException m)" and ne: "reqs \<noteq> []"
    by simp_all
  from take_turn_failure [OF r turn ne]
  show "res = Inl (RuntimeError (''API request failed: '' @ m))" and "st' = st" by simp_all
next
  assume "transport_failure rep"
  then show "receive lib strm rep = Inl (RequestException (failure_text rep))"
    by (rule receive_transport_failure)
next
  assume a: "raise_for_status r = Inr () \<and> iter_lines r = pre @ ReadError msg # post
        \<and> (\<forall>it \<in> set pre. decodable it \<and> it \<noteq> sentinel)
        \<and> (\<forall>chunk \<in> set (chunks (json_loads lib) pre). fragment chunk \<noteq> None)"
  then have "handle_stream (json_loads lib) (pre @ ReadError msg # post) = Inl (RequestException msg)"
    using handle_stream_breaks [of pre "json_loads lib" msg post] by blast
  with a show "receive lib True (PostReturns r) = Inl (RequestException msg)"
    by (simp add: receive_stream)
next
  assume "raise_for_status r = Inr () \<and> json_result r = Inl msg"
  then show "receive lib False (PostReturns r) = Inl (RequestException msg)"
    by (simp add: receive_def)
qed

theorem transport_failure_leaves_files_sample:
  "chat sample_lib False (sample_env\<lparr>reply := PostRaises ''Connection refused''\<rparr>)
        sample_files (Some ''and then?'') False None =
     (Inl (RuntimeError ''API request failed: Connection refused''), sample_files,
      [\<lparr>payload_model = MODEL,
        payload_messages = JArr [user_msg ''hello'', assistant_msg (JStr ''hi there''),
                                 user_msg ''and then?''],
        max_tokens = MAX_TOKENS, stream = False\<rparr>])
   \<and> chat sample_lib True
        (sample_env\<lparr>reply := PostReturns (sample_response\<lparr>status_code := 503,
                                                 http_error := ''503 Server Error''\<rparr>)\<rparr>)
        sample_files (Some ''hello'') True None =
     (Inl (RuntimeError ''API request failed: 503 Server Error''), sample_files,
      [\<lparr>payload_model = MODEL, payload_messages = JArr [user_msg ''hello''],
        max_tokens = MAX_TOKENS, stream = True\<rparr>])
   \<and> chat sample_lib True (sample_env\<lparr>reply := PostReturns sample_response_broken\<rparr>)
        sample_files (Some ''and then?'') False None =
     (Inl (RuntimeError ''API request failed: Connection broken: IncompleteRead''), sample_files,
      [\<lparr>payload_model = MODEL,
        payload_messages = JArr [user_msg ''hello'', assistant_msg (JStr ''hi there''),
                                 user_msg ''and then?''],
        max_tokens = MAX_TOKENS, stream = True\<rparr>])"
proof -
  let ?ev = "sample_env\<lparr>reply := PostRaises ''Connection refused''\<rparr>"
  let ?run = "chat sample_lib False ?ev sample_files (Some ''and then?'') False None"
  note reqs = sample_continue_requests [of False ?ev]
  have "transport_failure (PostRaises ''Connection refused'')" by simp
  with transport_failure_leaves_files [where rep = "PostRaises ''Connection refused''"
      and lib = sample_lib and strm = False]
  have fails: "receive sample_lib False (reply ?ev) = Inl (RequestException ''Connection refused'')"
    by simp
  have run: "?run = (fst ?run, fst (snd ?run), snd (snd ?run))" by simp
  have "snd (snd ?run) \<noteq> []" by (simp add: reqs)
  with transport_failure_leaves_files [where lib = sample_lib and strm = False and ev = "?ev"
      and m = "''Connection refused''" and st = sample_files and prompt = "Some ''and then?''"
      and new_chat = False and load_file = None and res = "fst ?run" and st' = "fst (snd ?run)"
      and reqs = "snd (snd ?run)"] fails run
  have "fst ?run = Inl (RuntimeError ''API request failed: Connection refused'')"
    and "fst (snd ?run) = sample_files"
    by simp_all
  with reqs have first: "?run =
     (Inl (RuntimeError ''API request failed: Connection refused''), sample_files,
      [\<lparr>payload_model = MODEL,
        payload_messages = JArr [user_msg ''hello'', assistant_msg (JStr ''hi there''),
                                 user_msg ''and then?''],
        max_tokens = MAX_TOKENS, stream = False\<rparr>])"
    by (metis prod.collapse)
  let ?rep2 = "PostReturns (sample_response\<lparr>status_code := 503, http_error := ''503 Server Error''\<rparr>)"
  let ?ev2 = "sample_env\<lparr>reply := ?rep2\<rparr>"
  let ?run2 = "chat sample_lib True ?ev2 sample_files (Some ''hello'') True None"
  have reqs2: "snd (snd ?run2) =
      [\<lparr>payload_model = MODEL, payload_messages = JArr [user_msg ''hello''],
        max_tokens = MAX_TOKENS, stream = True\<rparr>]"
    by (rule new_chat_requests) simp
  have "transport_failure ?rep2" by simp
  with transport_failure_leaves_files [where rep = "?rep2" and lib = sample_lib and strm = True]
  have fails2: "receive sample_lib True (reply ?ev2) = Inl (RequestException ''503 Server Error'')"
    by simp
  have run2: "?run2 = (fst ?run2, fst (snd ?run2), snd (snd ?run2))" by simp
  have "snd (snd ?run2) \<noteq> []" by (simp add: reqs2)
  with transport_failure_leaves_files [where lib = sample_lib and strm = True and ev = "?ev2"
      and m = "''503 Server Error''" and st = sample_files and prompt = "Some ''hello''"
      and new_chat = True and load_file = None and res = "fst ?run2" and st' = "fst (snd ?run2)"
      and reqs = "snd (snd ?run2)"] fails2 run2
  have "fst ?run2 = Inl (RuntimeError ''API request failed: 503 Server Error'')"
    and "fst (snd ?run2) = sample_files"
    by simp_all
  with reqs2 have second: "?run2 =
     (Inl (RuntimeError ''API request failed: 503 Server Error''), sample_files,
      [\<lparr>payload_model = MODEL, payload_messages = JArr [user_msg ''hello''],
        max_tokens = MAX_TOKENS, stream = True\<rparr>])"
    by (metis prod.collapse)
  let ?ev3 = "sample_env\<lparr>reply := PostReturns sample_response_broken\<rparr>"
  let ?run3 = "chat sample_lib True ?ev3 sample_files (Some ''and then?'') False None"
  let ?pre = "[Line ''data: {\"choices\":[{\"delta\":{\"content\":\"hi \"}}]}'']"
  note reqs3 = sample_continue_requests [of True ?ev3]
  have hyp3: "raise_for_status sample_response_broken = Inr ()
      \<and> iter_lines sample_response_broken = ?pre @ ReadError ''Connection broken: IncompleteRead'' # []
      \<and> (\<forall>it \<in> set ?pre. decodable it \<and> it \<noteq> sentinel)
      \<and> (\<forall>chunk \<in> set (chunks (json_loads sample_lib) ?pre). fragment chunk \<noteq> None)"
    by (simp add: sample_response_broken_def raise_for_status_def utf8_valid_def sentinel_def
        chunks_Cons sample_lib_fields sample_loads_def fragment_def choice_fragment_def
        delta_fragment_def)
  with transport_failure_leaves_files [where r = sample_response_broken and pre = "?pre"
      and msg = "''Connection broken: IncompleteRead''" and post = "[]" and lib = sample_lib]
  have fails3: "receive sample_lib True (reply ?ev3) =
      Inl (RequestException ''Connection broken: IncompleteRead'')"
    by simp
  have run3: "?run3 = (fst ?run3, fst (snd ?run3), snd (snd ?run3))" by simp
  have "snd (snd ?run3) \<noteq> []" by (simp add: reqs3)
  with transport_failure_leaves_files [where lib = sample_lib and strm = True and ev = "?ev3"
      and m = "''Connection broken: IncompleteRead''" and st = sample_files
      and prompt = "Some ''and then?''"
      and new_chat = False and load_file = None and res = "fst ?run3" and st' = "fst (snd ?run3)"
      and reqs = "snd (snd ?run3)"] fails3 run3
  have "fst ?run3 = Inl (RuntimeError ''API request failed: Connection broken: IncompleteRead'')"
    and "fst (snd ?run3) = sample_files"
    by simp_all
  with reqs3 have third: "?run3 =
     (Inl (RuntimeError ''API request failed: Connection broken: IncompleteRead''), sample_files,
      [\<lparr>payload_model = MODEL,
        payload_messages = JArr [user_msg ''hello'', assistant_msg (JStr ''hi there''),
                                 user_msg ''and then?''],
        max_tokens = MAX_TOKENS, stream = True\<rparr>])"
    by (metis prod.collapse)
  from first second third show ?thesis by (intro conjI)
qed

subsection \<open>C2: a session of N exchanges\<close>

text \<open>
  C2. A session of N successful invocations, the first with \<^verbatim>\<open>--new\<close> and the others
  plain, has N at least 1 and ends with the pointer on the file named after the first
  clock reading; the transcript in that file holds, in order, the user message and the
  assistant message of each exchange (2N messages, roles alternating user, assistant),
  each usage counter is the sum of that counter over the usage records of the N
  responses, \<^verbatim>\<open>created_at\<close> is the first clock reading and \<^verbatim>\<open>last_updated_at\<close> the
  reading of the last turn. The transcript file, the pointer file, the input file and the
  output file are four different files.
\<close>

theorem session_of_n_exchanges:
  "new_session lib strm st turns = Some st'
   \<and> distinct [history_key lib (get_chat_filename (now_create (turn_env (hd turns)))),
               pointer_key lib, input_key lib, output_key lib] \<longrightarrow>
     turns \<noteq> []
     \<and> (\<exists>t. st' (pointer_key lib) =
               Some (Dumped True (pointer_to (get_chat_filename (now_create (turn_env (hd turns))))))
          \<and> st' (history_key lib (get_chat_filename (now_create (turn_env (hd turns))))) =
               Some (Dumped False (doc_of t))
          \<and> messages t = concat (map (turn_messages lib strm) turns)
          \<and> length (messages t) = 2 * length turns
          \<and> map role (messages t) = concat (replicate (length turns) [''user'', ''assistant''])
          \<and> prompt_tokens (usage t) = usage_sum lib strm ''prompt_tokens'' turns
          \<and> completion_tokens (usage t) = usage_sum lib strm ''completion_tokens'' turns
          \<and> total_tokens (usage t) = usage_sum lib strm ''total_tokens'' turns
          \<and> created_at t = now_create (turn_env (hd turns))
          \<and> last_updated_at t = now_update (turn_env (last turns)))"
proof
  assume a: "new_session lib strm st turns = Some st'
   \<and> distinct [history_key lib (get_chat_filename (now_create (turn_env (hd turns)))),
               pointer_key lib, input_key lib, output_key lib]"
  then have run: "new_session lib strm st turns = Some st'" by simp
  then obtain tn rest where turns: "turns = tn # rest" by (cases turns) simp_all
  let ?st = "edit_input lib (turn_input tn) st"
  let ?st1 = "fst (snd (invoke lib strm st tn True))"
  let ?now = "now_create (turn_env tn)"
  let ?f = "get_chat_filename ?now"
  from a turns have dist: "distinct [history_key lib ?f, pointer_key lib, input_key lib, output_key lib]"
    by simp
  then have ne: "history_key lib ?f \<noteq> pointer_key lib" "history_key lib ?f \<noteq> output_key lib"
    "pointer_key lib \<noteq> output_key lib"
    by auto
  from run turns obtain u where ok: "fst (invoke lib strm st tn True) = Inr u"
    and rest: "continue_turns lib strm ?st1 rest = Some st'"
    by (cases "fst (invoke lib strm st tn True)") simp_all
  have res: "resolve_session lib (turn_env tn) ?st True = Inr (doc_of (fresh ?now), None)"
    by (simp add: resolve_session_new create_chat_history_doc)
  have fname: "file_name (doc_of (fresh ?now)) None = ?f"
    by (simp add: file_name_doc fresh_def)
  from ok res obtain t1 where st1: "?st1 =
       ?st(history_key lib (file_name (doc_of (fresh ?now)) None) \<mapsto> Dumped False (doc_of t1),
          pointer_key lib \<mapsto> Dumped True (pointer_to (file_name (doc_of (fresh ?now)) None)),
          output_key lib \<mapsto> Text (rendered_view lib t1))"
    and m1: "messages t1 = messages (fresh ?now) @ turn_messages lib strm tn"
    and p1: "prompt_tokens (usage t1) =
       prompt_tokens (usage (fresh ?now))
       + usage_field (turn_response lib strm tn) ''prompt_tokens''"
    and c1: "completion_tokens (usage t1) =
       completion_tokens (usage (fresh ?now))
       + usage_field (turn_response lib strm tn) ''completion_tokens''"
    and o1: "total_tokens (usage t1) =
       total_tokens (usage (fresh ?now))
       + usage_field (turn_response lib strm tn) ''total_tokens''"
    and cr1: "created_at t1 = created_at (fresh ?now)"
    and l1: "last_updated_at t1 = now_update (turn_env tn)"
    by (rule invoke_turn)
  have cr: "created_at t1 = ?now" by (simp add: cr1 fresh_def)
  have a1: "?st1 (pointer_key lib) = Some (Dumped True (pointer_to ?f))"
    using ne by (simp add: st1 fname)
  have h1: "?st1 (history_key lib ?f) = Some (Dumped False (doc_of t1))"
    using ne by (simp add: st1 fname)
  have nonempty: "?f \<noteq> []" by (simp add: get_chat_filename_def)
  from continue_turns_extends [OF rest a1 nonempty h1 dist]
  obtain t where act: "st' (pointer_key lib) = Some (Dumped True (pointer_to ?f))"
    and h: "st' (history_key lib ?f) = Some (Dumped False (doc_of t))"
    and m: "messages t = messages t1 @ concat (map (turn_messages lib strm) rest)"
    and p: "prompt_tokens (usage t) =
              prompt_tokens (usage t1) + usage_sum lib strm ''prompt_tokens'' rest"
    and c: "completion_tokens (usage t) =
              completion_tokens (usage t1) + usage_sum lib strm ''completion_tokens'' rest"
    and o: "total_tokens (usage t) =
              total_tokens (usage t1) + usage_sum lib strm ''total_tokens'' rest"
    and crt: "created_at t = created_at t1"
    and l: "last_updated_at t =
              (if rest = [] then last_updated_at t1 else now_update (turn_env (last rest)))"
    by blast
  have msgs: "messages t = concat (map (turn_messages lib strm) turns)"
    by (simp add: m m1 turns fresh_def)
  have "length (messages t) = 2 * length turns"
    by (simp only: msgs turn_messages_length)
  moreover have "map role (messages t) = concat (replicate (length turns) [''user'', ''assistant''])"
    by (simp only: msgs turn_messages_roles)
  moreover have "prompt_tokens (usage t) = usage_sum lib strm ''prompt_tokens'' turns"
    by (simp add: p p1 turns fresh_def)
  moreover have "completion_tokens (usage t) = usage_sum lib strm ''completion_tokens'' turns"
    by (simp add: c c1 turns fresh_def)
  moreover have "total_tokens (usage t) = usage_sum lib strm ''total_tokens'' turns"
    by (simp add: o o1 turns fresh_def)
  moreover have "created_at t = now_create (turn_env (hd turns))"
    by (simp add: crt cr turns)
  moreover have "last_updated_at t = now_update (turn_env (last turns))"
    by (simp add: l l1 turns)
  ultimately have "\<exists>t. st' (pointer_key lib) =
               Some (Dumped True (pointer_to (get_chat_filename (now_create (turn_env (hd turns))))))
          \<and> st' (history_key lib (get_chat_filename (now_create (turn_env (hd turns))))) =
               Some (Dumped False (doc_of t))
          \<and> messages t = concat (map (turn_messages lib strm) turns)
          \<and> length (messages t) = 2 * length turns
          \<and> map role (messages t) = concat (replicate (length turns) [''user'', ''assistant''])
          \<and> prompt_tokens (usage t) = usage_sum lib strm ''prompt_tokens'' turns
          \<and> completion_tokens (usage t) = usage_sum lib strm ''completion_tokens'' turns
          \<and> total_tokens (usage t) = usage_sum lib strm ''total_tokens'' turns
          \<and> created_at t = now_create (turn_env (hd turns))
          \<and> last_updated_at t = now_update (turn_env (last turns))"
    using act h msgs by (intro exI [of _ t] conjI) (simp_all add: turns)
  moreover have "turns \<noteq> []" by (simp add: turns)
  ultimately show "turns \<noteq> []
     \<and> (\<exists>t. st' (pointer_key lib) =
               Some (Dumped True (pointer_to (get_chat_filename (now_create (turn_env (hd turns))))))
          \<and> st' (history_key lib (get_chat_filename (now_create (turn_env (hd turns))))) =
               Some (Dumped False (doc_of t))
          \<and> messages t = concat (map (turn_messages lib strm) turns)
          \<and> length (messages t) = 2 * length turns
          \<and> map role (messages t) = concat (replicate (length turns) [''user'', ''assistant''])
          \<and> prompt_tokens (usage t) = usage_sum lib strm ''prompt_tokens'' turns
          \<and> completion_tokens (usage t) = usage_sum lib strm ''completion_tokens'' turns
          \<and> total_tokens (usage t) = usage_sum lib strm ''total_tokens'' turns
          \<and> created_at t = now_create (turn_env (hd turns))
          \<and> last_updated_at t = now_update (turn_env (last turns)))"
    by (rule conjI [rotated])
qed

theorem session_of_n_exchanges_sample:
  "\<exists>st' t. new_session sample_lib False no_files sample_turns = Some st'
     \<and> st' ''history/2026-01-22T010757-123456.json'' = Some (Dumped False (doc_of t))
     \<and> map role (messages t) = [''user'', ''assistant'', ''user'', ''assistant'']
     \<and> map content (messages t) = [JStr ''hello'', JStr ''hi there'', JStr ''and then?'', JStr ''fine'']
     \<and> prompt_tokens (usage t) = 12
     \<and> completion_tokens (usage t) = 5
     \<and> total_tokens (usage t) = 17
     \<and> last_updated_at t = ''2026-01-22T01:09:02.500000''"
proof -
  let ?t1 = "\<lparr>turn_arg = Some ''hello'', turn_input = None, turn_env = sample_env\<rparr>"
  let ?t2 = "\<lparr>turn_arg = None, turn_input = Some ''and then?\<newline>'', turn_env = sample_env2\<rparr>"
  let ?st' = "fst (snd (invoke sample_lib False sample_files ?t2 False))"
  have run: "new_session sample_lib False no_files sample_turns = Some ?st'"
    by (simp add: sample_turns_def sample_first_turn sample_second_turn)
  have name: "get_chat_filename (now_create (turn_env (hd sample_turns))) =
      ''2026-01-22T010757-123456.json''"
    by (simp add: sample_turns_def sample_env_fields get_chat_filename_def)
  have dist: "distinct [history_key sample_lib (get_chat_filename (now_create (turn_env (hd sample_turns)))),
               pointer_key sample_lib, input_key sample_lib, output_key sample_lib]"
    by (simp add: name sample_keys)
  have r1: "turn_response sample_lib False ?t1 = sample_batch"
    by (simp add: turn_response_def sample_env_fields sample_receive_batched)
  have r2: "turn_response sample_lib False ?t2 = sample_batch2"
    by (simp add: turn_response_def sample_receive2)
  have p1: "turn_prompt sample_lib ?t1 = ''hello''"
    by (simp add: turn_prompt_def acquire_prompt_argument)
  have p2: "turn_prompt sample_lib ?t2 = ''and then?''"
    by (simp add: turn_prompt_def sample_prompt2)
  have msgs: "concat (map (turn_messages sample_lib False) sample_turns) =
      [\<lparr>role = ''user'', content = JStr ''hello''\<rparr>,
       \<lparr>role = ''assistant'', content = JStr ''hi there''\<rparr>,
       \<lparr>role = ''user'', content = JStr ''and then?''\<rparr>,
       \<lparr>role = ''assistant'', content = JStr ''fine''\<rparr>]"
    by (simp add: sample_turns_def turn_messages_def r1 r2 p1 p2 sample_batch_content)
       (simp add: sample_batch2_def assistant_content_def)
  have sums: "usage_sum sample_lib False ''prompt_tokens'' sample_turns = 12"
      "usage_sum sample_lib False ''completion_tokens'' sample_turns = 5"
      "usage_sum sample_lib False ''total_tokens'' sample_turns = 17"
    by (simp_all add: sample_turns_def r1 r2 usage_field_def sample_batch_def sample_usage_def
        sample_batch2_def)
  have last: "now_update (turn_env (last sample_turns)) = ''2026-01-22T01:09:02.500000''"
    by (simp add: sample_turns_def sample_env2_fields)
  from session_of_n_exchanges [where lib = sample_lib and strm = False and st = no_files
      and turns = sample_turns and st' = "?st'"] run dist
  obtain t where "?st' (history_key sample_lib (get_chat_filename (now_create (turn_env (hd sample_turns)))))
        = Some (Dumped False (doc_of t))"
    and "messages t = concat (map (turn_messages sample_lib False) sample_turns)"
    and "prompt_tokens (usage t) = usage_sum sample_lib False ''prompt_tokens'' sample_turns"
    and "completion_tokens (usage t) = usage_sum sample_lib False ''completion_tokens'' sample_turns"
    and "total_tokens (usage t) = usage_sum sample_lib False ''total_tokens'' sample_turns"
    and "last_updated_at t = now_update (turn_env (last sample_turns))"
    by blast
  then have "?st' ''history/2026-01-22T010757-123456.json'' = Some (Dumped False (doc_of t))
     \<and> map role (messages t) = [''user'', ''assistant'', ''user'', ''assistant'']
     \<and> map content (messages t) = [JStr ''hello'', JStr ''hi there'', JStr ''and then?'', JStr ''fine'']
     \<and> prompt_tokens (usage t) = 12
     \<and> completion_tokens (usage t) = 5
     \<and> total_tokens (usage t) = 17
     \<and> last_updated_at t = ''2026-01-22T01:09:02.500000''"
    by (simp add: name msgs sums last sample_keys)
  with run show ?thesis by (intro exI [where x = t] exI [where x = "?st'"]) (rule conjI)
qed

subsection \<open>C3: loading a chat\<close>

text \<open>
  C3, as amended. With \<^verbatim>\<open>--load\<close> and a name that leads, in the history directory, to
  a file that holds a transcript, the pointer file and the output file not being
  directories, the invocation sets the pointer file to that name and writes the rendered
  view of that transcript; it posts no request and leaves every other file as it is, so
  that the file of the transcript is unchanged whenever it is neither the pointer file nor
  the output file. When nothing exists at the path of that name, it fails with
  \<^verbatim>\<open>FileNotFoundError\<close> and changes nothing; when what is there cannot be read as
  JSON (a directory, bytes that are not UTF-8, a text that is not JSON), it fails with the
  error of the reading and changes nothing. For a file that holds any JSON value, the
  pointer file is set and the output file holds what \<^verbatim>\<open>update_output_md\<close> has
  written of that value when it ends.
\<close>

theorem load_shows_without_sending:
  "(filename \<noteq> [] \<and> st (history_key lib filename) = Some c \<and> json_load lib c = Inr (doc_of t)
      \<and> st (pointer_key lib) \<noteq> Some Directory \<and> st (output_key lib) \<noteq> Some Directory \<longrightarrow>
      (\<exists>st'. chat lib strm ev st prompt new_chat (Some filename) = (Inr (), st', [])
         \<and> st' = st(pointer_key lib \<mapsto> Dumped True (pointer_to filename),
                     output_key lib \<mapsto> Text (rendered_view lib t))
         \<and> (\<forall>key. key \<noteq> pointer_key lib \<and> key \<noteq> output_key lib \<longrightarrow> st' key = st key)
         \<and> (history_key lib filename \<noteq> pointer_key lib
               \<and> history_key lib filename \<noteq> output_key lib \<longrightarrow>
             st' (history_key lib filename) = Some c)
         \<and> (pointer_key lib \<noteq> output_key lib \<longrightarrow>
             st' (pointer_key lib) = Some (Dumped True (pointer_to filename)))
         \<and> st' (output_key lib) = Some (Text (rendered_view lib t))))
   \<and> (filename \<noteq> [] \<and> st (history_key lib filename) = None \<longrightarrow>
      chat lib strm ev st prompt new_chat (Some filename) =
        (Inl (FileNotFoundError (''Chat history file not found: '' @ filename)), st, []))
   \<and> (filename \<noteq> [] \<and> st (history_key lib filename) = Some c \<and> json_load lib c = Inl e \<longrightarrow>
      chat lib strm ev st prompt new_chat (Some filename) = (Inl e, st, []))
   \<and> json_load lib Directory = Inl IsADirectoryError
   \<and> (filename \<noteq> [] \<and> st (history_key lib filename) = Some c \<and> json_load lib c = Inr d
        \<and> st (pointer_key lib) \<noteq> Some Directory \<and> st (output_key lib) \<noteq> Some Directory \<longrightarrow>
      chat lib strm ev st prompt new_chat (Some filename) =
        (snd (render lib d),
         st(pointer_key lib \<mapsto> Dumped True (pointer_to filename),
            output_key lib \<mapsto> Text (fst (render lib d))), []))"
proof (intro conjI impI)
  assume a: "filename \<noteq> [] \<and> st (history_key lib filename) = Some c
      \<and> json_load lib c = Inr (doc_of t)
      \<and> st (pointer_key lib) \<noteq> Some Directory \<and> st (output_key lib) \<noteq> Some Directory"
  let ?st' = "st(pointer_key lib \<mapsto> Dumped True (pointer_to filename),
                 output_key lib \<mapsto> Text (rendered_view lib t))"
  from a have "show_loaded lib st filename = (Inr (), ?st', [])"
    using show_loaded_found [where st = st and lib = lib and f = filename and c = c and t = t]
    by blast
  with a have run: "chat lib strm ev st prompt new_chat (Some filename) = (Inr (), ?st', [])"
    by (simp add: chat_def)
  from a have "?st' (history_key lib filename) = Some c"
    if "history_key lib filename \<noteq> pointer_key lib \<and> history_key lib filename \<noteq> output_key lib"
    using that by simp
  with run show "\<exists>st'. chat lib strm ev st prompt new_chat (Some filename) = (Inr (), st', [])
         \<and> st' = st(pointer_key lib \<mapsto> Dumped True (pointer_to filename),
                     output_key lib \<mapsto> Text (rendered_view lib t))
         \<and> (\<forall>key. key \<noteq> pointer_key lib \<and> key \<noteq> output_key lib \<longrightarrow> st' key = st key)
         \<and> (history_key lib filename \<noteq> pointer_key lib
               \<and> history_key lib filename \<noteq> output_key lib \<longrightarrow>
             st' (history_key lib filename) = Some c)
         \<and> (pointer_key lib \<noteq> output_key lib \<longrightarrow>
             st' (pointer_key lib) = Some (Dumped True (pointer_to filename)))
         \<and> st' (output_key lib) = Some (Text (rendered_view lib t))"
    by (intro exI [of _ ?st']) simp
next
  assume "filename \<noteq> [] \<and> st (history_key lib filename) = None"
  then show "chat lib strm ev st prompt new_chat (Some filename) =
        (Inl (FileNotFoundError (''Chat history file not found: '' @ filename)), st, [])"
    by (simp add: chat_def show_loaded_missing)
next
  assume "filename \<noteq> [] \<and> st (history_key lib filename) = Some c \<and> json_load lib c = Inl e"
  then show "chat lib strm ev st prompt new_chat (Some filename) = (Inl e, st, [])"
    by (simp add: chat_def show_loaded_def load_chat_history_found)
next
  show "json_load lib Directory = Inl IsADirectoryError"
    by (simp add: json_load_def read_text_def)
next
  assume a: "filename \<noteq> [] \<and> st (history_key lib filename) = Some c \<and> json_load lib c = Inr d
        \<and> st (pointer_key lib) \<noteq> Some Directory \<and> st (output_key lib) \<noteq> Some Directory"
  then have "show_loaded lib st filename =
        (snd (render lib d),
         st(pointer_key lib \<mapsto> Dumped True (pointer_to filename),
            output_key lib \<mapsto> Text (fst (render lib d))), [])"
    using show_loaded_any [where st = st and lib = lib and f = filename and c = c and d = d]
    by blast
  with a show "chat lib strm ev st prompt new_chat (Some filename) =
        (snd (render lib d),
         st(pointer_key lib \<mapsto> Dumped True (pointer_to filename),
            output_key lib \<mapsto> Text (fst (render lib d))), [])"
    by (simp add: chat_def)
qed

theorem load_shows_without_sending_sample:
  "chat sample_lib False sample_env two_chats (Some ''ignored'') True
        (Some ''./2026-01-20T101500.json'') =
     (Inr (),
      two_chats(''history/active_chat.json'' \<mapsto> Dumped True (pointer_to ''./2026-01-20T101500.json''),
                ''output.md'' \<mapsto> Text (rendered_view sample_lib older_transcript)), [])
   \<and> two_chats ''history/active_chat.json'' =
       Some (Dumped True (pointer_to ''2026-01-22T010757-123456.json''))
   \<and> two_chats ''output.md'' = Some (Text (rendered_view sample_lib sample_transcript))
   \<and> rendered_view sample_lib older_transcript \<noteq> rendered_view sample_lib sample_transcript
   \<and> chat sample_lib False sample_env two_chats None False (Some ''missing.json'') =
     (Inl (FileNotFoundError ''Chat history file not found: missing.json''), two_chats, [])
   \<and> chat sample_lib False sample_env two_chats None False (Some ''.'') =
     (Inl IsADirectoryError, two_chats, [])"
proof -
  have found: "''./2026-01-20T101500.json'' \<noteq> []
      \<and> two_chats (history_key sample_lib ''./2026-01-20T101500.json'')
           = Some (Dumped False (doc_of older_transcript))
      \<and> json_load sample_lib (Dumped False (doc_of older_transcript)) = Inr (doc_of older_transcript)
      \<and> two_chats (pointer_key sample_lib) \<noteq> Some Directory
      \<and> two_chats (output_key sample_lib) \<noteq> Some Directory"
    by (simp add: two_chats_def sample_files_def no_files_def sample_keys json_load_dumped)
  have missing: "''missing.json'' \<noteq> [] \<and> two_chats (history_key sample_lib ''missing.json'') = None"
    by (simp add: two_chats_def sample_files_def no_files_def sample_keys)
  have "json_load sample_lib Directory = Inl IsADirectoryError"
    using load_shows_without_sending [where lib = sample_lib] by blast
  then have dir: "''.'' \<noteq> [] \<and> two_chats (history_key sample_lib ''.'') = Some Directory
      \<and> json_load sample_lib Directory = Inl IsADirectoryError"
    by (simp add: two_chats_def sample_files_def no_files_def sample_keys)
  note inst = load_shows_without_sending [where lib = sample_lib and st = two_chats
      and strm = False and ev = sample_env]
  from inst [where filename = "''./2026-01-20T101500.json''"
      and c = "Dumped False (doc_of older_transcript)" and t = older_transcript
      and prompt = "Some ''ignored''" and new_chat = True] found
  have first: "chat sample_lib False sample_env two_chats (Some ''ignored'') True
        (Some ''./2026-01-20T101500.json'') =
     (Inr (),
      two_chats(pointer_key sample_lib \<mapsto> Dumped True (pointer_to ''./2026-01-20T101500.json''),
                output_key sample_lib \<mapsto> Text (rendered_view sample_lib older_transcript)), [])"
    by blast
  from inst [where filename = "''missing.json''" and prompt = None and new_chat = False] missing
  have second: "chat sample_lib False sample_env two_chats None False (Some ''missing.json'') =
     (Inl (FileNotFoundError (''Chat history file not found: '' @ ''missing.json'')), two_chats, [])"
    by blast
  from inst [where filename = "''.''" and prompt = None and new_chat = False
      and c = Directory and e = IsADirectoryError] dir
  have third: "chat sample_lib False sample_env two_chats None False (Some ''.'') =
     (Inl IsADirectoryError, two_chats, [])"
    by blast
  have before: "two_chats ''history/active_chat.json'' =
       Some (Dumped True (pointer_to ''2026-01-22T010757-123456.json''))"
    "two_chats ''output.md'' = Some (Text (rendered_view sample_lib sample_transcript))"
    by (simp_all add: two_chats_def sample_files_def)
  have differ: "rendered_view sample_lib older_transcript \<noteq> rendered_view sample_lib sample_transcript"
    by (simp add: rendered_view_def view_header_def older_transcript_def sample_transcript_def)
  from first second third before differ show ?thesis by (simp add: sample_keys)
qed

text \<open>
  C3 as stated, for every existing file name, does not hold: the pointer file lies in the
  history directory too. Loading \<^verbatim>\<open>active_chat.json\<close> reads the pointer file as if
  it were a transcript, makes the pointer file reference itself, leaves in the output
  file the first line of the view only, and ends with \<^verbatim>\<open>KeyError\<close>.
\<close>

theorem load_of_pointer_file_fails:
  "sample_files (history_key sample_lib ''active_chat.json'') =
     Some (Dumped True (pointer_to ''2026-01-22T010757-123456.json''))
   \<and> chat sample_lib False sample_env sample_files None False (Some ''active_chat.json'') =
     (Inl KeyError,
      sample_files(''history/active_chat.json'' \<mapsto> Dumped True (pointer_to ''active_chat.json''),
                   ''output.md'' \<mapsto> Text ''# Chat History\<newline>\<newline>''), [])"
  by (simp add: chat_def show_loaded_def load_chat_history_def set_active_chat_def
      update_output_md_def write_file_def json_load_def render_def
      sample_files_def no_files_def pointer_to_def
      history_key_def sample_lib_def sample_key_def join_path_def HISTORY_DIR_def
      ACTIVE_CHAT_FILE_def OUTPUT_FILE_def)

subsection \<open>C4: the active chat\<close>

text \<open>
  C4, as amended. Without \<^verbatim>\<open>--new\<close> and \<^verbatim>\<open>--load\<close>: when the pointer file is
  missing, or holds a JSON object that names no active chat, or names a path of the
  history directory at which nothing exists, the session is a fresh empty transcript and
  the invocation goes on exactly as with \<^verbatim>\<open>--new\<close>, posting the prompt alone; when the
  file the pointer names holds a JSON value, that value is the session and the file is the
  one saved to, and when it is a transcript, that transcript is the one continued: the
  request carries its messages followed by the prompt.
\<close>

theorem stale_pointer_falls_back:
  "((st (pointer_key lib) = None
      \<or> (\<exists>c data. st (pointer_key lib) = Some c \<and> json_load lib c = Inr data
            \<and> (names_no_active_chat data
                 \<or> (\<exists>f. names_file data f \<and> st (history_key lib f) = None)))) \<longrightarrow>
     resolve_session lib ev st False = Inr (create_chat_history (now_create ev), None)
     \<and> chat lib strm ev st arg False None = chat lib strm ev st arg True None
     \<and> (acquire_prompt lib st arg = Inr p \<longrightarrow>
          snd (snd (chat lib strm ev st arg False None)) =
            [\<lparr>payload_model = MODEL, payload_messages = JArr [user_msg p],
              max_tokens = MAX_TOKENS, stream = strm\<rparr>]))
   \<and> (st (pointer_key lib) = Some c \<and> json_load lib c = Inr data \<and> names_file data f
        \<and> st (history_key lib f) = Some c' \<and> json_load lib c' = Inr d \<longrightarrow>
     resolve_session lib ev st False = Inr (d, Some f)
     \<and> (d = doc_of t \<and> acquire_prompt lib st arg = Inr p \<longrightarrow>
          snd (snd (chat lib strm ev st arg False None)) =
            [\<lparr>payload_model = MODEL,
              payload_messages = JArr (map msg_doc (messages t) @ [user_msg p]),
              max_tokens = MAX_TOKENS, stream = strm\<rparr>]))"
proof (intro conjI impI)
  assume a: "st (pointer_key lib) = None
      \<or> (\<exists>c data. st (pointer_key lib) = Some c \<and> json_load lib c = Inr data
            \<and> (names_no_active_chat data
                 \<or> (\<exists>f. names_file data f \<and> st (history_key lib f) = None)))"
  then show r: "resolve_session lib ev st False = Inr (create_chat_history (now_create ev), None)"
    by (rule resolve_session_fallback)
  then show "chat lib strm ev st arg False None = chat lib strm ev st arg True None"
    by (simp add: chat_def take_turn_def resolve_session_new)
  assume p: "acquire_prompt lib st arg = Inr p"
  have m: "getitem (create_chat_history (now_create ev)) ''messages'' = Inr (JArr [])"
    by (simp add: create_chat_history_def)
  from take_turn_requests [OF r p m, of strm]
  show "snd (snd (chat lib strm ev st arg False None)) =
            [\<lparr>payload_model = MODEL, payload_messages = JArr [user_msg p],
              max_tokens = MAX_TOKENS, stream = strm\<rparr>]"
    by (simp add: chat_def)
next
  assume a: "st (pointer_key lib) = Some c \<and> json_load lib c = Inr data \<and> names_file data f
        \<and> st (history_key lib f) = Some c' \<and> json_load lib c' = Inr d"
  then show r0: "resolve_session lib ev st False = Inr (d, Some f)"
    using resolve_session_continue [where st = st and lib = lib and c = c and data = data
        and f = f and c' = c' and d = d and ev = ev]
    by blast
  assume dp: "d = doc_of t \<and> acquire_prompt lib st arg = Inr p"
  then have p: "acquire_prompt lib st arg = Inr p" by simp
  from r0 dp have r: "resolve_session lib ev st False = Inr (doc_of t, Some f)" by simp
  from take_turn_requests [OF r p getitem_doc(2), of strm]
  show "snd (snd (chat lib strm ev st arg False None)) =
            [\<lparr>payload_model = MODEL,
              payload_messages = JArr (map msg_doc (messages t) @ [user_msg p]),
              max_tokens = MAX_TOKENS, stream = strm\<rparr>]"
    by (simp add: chat_def)
qed

theorem stale_pointer_falls_back_sample:
  "chat sample_lib False sample_env no_files (Some ''hello'') False None =
     (Inr (), sample_files,
      [\<lparr>payload_model = MODEL, payload_messages = JArr [user_msg ''hello''],
        max_tokens = MAX_TOKENS, stream = False\<rparr>])
   \<and> resolve_session sample_lib sample_env
        (no_files(''history/active_chat.json'' \<mapsto> Dumped True (pointer_to ''gone.json''))) False =
       Inr (create_chat_history ''2026-01-22T01:07:57.123456'', None)
   \<and> resolve_session sample_lib sample_env
        (no_files(''history/active_chat.json'' \<mapsto> Dumped True (JObj []))) False =
       Inr (create_chat_history ''2026-01-22T01:07:57.123456'', None)
   \<and> snd (snd (chat sample_lib False sample_env sample_files (Some ''and then?'') False None)) =
       [\<lparr>payload_model = MODEL,
         payload_messages = JArr [user_msg ''hello'', assistant_msg (JStr ''hi there''),
                                  user_msg ''and then?''],
         max_tokens = MAX_TOKENS, stream = False\<rparr>]"
proof -
  let ?stale = "no_files(''history/active_chat.json'' \<mapsto> Dumped True (pointer_to ''gone.json''))"
  let ?unnamed = "no_files(''history/active_chat.json'' \<mapsto> Dumped True (JObj []))"
  have missing: "no_files (pointer_key sample_lib) = None
      \<or> (\<exists>c data. no_files (pointer_key sample_lib) = Some c \<and> json_load sample_lib c = Inr data
            \<and> (names_no_active_chat data
                 \<or> (\<exists>f. names_file data f \<and> no_files (history_key sample_lib f) = None)))"
    by (simp add: no_files_def sample_keys)
  have "?stale (pointer_key sample_lib) = Some (Dumped True (pointer_to ''gone.json''))
      \<and> json_load sample_lib (Dumped True (pointer_to ''gone.json'')) = Inr (pointer_to ''gone.json'')
      \<and> names_file (pointer_to ''gone.json'') ''gone.json''
      \<and> ?stale (history_key sample_lib ''gone.json'') = None"
    by (simp add: names_file_def pointer_to_def no_files_def sample_keys json_load_dumped)
  then have stale: "?stale (pointer_key sample_lib) = None
      \<or> (\<exists>c data. ?stale (pointer_key sample_lib) = Some c \<and> json_load sample_lib c = Inr data
            \<and> (names_no_active_chat data
                 \<or> (\<exists>f. names_file data f \<and> ?stale (history_key sample_lib f) = None)))"
    by blast
  have "?unnamed (pointer_key sample_lib) = Some (Dumped True (JObj []))
      \<and> json_load sample_lib (Dumped True (JObj [])) = Inr (JObj [])
      \<and> names_no_active_chat (JObj [])"
    by (simp add: names_no_active_chat_def sample_keys json_load_dumped)
  then have unnamed: "?unnamed (pointer_key sample_lib) = None
      \<or> (\<exists>c data. ?unnamed (pointer_key sample_lib) = Some c \<and> json_load sample_lib c = Inr data
            \<and> (names_no_active_chat data
                 \<or> (\<exists>f. names_file data f \<and> ?unnamed (history_key sample_lib f) = None)))"
    by blast
  have active: "sample_files (pointer_key sample_lib) =
        Some (Dumped True (pointer_to ''2026-01-22T010757-123456.json''))
      \<and> json_load sample_lib (Dumped True (pointer_to ''2026-01-22T010757-123456.json'')) =
          Inr (pointer_to ''2026-01-22T010757-123456.json'')
      \<and> names_file (pointer_to ''2026-01-22T010757-123456.json'') ''2026-01-22T010757-123456.json''
      \<and> sample_files (history_key sample_lib ''2026-01-22T010757-123456.json'') =
          Some (Dumped False (doc_of sample_transcript))
      \<and> json_load sample_lib (Dumped False (doc_of sample_transcript)) = Inr (doc_of sample_transcript)"
    by (simp add: sample_files_def names_file_def pointer_to_def sample_keys json_load_dumped)
  have arg: "acquire_prompt sample_lib sample_files (Some ''and then?'') = Inr ''and then?''"
    by (simp add: acquire_prompt_def)
  from stale_pointer_falls_back [where st = no_files and ev = sample_env and lib = sample_lib
      and strm = False and arg = "Some ''hello''"] missing
  have "chat sample_lib False sample_env no_files (Some ''hello'') False None =
        chat sample_lib False sample_env no_files (Some ''hello'') True None"
    by blast
  then have c1: "chat sample_lib False sample_env no_files (Some ''hello'') False None =
     (Inr (), sample_files,
      [\<lparr>payload_model = MODEL, payload_messages = JArr [user_msg ''hello''],
        max_tokens = MAX_TOKENS, stream = False\<rparr>])"
    by (simp add: sample_new_turn)
  from stale_pointer_falls_back [where st = "?stale" and ev = sample_env and lib = sample_lib] stale
  have "resolve_session sample_lib sample_env ?stale False =
      Inr (create_chat_history (now_create sample_env), None)"
    by blast
  then have c2: "resolve_session sample_lib sample_env ?stale False =
      Inr (create_chat_history ''2026-01-22T01:07:57.123456'', None)"
    by (simp add: sample_env_fields)
  from stale_pointer_falls_back [where st = "?unnamed" and ev = sample_env and lib = sample_lib] unnamed
  have "resolve_session sample_lib sample_env ?unnamed False =
      Inr (create_chat_history (now_create sample_env), None)"
    by blast
  then have c3: "resolve_session sample_lib sample_env ?unnamed False =
      Inr (create_chat_history ''2026-01-22T01:07:57.123456'', None)"
    by (simp add: sample_env_fields)
  from stale_pointer_falls_back [where st = sample_files and ev = sample_env and lib = sample_lib
      and strm = False and arg = "Some ''and then?''" and p = "''and then?''"
      and c = "Dumped True (pointer_to ''2026-01-22T010757-123456.json'')"
      and data = "pointer_to ''2026-01-22T010757-123456.json''"
      and f = "''2026-01-22T010757-123456.json''"
      and c' = "Dumped False (doc_of sample_transcript)" and d = "doc_of sample_transcript"
      and t = sample_transcript] active arg
  have "snd (snd (chat sample_lib False sample_env sample_files (Some ''and then?'') False None)) =
       [\<lparr>payload_model = MODEL,
         payload_messages = JArr (map msg_doc (messages sample_transcript) @ [user_msg ''and then?'']),
         max_tokens = MAX_TOKENS, stream = False\<rparr>]"
    by blast
  then have c4: "snd (snd (chat sample_lib False sample_env sample_files (Some ''and then?'') False None)) =
       [\<lparr>payload_model = MODEL,
         payload_messages = JArr [user_msg ''hello'', assistant_msg (JStr ''hi there''),
                                  user_msg ''and then?''],
         max_tokens = MAX_TOKENS, stream = False\<rparr>]"
    by (simp add: sample_transcript_def msg_doc_def user_msg_def assistant_msg_def)
  from c1 c2 c3 c4 show ?thesis by (intro conjI)
qed

text \<open>
  C4 as stated does not hold when the file the pointer names exists and is no transcript.
  After \<^verbatim>\<open>--load active_chat.json\<close> the pointer file names itself: the next plain
  invocation reads it as the transcript to continue and ends with \<^verbatim>\<open>KeyError\<close>,
  without falling back to a new chat and without sending anything.
\<close>

theorem pointer_to_pointer_file_fails:
  "chat sample_lib False sample_env
     (sample_files(''history/active_chat.json'' \<mapsto> Dumped True (pointer_to ''active_chat.json'')))
     (Some ''hello'') False None =
     (Inl KeyError,
      sample_files(''history/active_chat.json'' \<mapsto> Dumped True (pointer_to ''active_chat.json'')),
      [])
   \<and> (sample_files(''history/active_chat.json'' \<mapsto> Dumped True (pointer_to ''active_chat.json'')))
        (history_key sample_lib ''active_chat.json'') =
       Some (Dumped True (pointer_to ''active_chat.json''))"
  by (simp add: chat_def take_turn_def resolve_session_def get_active_chat_def
      load_chat_history_def json_load_def acquire_prompt_def exchange_def append_item_def
      pointer_to_def history_key_def sample_lib_def sample_key_def join_path_def HISTORY_DIR_def
      ACTIVE_CHAT_FILE_def)

subsection \<open>C5: streaming and batched exchanges\<close>

text \<open>
  C5, as amended. Take a stream of well-formed chunks whose content fragments concatenate
  to \<open>S\<close> and of which at least one carries a usage that is not empty, the last of them
  \<open>U\<close>, and a batched response whose first choice has the content \<open>S\<close> and whose usage
  is \<open>U\<close>. The streaming handler then returns the dict of content \<open>S\<close> and usage \<open>U\<close>,
  from which \<^verbatim>\<open>chat\<close> reads the same content and the same usage as from the batched
  response; and for every files and arguments the streamed invocation and the batched
  one end with the same outcome and the same files.
\<close>

theorem streaming_equals_batched:
  "(\<forall>it \<in> set (before_done (iter_lines r1)). decodable it)
   \<and> (\<forall>chunk \<in> set (chunks (json_loads lib) (iter_lines r1)). fragment chunk \<noteq> None)
   \<and> concat (map the_fragment (chunks (json_loads lib) (iter_lines r1))) = S
   \<and> carried_usages (json_loads lib) (iter_lines r1) \<noteq> []
   \<and> last (carried_usages (json_loads lib) (iter_lines r1)) = U
   \<and> raise_for_status r1 = Inr ()
   \<and> raise_for_status r2 = Inr ()
   \<and> json_result r2 = Inr b
   \<and> assistant_content b = Inr (JStr S)
   \<and> getitem b ''usage'' = Inr U
   \<longrightarrow>
     receive lib True (PostReturns r1) = Inr (stream_response S U)
     \<and> assistant_content (stream_response S U) = assistant_content b
     \<and> getitem (stream_response S U) ''usage'' = getitem b ''usage''
     \<and> fst (chat lib True (ev\<lparr>reply := PostReturns r1\<rparr>) st arg new_chat load_file) =
         fst (chat lib False (ev\<lparr>reply := PostReturns r2\<rparr>) st arg new_chat load_file)
     \<and> fst (snd (chat lib True (ev\<lparr>reply := PostReturns r1\<rparr>) st arg new_chat load_file)) =
         fst (snd (chat lib False (ev\<lparr>reply := PostReturns r2\<rparr>) st arg new_chat load_file))"
proof (rule impI)
  assume a: "(\<forall>it \<in> set (before_done (iter_lines r1)). decodable it)
   \<and> (\<forall>chunk \<in> set (chunks (json_loads lib) (iter_lines r1)). fragment chunk \<noteq> None)
   \<and> concat (map the_fragment (chunks (json_loads lib) (iter_lines r1))) = S
   \<and> carried_usages (json_loads lib) (iter_lines r1) \<noteq> []
   \<and> last (carried_usages (json_loads lib) (iter_lines r1)) = U
   \<and> raise_for_status r1 = Inr ()
   \<and> raise_for_status r2 = Inr ()
   \<and> json_result r2 = Inr b
   \<and> assistant_content b = Inr (JStr S)
   \<and> getitem b ''usage'' = Inr U"
  then have wf: "\<forall>it \<in> set (before_done (iter_lines r1)). decodable it"
    "\<forall>chunk \<in> set (chunks (json_loads lib) (iter_lines r1)). fragment chunk \<noteq> None"
    by blast+
  from a have "last_or zero_usage (carried_usages (json_loads lib) (iter_lines r1)) = U"
    by (simp add: last_or_def)
  with handle_stream_well_formed [OF wf] a
  have "handle_stream (json_loads lib) (iter_lines r1) = Inr (stream_response S U)"
    by simp
  with a have s: "receive lib True (PostReturns r1) = Inr (stream_response S U)"
    by (simp add: receive_stream)
  from a have b: "receive lib False (PostReturns r2) = Inr b"
    by (simp add: receive_batch)
  from a have c: "assistant_content (stream_response S U) = assistant_content b"
    by (simp add: assistant_content_stream_response)
  from a have u: "getitem (stream_response S U) ''usage'' = getitem b ''usage''"
    by (simp add: getitem_stream_response_usage)
  from s c u chat_same_response [OF s b c u, of ev st arg new_chat load_file]
  show "receive lib True (PostReturns r1) = Inr (stream_response S U)
     \<and> assistant_content (stream_response S U) = assistant_content b
     \<and> getitem (stream_response S U) ''usage'' = getitem b ''usage''
     \<and> fst (chat lib True (ev\<lparr>reply := PostReturns r1\<rparr>) st arg new_chat load_file) =
         fst (chat lib False (ev\<lparr>reply := PostReturns r2\<rparr>) st arg new_chat load_file)
     \<and> fst (snd (chat lib True (ev\<lparr>reply := PostReturns r1\<rparr>) st arg new_chat load_file)) =
         fst (snd (chat lib False (ev\<lparr>reply := PostReturns r2\<rparr>) st arg new_chat load_file))"
    by blast
qed

theorem streaming_equals_batched_sample:
  "fst (snd (chat sample_lib True sample_env no_files (Some ''hello'') True None)) = sample_files
   \<and> fst (snd (chat sample_lib False sample_env no_files (Some ''hello'') True None)) = sample_files
   \<and> fst (chat sample_lib True sample_env no_files (Some ''hello'') True None) = Inr ()"
proof -
  have hyps: "(\<forall>it \<in> set (before_done (iter_lines sample_response)). decodable it)
   \<and> (\<forall>chunk \<in> set (chunks (json_loads sample_lib) (iter_lines sample_response)). fragment chunk \<noteq> None)
   \<and> concat (map the_fragment (chunks (json_loads sample_lib) (iter_lines sample_response))) = ''hi there''
   \<and> carried_usages (json_loads sample_lib) (iter_lines sample_response) \<noteq> []
   \<and> last (carried_usages (json_loads sample_lib) (iter_lines sample_response)) = sample_usage
   \<and> raise_for_status sample_response = Inr ()
   \<and> raise_for_status sample_response = Inr ()
   \<and> json_result sample_response = Inr sample_batch
   \<and> assistant_content sample_batch = Inr (JStr ''hi there'')
   \<and> getitem sample_batch ''usage'' = Inr sample_usage"
    using sample_decodable sample_well_formed
    by (simp add: sample_response_def sample_lib_def sample_fragment_text sample_carried_usages
        raise_for_status_def sample_batch_content sample_batch_usage)
  have ev: "sample_env\<lparr>reply := PostReturns sample_response\<rparr> = sample_env"
    by (simp add: sample_env_def)
  from streaming_equals_batched [where ?r1.0 = sample_response and ?r2.0 = sample_response
      and lib = sample_lib and S = "''hi there''" and U = sample_usage and b = sample_batch
      and ev = sample_env and st = no_files and arg = "Some ''hello''" and new_chat = True
      and load_file = None] hyps
  have "fst (chat sample_lib True sample_env no_files (Some ''hello'') True None) =
          fst (chat sample_lib False sample_env no_files (Some ''hello'') True None)"
    and "fst (snd (chat sample_lib True sample_env no_files (Some ''hello'') True None)) =
          fst (snd (chat sample_lib False sample_env no_files (Some ''hello'') True None))"
    unfolding ev by blast+
  then show ?thesis by (simp add: sample_new_turn)
qed

text \<open>
  C5 as stated, for every usage object, does not hold. When the usage object is empty
  (\<^verbatim>\<open>"usage": {}\<close>) the streaming handler passes over it and returns the usage of
  three zeros, so the streamed turn succeeds and saves the transcript with counters of
  zero, while the batched turn with the same content and the same usage object ends with
  \<^verbatim>\<open>KeyError\<close> on \<^verbatim>\<open>response_usage["prompt_tokens"]\<close> and saves nothing.
\<close>

theorem empty_usage_object_differs:
  "concat (map the_fragment (chunks sample_loads sample_stream_empty_usage)) = ''hi there''
   \<and> getitem (last (chunks sample_loads sample_stream_empty_usage)) ''usage'' = Inr (JObj [])
   \<and> assistant_content sample_batch_empty_usage = Inr (JStr ''hi there'')
   \<and> getitem sample_batch_empty_usage ''usage'' = Inr (JObj [])
   \<and> chat sample_lib True (sample_env\<lparr>reply := PostReturns sample_response_empty_usage\<rparr>)
        no_files (Some ''hello'') True None =
     (Inr (),
      no_files(''history/2026-01-22T010757-123456.json'' \<mapsto> Dumped False (doc_of zero_usage_transcript),
               ''history/active_chat.json'' \<mapsto> Dumped True (pointer_to ''2026-01-22T010757-123456.json''),
               ''output.md'' \<mapsto> Text (rendered_view sample_lib zero_usage_transcript)),
      [\<lparr>payload_model = MODEL, payload_messages = JArr [user_msg ''hello''],
        max_tokens = MAX_TOKENS, stream = True\<rparr>])
   \<and> chat sample_lib False (sample_env\<lparr>reply := PostReturns sample_response_empty_usage\<rparr>)
        no_files (Some ''hello'') True None =
     (Inl KeyError, no_files,
      [\<lparr>payload_model = MODEL, payload_messages = JArr [user_msg ''hello''],
        max_tokens = MAX_TOKENS, stream = False\<rparr>])"
proof -
  let ?ev = "sample_env\<lparr>reply := PostReturns sample_response_empty_usage\<rparr>"
  have frag: "concat (map the_fragment (chunks sample_loads sample_stream_empty_usage)) = ''hi there''"
    by (simp add: sample_empty_usage_chunks fragment_def choice_fragment_def delta_fragment_def)
  have last: "getitem (last (chunks sample_loads sample_stream_empty_usage)) ''usage'' = Inr (JObj [])"
    by (simp add: sample_empty_usage_chunks)
  have content: "assistant_content sample_batch_empty_usage = Inr (JStr ''hi there'')"
    by (simp add: sample_batch_empty_usage_def assistant_content_def)
  have usage: "getitem sample_batch_empty_usage ''usage'' = Inr (JObj [])"
    by (simp add: sample_batch_empty_usage_def)
  have r: "receive sample_lib False (PostReturns sample_response_empty_usage) =
      Inr sample_batch_empty_usage"
    by (simp add: receive_def raise_for_status_def sample_response_empty_usage_def)
  have "record_response ?ev
          (doc_of ((fresh ''2026-01-22T01:07:57.123456'')
             \<lparr>messages := messages (fresh ''2026-01-22T01:07:57.123456'')
                          @ [\<lparr>role = ''user'', content = JStr ''hello''\<rparr>]\<rparr>))
          sample_batch_empty_usage = Inl KeyError"
    by (simp add: record_response_def content usage assistant_msg_doc append_item_doc
        add_counter_def getitem_doc getitem_usage_doc)
  then have "exchange sample_lib False ?ev (doc_of (fresh ''2026-01-22T01:07:57.123456'')) ''hello'' =
      ([\<lparr>payload_model = MODEL, payload_messages = JArr [user_msg ''hello''],
         max_tokens = MAX_TOKENS, stream = False\<rparr>], Inl KeyError)"
    by (simp add: exchange_doc r) (simp add: fresh_def)
  then have batched: "chat sample_lib False ?ev no_files (Some ''hello'') True None =
     (Inl KeyError, no_files,
      [\<lparr>payload_model = MODEL, payload_messages = JArr [user_msg ''hello''],
        max_tokens = MAX_TOKENS, stream = False\<rparr>])"
    by (simp add: chat_def take_turn_def resolve_session_new acquire_prompt_argument
        create_chat_history_doc sample_env_def)
  from frag last content usage sample_empty_usage_streamed batched show ?thesis by (intro conjI)
qed

subsection \<open>C6: the content of a stream\<close>

text \<open>
  C6, as amended. When every line before the sentinel decodes as UTF-8 and every payload
  the parser accepts is a well-formed chunk, the handler returns the concatenation, in
  arrival order, of the content fragments of the chunks before the sentinel. For every
  sequence of lines, what follows the sentinel \<^verbatim>\<open>data: [DONE]\<close> is ignored, and a
  decodable data line whose payload the parser rejects is skipped: the result is that of
  the stream without it.
\<close>

theorem stream_content_of_well_formed_chunks:
  "((\<forall>it \<in> set (before_done items). decodable it)
      \<and> (\<forall>chunk \<in> set (chunks loads items). fragment chunk \<noteq> None) \<longrightarrow>
    handle_stream loads items =
      Inr (stream_response (concat (map the_fragment (chunks loads items)))
             (last_or zero_usage (carried_usages loads items))))
   \<and> handle_stream loads (pre @ sentinel # post) = handle_stream loads pre
   \<and> (utf8_valid l \<and> take 6 l = ''data: '' \<and> drop 6 l \<noteq> ''[DONE]''
        \<and> loads (drop 6 l) = None \<longrightarrow>
      handle_stream loads (pre @ Line l # post) = handle_stream loads (pre @ post))"
proof (intro conjI impI)
  assume "(\<forall>it \<in> set (before_done items). decodable it)
      \<and> (\<forall>chunk \<in> set (chunks loads items). fragment chunk \<noteq> None)"
  then show "handle_stream loads items =
      Inr (stream_response (concat (map the_fragment (chunks loads items)))
             (last_or zero_usage (carried_usages loads items)))"
    using handle_stream_well_formed [of items loads] by blast
next
  show "handle_stream loads (pre @ sentinel # post) = handle_stream loads pre"
    by (rule handle_stream_stops_at_sentinel)
next
  assume "utf8_valid l \<and> take 6 l = ''data: '' \<and> drop 6 l \<noteq> ''[DONE]''
        \<and> loads (drop 6 l) = None"
  then have "skipped loads (Line l)"
    using skipped_bad_payload [of l loads] by blast
  then show "handle_stream loads (pre @ Line l # post) = handle_stream loads (pre @ post)"
    by (rule handle_stream_skips)
qed

theorem stream_content_sample:
  "handle_stream sample_loads sample_stream = Inr (stream_response ''hi there'' sample_usage)
   \<and> handle_stream sample_loads
         ([Line ''data: {\"choices\":[{\"delta\":{\"content\":\"hi \"}}]}'']
          @ Line ''data: {broken'' # [Line ''data: {\"choices\":[{\"delta\":{\"content\":\"there\"}}]}''])
       = handle_stream sample_loads
         ([Line ''data: {\"choices\":[{\"delta\":{\"content\":\"hi \"}}]}'']
          @ [Line ''data: {\"choices\":[{\"delta\":{\"content\":\"there\"}}]}''])"
proof -
  note inst = stream_content_of_well_formed_chunks [where items = sample_stream
      and loads = sample_loads
      and pre = "[Line ''data: {\"choices\":[{\"delta\":{\"content\":\"hi \"}}]}'']"
      and l = "''data: {broken''"
      and post = "[Line ''data: {\"choices\":[{\"delta\":{\"content\":\"there\"}}]}'']"]
  have frag: "\<forall>chunk \<in> set (chunks sample_loads sample_stream). fragment chunk \<noteq> None"
    by (simp add: sample_chunks fragment_def choice_fragment_def delta_fragment_def)
  have "handle_stream sample_loads sample_stream =
      Inr (stream_response (concat (map the_fragment (chunks sample_loads sample_stream)))
             (last_or zero_usage (carried_usages sample_loads sample_stream)))"
    using inst sample_decodable frag by blast
  then have first: "handle_stream sample_loads sample_stream =
      Inr (stream_response ''hi there'' sample_usage)"
    by (simp add: sample_carried_usages sample_chunks fragment_def choice_fragment_def
        delta_fragment_def)
  have hyp: "utf8_valid ''data: {broken'' \<and> take 6 ''data: {broken'' = ''data: ''
      \<and> drop 6 ''data: {broken'' \<noteq> ''[DONE]'' \<and> sample_loads (drop 6 ''data: {broken'') = None"
    by (simp add: utf8_valid_def sample_loads_def)
  from inst hyp first show ?thesis by blast
qed

text \<open>
  C6 as stated, for every sequence of lines, does not hold: a payload that is valid JSON but
  no chunk (\<^verbatim>\<open>5\<close>), and a line that is not UTF-8, end the handler with an exception
  that nothing catches.
\<close>

theorem handler_raises_on_unexpected_payloads:
  "handle_stream sample_loads
     [Line ''data: {\"choices\":[{\"delta\":{\"content\":\"hi \"}}]}'', Line ''data: 5'']
     = Inl TypeError
   \<and> sample_loads [CHR 0xFF] = None
   \<and> handle_stream sample_loads [Line (''data: '' @ [CHR 0xFF])] = Inl UnicodeDecodeError"
  by (simp add: sample_loads_def stream_eval)

subsection \<open>C7: the file name and the pointer\<close>

text \<open>
  C7. A successful exchange saves the transcript under the file name of the session when
  it has one, and otherwise under the name derived from \<^verbatim>\<open>created_at\<close> alone (the
  timestamp without its colons, a hyphen for each period, then \<^verbatim>\<open>.json\<close>); the
  pointer file then references that name. The files after the turn are those before it
  with the transcript file, then the pointer file, then the output file written: the
  transcript is found under its name when that file is neither the pointer file nor the
  output file, the pointer is found in the pointer file when that is not the output file.
\<close>

theorem turn_saves_under_file_name:
  "(chat lib strm ev st arg new_chat load_file = (Inr (), st', reqs) \<and> reqs \<noteq> [] \<longrightarrow>
      (\<exists>d0 fn d'. resolve_session lib ev st new_chat = Inr (d0, fn)
           \<and> getitem d' ''created_at'' = getitem d0 ''created_at''
           \<and> (fn = None \<longrightarrow> file_name d0 fn = get_chat_filename (now_create ev))
           \<and> st' = st(history_key lib (file_name d0 fn) \<mapsto> Dumped False d',
                       pointer_key lib \<mapsto> Dumped True (pointer_to (file_name d0 fn)),
                       output_key lib \<mapsto> Text (fst (render lib d')))
           \<and> (history_key lib (file_name d0 fn) \<noteq> pointer_key lib
                 \<and> history_key lib (file_name d0 fn) \<noteq> output_key lib \<longrightarrow>
               st' (history_key lib (file_name d0 fn)) = Some (Dumped False d'))
           \<and> (pointer_key lib \<noteq> output_key lib \<longrightarrow>
               st' (pointer_key lib) = Some (Dumped True (pointer_to (file_name d0 fn))))))
   \<and> file_name (doc_of t) None = get_chat_filename (created_at t)
   \<and> file_name d (Some f) = f
   \<and> get_chat_filename c = stem c @ ''.json''
   \<and> CHR '':'' \<notin> set (stem c) \<and> CHR ''.'' \<notin> set (stem c)
   \<and> length (stem c) \<le> length c"
proof (intro conjI impI)
  assume a: "chat lib strm ev st arg new_chat load_file = (Inr (), st', reqs) \<and> reqs \<noteq> []"
  have "take_turn lib strm ev st arg new_chat = (Inr (), st', reqs)"
  proof (cases "given load_file")
    case True
    with a have "show_loaded lib st (case load_file of Some f \<Rightarrow> f | None \<Rightarrow> []) = (Inr (), st', reqs)"
      by (simp add: chat_cases)
    then have "reqs = []" by (rule show_loaded_no_request)
    with a show ?thesis by simp
  next
    case False
    with a show ?thesis by (simp add: chat_cases)
  qed
  then obtain d0 fn d' where res: "resolve_session lib ev st new_chat = Inr (d0, fn)"
    and cr: "getitem d' ''created_at'' = getitem d0 ''created_at''"
    and st': "st' = st(history_key lib (file_name d0 fn) \<mapsto> Dumped False d',
                       pointer_key lib \<mapsto> Dumped True (pointer_to (file_name d0 fn)),
                       output_key lib \<mapsto> Text (fst (render lib d')))"
    using take_turn_saved by blast
  have new: "file_name d0 fn = get_chat_filename (now_create ev)" if "fn = None"
    using resolve_session_unnamed [of lib ev st new_chat d0] res that
    by (simp add: file_name_fresh)
  have h: "st' (history_key lib (file_name d0 fn)) = Some (Dumped False d')"
    if "history_key lib (file_name d0 fn) \<noteq> pointer_key lib
          \<and> history_key lib (file_name d0 fn) \<noteq> output_key lib"
    using that by (simp add: st')
  have p: "st' (pointer_key lib) = Some (Dumped True (pointer_to (file_name d0 fn)))"
    if "pointer_key lib \<noteq> output_key lib"
    using that by (simp add: st')
  from res cr new st' h p
  show "\<exists>d0 fn d'. resolve_session lib ev st new_chat = Inr (d0, fn)
           \<and> getitem d' ''created_at'' = getitem d0 ''created_at''
           \<and> (fn = None \<longrightarrow> file_name d0 fn = get_chat_filename (now_create ev))
           \<and> st' = st(history_key lib (file_name d0 fn) \<mapsto> Dumped False d',
                       pointer_key lib \<mapsto> Dumped True (pointer_to (file_name d0 fn)),
                       output_key lib \<mapsto> Text (fst (render lib d')))
           \<and> (history_key lib (file_name d0 fn) \<noteq> pointer_key lib
                 \<and> history_key lib (file_name d0 fn) \<noteq> output_key lib \<longrightarrow>
               st' (history_key lib (file_name d0 fn)) = Some (Dumped False d'))
           \<and> (pointer_key lib \<noteq> output_key lib \<longrightarrow>
               st' (pointer_key lib) = Some (Dumped True (pointer_to (file_name d0 fn))))"
    by (intro exI [of _ d0] exI [of _ fn] exI [of _ d']) blast
next
  show "file_name (doc_of t) None = get_chat_filename (created_at t)" by (rule file_name_doc)
next
  show "file_name d (Some f) = f" by (simp add: file_name_def)
next
  show "get_chat_filename c = stem c @ ''.json''" by (simp add: get_chat_filename_def stem_def)
next
  show "CHR '':'' \<notin> set (stem c)" by (simp add: stem_chars)
next
  show "CHR ''.'' \<notin> set (stem c)" by (simp add: stem_chars)
next
  show "length (stem c) \<le> length c" by (simp add: stem_def)
qed

theorem turn_saves_under_file_name_sample:
  "fst (snd (chat sample_lib False sample_env no_files (Some ''hello'') True None)) = sample_files
   \<and> sample_files ''history/2026-01-22T010757-123456.json'' =
       Some (Dumped False (doc_of sample_transcript))
   \<and> sample_files ''history/active_chat.json'' =
       Some (Dumped True (pointer_to ''2026-01-22T010757-123456.json''))
   \<and> get_chat_filename ''2026-01-22T01:07:57.123456'' = ''2026-01-22T010757-123456.json''"
proof -
  have run: "chat sample_lib False sample_env no_files (Some ''hello'') True None =
     (Inr (), sample_files,
      [\<lparr>payload_model = MODEL, payload_messages = JArr [user_msg ''hello''],
        max_tokens = MAX_TOKENS, stream = False\<rparr>]) \<and>
      [\<lparr>payload_model = MODEL, payload_messages = JArr [user_msg ''hello''],
        max_tokens = MAX_TOKENS, stream = False\<rparr>] \<noteq> []"
    by (simp add: sample_new_turn)
  from turn_saves_under_file_name [where lib = sample_lib and strm = False and ev = sample_env
      and st = no_files and arg = "Some ''hello''" and new_chat = True and load_file = None
      and st' = sample_files and c = "''2026-01-22T01:07:57.123456''"] run
  obtain d0 fn d' where res: "resolve_session sample_lib sample_env no_files True = Inr (d0, fn)"
    and new: "fn = None \<longrightarrow> file_name d0 fn = get_chat_filename (now_create sample_env)"
    and h: "history_key sample_lib (file_name d0 fn) \<noteq> pointer_key sample_lib
                 \<and> history_key sample_lib (file_name d0 fn) \<noteq> output_key sample_lib \<longrightarrow>
               sample_files (history_key sample_lib (file_name d0 fn)) = Some (Dumped False d')"
    and a: "pointer_key sample_lib \<noteq> output_key sample_lib \<longrightarrow>
               sample_files (pointer_key sample_lib) = Some (Dumped True (pointer_to (file_name d0 fn)))"
    and g: "get_chat_filename ''2026-01-22T01:07:57.123456'' = stem ''2026-01-22T01:07:57.123456'' @ ''.json''"
    by blast
  from res have "fn = None" by (simp add: resolve_session_new)
  with new have name: "file_name d0 fn = ''2026-01-22T010757-123456.json''"
    by (simp add: sample_env_fields get_chat_filename_def)
  have st: "stem ''2026-01-22T01:07:57.123456'' = ''2026-01-22T010757-123456''"
    by (simp add: stem_def)
  from h a have "sample_files ''history/active_chat.json'' =
       Some (Dumped True (pointer_to ''2026-01-22T010757-123456.json''))"
    by (simp add: name sample_keys)
  moreover have "sample_files ''history/2026-01-22T010757-123456.json'' =
       Some (Dumped False (doc_of sample_transcript))"
    by (simp add: sample_files_def)
  ultimately show ?thesis using g by (simp add: sample_new_turn st)
qed

subsection \<open>C8: the prompt\<close>

text \<open>
  C8. On a turn (no \<^verbatim>\<open>--load\<close>), when no prompt is passed the prompt is the text of
  the input file (\<^verbatim>\<open>input.txt\<close>), stripped of the whitespace around it; when the
  prompt is still empty (no input file, or only whitespace in it) the invocation fails
  with "No prompt provided", with the files unchanged and no request posted. The stripped
  text is empty exactly when every character of the text is a whitespace character of
  Unicode.
\<close>

theorem no_prompt_fails_before_exchange:
  "(\<not> given prompt \<and> st (input_key lib) = Some c \<and> read_text lib c = Inr body
      \<and> strip body \<noteq> [] \<longrightarrow>
      acquire_prompt lib st prompt = Inr (strip body))
   \<and> (\<not> given prompt
        \<and> (st (input_key lib) = None
             \<or> (\<exists>c body. st (input_key lib) = Some c \<and> read_text lib c = Inr body
                   \<and> strip body = []))
        \<and> \<not> given load_file \<and> resolve_session lib ev st new_chat = Inr session \<longrightarrow>
      chat lib strm ev st prompt new_chat load_file =
        (Inl (ValueError ''No prompt provided. Either pass a prompt or create input.md file.''),
         st, []))
   \<and> (strip s = [] \<longleftrightarrow> list_all is_space (utf8_chars s))
   \<and> input_key lib = path_key lib ''input.txt''"
proof (intro conjI impI)
  assume "\<not> given prompt \<and> st (input_key lib) = Some c \<and> read_text lib c = Inr body
      \<and> strip body \<noteq> []"
  then show "acquire_prompt lib st prompt = Inr (strip body)"
    by (simp add: acquire_prompt_input)
next
  assume a: "\<not> given prompt
        \<and> (st (input_key lib) = None
             \<or> (\<exists>c body. st (input_key lib) = Some c \<and> read_text lib c = Inr body
                   \<and> strip body = []))
        \<and> \<not> given load_file \<and> resolve_session lib ev st new_chat = Inr session"
  then have "acquire_prompt lib st prompt =
      Inl (ValueError ''No prompt provided. Either pass a prompt or create input.md file.'')"
    using acquire_prompt_none [of prompt st lib] by blast
  with a show "chat lib strm ev st prompt new_chat load_file =
        (Inl (ValueError ''No prompt provided. Either pass a prompt or create input.md file.''),
         st, [])"
    by (simp add: chat_cases take_turn_def)
next
  show "strip s = [] \<longleftrightarrow> list_all is_space (utf8_chars s)" by (rule strip_empty)
next
  show "input_key lib = path_key lib ''input.txt''" by (simp add: input_key_def INPUT_FILE_def)
qed

theorem no_prompt_fails_before_exchange_sample:
  "acquire_prompt sample_lib (sample_files(''input.txt'' \<mapsto> Text ''  hello there '')) None
     = Inr ''hello there''
   \<and> chat sample_lib False sample_env
          (sample_files(''input.txt'' \<mapsto> Text [CHR '' '', CHR 0x0A, CHR 0x09])) (Some []) False None =
        (Inl (ValueError ''No prompt provided. Either pass a prompt or create input.md file.''),
         sample_files(''input.txt'' \<mapsto> Text [CHR '' '', CHR 0x0A, CHR 0x09]), [])
   \<and> chat sample_lib False sample_env
          (no_files(''input.txt'' \<mapsto> Text [CHR 0xC2, CHR 0xA0, CHR 0xE3, CHR 0x80, CHR 0x80, CHR 0x0A]))
          None True None =
        (Inl (ValueError ''No prompt provided. Either pass a prompt or create input.md file.''),
         no_files(''input.txt'' \<mapsto> Text [CHR 0xC2, CHR 0xA0, CHR 0xE3, CHR 0x80, CHR 0x80, CHR 0x0A]), [])
   \<and> chat sample_lib False sample_env (no_files(''input.md'' \<mapsto> Text ''hello'')) None True None =
        (Inl (ValueError ''No prompt provided. Either pass a prompt or create input.md file.''),
         no_files(''input.md'' \<mapsto> Text ''hello''), [])"
proof -
  let ?st1 = "sample_files(''input.txt'' \<mapsto> Text ''  hello there '')"
  let ?st2 = "sample_files(''input.txt'' \<mapsto> Text [CHR '' '', CHR 0x0A, CHR 0x09])"
  let ?st3 = "no_files(''input.txt'' \<mapsto> Text [CHR 0xC2, CHR 0xA0, CHR 0xE3, CHR 0x80, CHR 0x80, CHR 0x0A])"
  let ?st4 = "no_files(''input.md'' \<mapsto> Text ''hello'')"
  note inst = no_prompt_fails_before_exchange [where lib = sample_lib and ev = sample_env
      and strm = False]
  have h1: "\<not> given None \<and> ?st1 (input_key sample_lib) = Some (Text ''  hello there '')
      \<and> read_text sample_lib (Text ''  hello there '') = Inr ''  hello there ''
      \<and> strip ''  hello there '' \<noteq> []"
    by (simp add: strip_sample sample_keys read_text_def utf8_valid_def)
  from inst [where prompt = None and st = "?st1" and c = "Text ''  hello there ''"
      and body = "''  hello there ''"] h1
  have "acquire_prompt sample_lib ?st1 None = Inr (strip ''  hello there '')" by blast
  then have first: "acquire_prompt sample_lib ?st1 None = Inr ''hello there''"
    by (simp add: strip_sample)
  have res2: "resolve_session sample_lib sample_env ?st2 False =
      Inr (doc_of sample_transcript, Some ''2026-01-22T010757-123456.json'')"
    by (rule resolve_session_continue [where c = "Dumped True (pointer_to ''2026-01-22T010757-123456.json'')"
        and data = "pointer_to ''2026-01-22T010757-123456.json''"
        and c' = "Dumped False (doc_of sample_transcript)"])
     (simp_all add: sample_files_def sample_keys json_load_dumped names_file_pointer)
  have "?st2 (input_key sample_lib) = Some (Text [CHR '' '', CHR 0x0A, CHR 0x09])
      \<and> read_text sample_lib (Text [CHR '' '', CHR 0x0A, CHR 0x09]) = Inr [CHR '' '', CHR 0x0A, CHR 0x09]
      \<and> strip [CHR '' '', CHR 0x0A, CHR 0x09] = []"
    by (simp add: strip_blank sample_keys read_text_def utf8_valid_def)
  then have h2: "\<not> given (Some []) \<and> (?st2 (input_key sample_lib) = None
             \<or> (\<exists>c body. ?st2 (input_key sample_lib) = Some c \<and> read_text sample_lib c = Inr body
                   \<and> strip body = []))
        \<and> \<not> given None \<and> resolve_session sample_lib sample_env ?st2 False =
            Inr (doc_of sample_transcript, Some ''2026-01-22T010757-123456.json'')"
    using res2 by auto
  from inst [where prompt = "Some []" and st = "?st2" and load_file = None and new_chat = False
      and session = "(doc_of sample_transcript, Some ''2026-01-22T010757-123456.json'')"] h2
  have second: "chat sample_lib False sample_env ?st2 (Some []) False None =
        (Inl (ValueError ''No prompt provided. Either pass a prompt or create input.md file.''),
         ?st2, [])" by blast
  have "?st3 (input_key sample_lib) =
        Some (Text [CHR 0xC2, CHR 0xA0, CHR 0xE3, CHR 0x80, CHR 0x80, CHR 0x0A])
      \<and> read_text sample_lib (Text [CHR 0xC2, CHR 0xA0, CHR 0xE3, CHR 0x80, CHR 0x80, CHR 0x0A])
          = Inr [CHR 0xC2, CHR 0xA0, CHR 0xE3, CHR 0x80, CHR 0x80, CHR 0x0A]
      \<and> strip [CHR 0xC2, CHR 0xA0, CHR 0xE3, CHR 0x80, CHR 0x80, CHR 0x0A] = []"
    by (simp add: strip_no_break_space sample_keys read_text_def utf8_valid_def)
  then have h3: "\<not> given None \<and> (?st3 (input_key sample_lib) = None
             \<or> (\<exists>c body. ?st3 (input_key sample_lib) = Some c \<and> read_text sample_lib c = Inr body
                   \<and> strip body = []))
        \<and> \<not> given None \<and> resolve_session sample_lib sample_env ?st3 True =
            Inr (create_chat_history (now_create sample_env), None)"
    using resolve_session_new [of sample_lib sample_env ?st3] by auto
  from inst [where prompt = None and st = "?st3" and load_file = None and new_chat = True
      and session = "(create_chat_history (now_create sample_env), None)"] h3
  have third: "chat sample_lib False sample_env ?st3 None True None =
        (Inl (ValueError ''No prompt provided. Either pass a prompt or create input.md file.''),
         ?st3, [])" by blast
  have h4: "\<not> given None \<and> (?st4 (input_key sample_lib) = None
             \<or> (\<exists>c body. ?st4 (input_key sample_lib) = Some c \<and> read_text sample_lib c = Inr body
                   \<and> strip body = []))
        \<and> \<not> given None \<and> resolve_session sample_lib sample_env ?st4 True =
            Inr (create_chat_history (now_create sample_env), None)"
    using resolve_session_new [of sample_lib sample_env ?st4]
    by (simp add: sample_keys no_files_def)
  from inst [where prompt = None and st = "?st4" and load_file = None and new_chat = True
      and session = "(create_chat_history (now_create sample_env), None)"] h4
  have fourth: "chat sample_lib False sample_env ?st4 None True None =
        (Inl (ValueError ''No prompt provided. Either pass a prompt or create input.md file.''),
         ?st4, [])" by blast
  from first second third fourth show ?thesis by (intro conjI)
qed

subsection \<open>C9: the rendered view\<close>

text \<open>
  C9. \<^verbatim>\<open>update_output_md\<close> replaces the output file by a text that is a function of
  the transcript alone (and of nothing in the files): the header with \<^verbatim>\<open>created_at\<close>,
  \<^verbatim>\<open>last_updated_at\<close> and the model, one section per message in order, labelled with
  the capitalized role and holding the content verbatim, then the three usage counters.
  For the user message "hello", the assistant reply "hi there" and the usage 5/3/8 the
  text has the sections \<^verbatim>\<open>## User\<close> and \<^verbatim>\<open>## Assistant\<close> and the usage block 5/3/8.
  The file is written whenever the output path is not a directory.
\<close>

theorem rendered_view_from_transcript:
  "render lib (doc_of t) = (rendered_view lib t, Inr ())
   \<and> (st (output_key lib) \<noteq> Some Directory \<longrightarrow>
        update_output_md lib st (doc_of t) =
          (Inr (), st(output_key lib \<mapsto> Text (rendered_view lib t))))
   \<and> rendered_view lib t =
       view_header t @ concat (map (view_section lib) (messages t)) @ view_usage (usage t)
   \<and> view_section lib \<lparr>role = r, content = JStr s\<rparr> =
       ''## '' @ capitalize lib r @ ''\<newline>\<newline>'' @ s @ ''\<newline>\<newline>''
   \<and> capitalize lib ''user'' = ''User''
   \<and> capitalize lib ''assistant'' = ''Assistant''
   \<and> rendered_view lib
         \<lparr>model = m,
          messages = [\<lparr>role = ''user'', content = JStr ''hello''\<rparr>,
                      \<lparr>role = ''assistant'', content = JStr ''hi there''\<rparr>],
          usage = \<lparr>prompt_tokens = 5, total_tokens = 8, completion_tokens = 3\<rparr>,
          created_at = c,
          last_updated_at = l\<rparr> =
       ''# Chat History\<newline>\<newline>**Created:** '' @ c
       @ ''\<newline>\<newline>**Last Updated:** '' @ l
       @ ''\<newline>\<newline>**Model:** '' @ m
       @ ''\<newline>\<newline>---\<newline>\<newline>## User\<newline>\<newline>hello\<newline>\<newline>## Assistant\<newline>\<newline>hi there\<newline>\<newline>---\<newline>\<newline>**Usage Statistics:**\<newline>\<newline>- Prompt Tokens: 5\<newline>- Completion Tokens: 3\<newline>- Total Tokens: 8\<newline>''"
proof -
  have whole: "render lib (doc_of t) = (rendered_view lib t, Inr ())"
    by (rule render_doc)
  have view: "st (output_key lib) \<noteq> Some Directory \<longrightarrow>
        update_output_md lib st (doc_of t) =
          (Inr (), st(output_key lib \<mapsto> Text (rendered_view lib t)))"
    using update_output_md_doc [where st = st and lib = lib and t = t] by blast
  have shape: "rendered_view lib t =
      view_header t @ concat (map (view_section lib) (messages t)) @ view_usage (usage t)"
    by (simp add: rendered_view_def)
  have sect: "view_section lib \<lparr>role = r, content = JStr s\<rparr> =
      ''## '' @ capitalize lib r @ ''\<newline>\<newline>'' @ s @ ''\<newline>\<newline>''"
    by (simp add: view_section_def fstring_def)
  have cap: "capitalize lib ''user'' = ''User''" "capitalize lib ''assistant'' = ''Assistant''"
    by (simp_all add: capitalize_def upper_char_def lower_char_def)
  have example: "rendered_view lib
         \<lparr>model = m,
          messages = [\<lparr>role = ''user'', content = JStr ''hello''\<rparr>,
                      \<lparr>role = ''assistant'', content = JStr ''hi there''\<rparr>],
          usage = \<lparr>prompt_tokens = 5, total_tokens = 8, completion_tokens = 3\<rparr>,
          created_at = c,
          last_updated_at = l\<rparr> =
       ''# Chat History\<newline>\<newline>**Created:** '' @ c
       @ ''\<newline>\<newline>**Last Updated:** '' @ l
       @ ''\<newline>\<newline>**Model:** '' @ m
       @ ''\<newline>\<newline>---\<newline>\<newline>## User\<newline>\<newline>hello\<newline>\<newline>## Assistant\<newline>\<newline>hi there\<newline>\<newline>---\<newline>\<newline>**Usage Statistics:**\<newline>\<newline>- Prompt Tokens: 5\<newline>- Completion Tokens: 3\<newline>- Total Tokens: 8\<newline>''"
    by (simp add: rendered_view_def view_header_def view_section_def view_usage_def
        fstring_def capitalize_def str_int_def str_nat.simps digit_char_def upper_char_def
        lower_char_def)
  from whole view shape sect cap example show ?thesis by (intro conjI)
qed

theorem rendered_view_from_transcript_sample:
  "update_output_md sample_lib two_chats (doc_of older_transcript) =
     (Inr (),
      two_chats(''output.md'' \<mapsto> Text
        ''# Chat History\<newline>\<newline>**Created:** 2026-01-20T10:15:00\<newline>\<newline>**Last Updated:** 2026-01-20T10:15:04.250000\<newline>\<newline>**Model:** codestral-latest\<newline>\<newline>---\<newline>\<newline>## User\<newline>\<newline>ping\<newline>\<newline>## Assistant\<newline>\<newline>pong\<newline>\<newline>---\<newline>\<newline>**Usage Statistics:**\<newline>\<newline>- Prompt Tokens: 2\<newline>- Completion Tokens: 1\<newline>- Total Tokens: 3\<newline>''))
   \<and> two_chats ''output.md'' = Some (Text (rendered_view sample_lib sample_transcript))"
proof -
  have "two_chats (output_key sample_lib) \<noteq> Some Directory"
    by (simp add: two_chats_def sample_files_def sample_keys)
  with rendered_view_from_transcript [where lib = sample_lib and st = two_chats
      and t = older_transcript]
  have "update_output_md sample_lib two_chats (doc_of older_transcript) =
          (Inr (), two_chats(output_key sample_lib \<mapsto> Text (rendered_view sample_lib older_transcript)))"
    by blast
  moreover have "two_chats ''output.md'' = Some (Text (rendered_view sample_lib sample_transcript))"
    by (simp add: two_chats_def sample_files_def)
  ultimately show ?thesis by (simp add: sample_keys older_view)
qed

subsection \<open>C10: the usage of a stream\<close>

text \<open>
  C10. When the streaming handler returns, the usage of its result is the usage carried by
  the last chunk, among those read before the sentinel, whose \<^verbatim>\<open>usage\<close> field is not
  empty: a later usage replaces an earlier one, nothing is summed. When no chunk carries a
  usage it is the record of three zeros, and a successful streamed turn then leaves the
  usage counters of the transcript as they were: the three counters of the dict that is
  saved have the values they had, and when the dict held a transcript, the usage of the
  saved transcript is the usage it had.
\<close>

theorem stream_usage_is_last_carried:
  "(handle_stream loads items = Inr r \<longrightarrow>
      getitem r ''usage'' = Inr (last_or zero_usage (carried_usages loads items)))
   \<and> (reply ev = PostReturns resp \<and> carried_usages (json_loads lib) (iter_lines resp) = []
        \<and> resolve_session lib ev st new_chat = Inr (d0, fn)
        \<and> take_turn lib True ev st prompt new_chat = (Inr (), st', reqs) \<longrightarrow>
      (\<exists>d'. st' = st(history_key lib (file_name d0 fn) \<mapsto> Dumped False d',
                        pointer_key lib \<mapsto> Dumped True (pointer_to (file_name d0 fn)),
                        output_key lib \<mapsto> Text (fst (render lib d')))
           \<and> usage_field d' ''prompt_tokens'' = usage_field d0 ''prompt_tokens''
           \<and> usage_field d' ''completion_tokens'' = usage_field d0 ''completion_tokens''
           \<and> usage_field d' ''total_tokens'' = usage_field d0 ''total_tokens''
           \<and> (\<forall>t. d0 = doc_of t \<longrightarrow> (\<exists>t'. d' = doc_of t' \<and> usage t' = usage t))))
   \<and> last_or zero_usage [] = zero_usage
   \<and> last_or zero_usage (us @ [u]) = u
   \<and> zero_usage =
       JObj [(''prompt_tokens'', JInt 0), (''completion_tokens'', JInt 0), (''total_tokens'', JInt 0)]"
proof (intro conjI impI)
  assume "handle_stream loads items = Inr r"
  then show "getitem r ''usage'' = Inr (last_or zero_usage (carried_usages loads items))"
    by (rule handle_stream_usage_item)
next
  assume a: "reply ev = PostReturns resp \<and> carried_usages (json_loads lib) (iter_lines resp) = []
      \<and> resolve_session lib ev st new_chat = Inr (d0, fn)
      \<and> take_turn lib True ev st prompt new_chat = (Inr (), st', reqs)"
  show "\<exists>d'. st' = st(history_key lib (file_name d0 fn) \<mapsto> Dumped False d',
                        pointer_key lib \<mapsto> Dumped True (pointer_to (file_name d0 fn)),
                        output_key lib \<mapsto> Text (fst (render lib d')))
           \<and> usage_field d' ''prompt_tokens'' = usage_field d0 ''prompt_tokens''
           \<and> usage_field d' ''completion_tokens'' = usage_field d0 ''completion_tokens''
           \<and> usage_field d' ''total_tokens'' = usage_field d0 ''total_tokens''
           \<and> (\<forall>t. d0 = doc_of t \<longrightarrow> (\<exists>t'. d' = doc_of t' \<and> usage t' = usage t))"
    by (rule turn_without_usage [where ev = ev and resp = resp and lib = lib and st = st
          and new_chat = new_chat and prompt = prompt and reqs = reqs])
       (simp_all add: a)
next
  show "last_or zero_usage [] = zero_usage" by simp
next
  show "last_or zero_usage (us @ [u]) = u" by (simp add: last_or_def)
next
  show "zero_usage =
       JObj [(''prompt_tokens'', JInt 0), (''completion_tokens'', JInt 0), (''total_tokens'', JInt 0)]"
    by (simp add: zero_usage_def)
qed

theorem stream_usage_is_last_carried_sample:
  "getitem (stream_response ''hi there'' sample_usage) ''usage'' = Inr sample_usage
   \<and> carried_usages sample_loads sample_stream = [sample_usage]
   \<and> (\<exists>t'. fst (snd (take_turn sample_lib True sample_env_plain sample_files
                         (Some ''and then?'') False))
                ''history/2026-01-22T010757-123456.json'' = Some (Dumped False (doc_of t'))
          \<and> usage t' = \<lparr>prompt_tokens = 5, total_tokens = 8, completion_tokens = 3\<rparr>)"
proof -
  let ?run = "take_turn sample_lib True sample_env_plain sample_files (Some ''and then?'') False"
  have first: "getitem (stream_response ''hi there'' sample_usage) ''usage'' =
          Inr (last_or zero_usage (carried_usages sample_loads sample_stream))"
    using stream_usage_is_last_carried [of sample_loads sample_stream
      "stream_response ''hi there'' sample_usage"] sample_handle_stream
    by blast
  have run: "?run = (Inr (), fst (snd ?run), snd (snd ?run))"
    using sample_plain_turn by (metis prod.collapse)
  have hyps: "reply sample_env_plain =
        PostReturns \<lparr>status_code = 200, http_error = [], json_result = Inl ''Expecting value'',
                     iter_lines = sample_stream_plain\<rparr>
      \<and> carried_usages (json_loads sample_lib)
           (iter_lines \<lparr>status_code = 200, http_error = [], json_result = Inl ''Expecting value'',
                         iter_lines = sample_stream_plain\<rparr>) = []
      \<and> resolve_session sample_lib sample_env_plain sample_files False =
           Inr (doc_of sample_transcript, Some ''2026-01-22T010757-123456.json'')"
    by (intro conjI)
       (simp_all add: sample_env_plain_def sample_lib_fields sample_plain_carried_usages
          sample_resolve_active)
  from stream_usage_is_last_carried [where ev = sample_env_plain and lib = sample_lib
      and st = sample_files and new_chat = False and ?d0.0 = "doc_of sample_transcript"
      and fn = "Some ''2026-01-22T010757-123456.json''" and prompt = "Some ''and then?''"
      and st' = "fst (snd ?run)" and reqs = "snd (snd ?run)"
      and resp = "\<lparr>status_code = 200, http_error = [], json_result = Inl ''Expecting value'',
                     iter_lines = sample_stream_plain\<rparr>"] hyps run
  obtain d' where st': "fst (snd ?run) =
        sample_files(history_key sample_lib
                       (file_name (doc_of sample_transcript) (Some ''2026-01-22T010757-123456.json''))
                       \<mapsto> Dumped False d',
                     pointer_key sample_lib \<mapsto>
                       Dumped True (pointer_to (file_name (doc_of sample_transcript)
                                                  (Some ''2026-01-22T010757-123456.json''))),
                     output_key sample_lib \<mapsto> Text (fst (render sample_lib d')))"
    and typed: "\<forall>t. doc_of sample_transcript = doc_of t \<longrightarrow>
                  (\<exists>t'. d' = doc_of t' \<and> usage t' = usage t)"
    by blast
  from typed obtain t' where "d' = doc_of t'" "usage t' = usage sample_transcript" by blast
  with st' have "fst (snd ?run) ''history/2026-01-22T010757-123456.json'' = Some (Dumped False (doc_of t'))
      \<and> usage t' = \<lparr>prompt_tokens = 5, total_tokens = 8, completion_tokens = 3\<rparr>"
    by (simp add: file_name_def sample_keys sample_transcript_def)
  then have "\<exists>t'. fst (snd ?run) ''history/2026-01-22T010757-123456.json'' = Some (Dumped False (doc_of t'))
      \<and> usage t' = \<lparr>prompt_tokens = 5, total_tokens = 8, completion_tokens = 3\<rparr>"
    by (rule exI)
  with first show ?thesis by (simp add: sample_carried_usages)
qed

end
